theory Spec2Isabelle
  imports Main "HOL-Library.AList"
begin

section \<open>Data model\<close>

text \<open>
  Modelled from the spec: the three models the serializers of
  \<^verbatim>\<open>app/recipe/serializers.py\<close> work on (\<^verbatim>\<open>core/models.py\<close> is not among the sources).
  The specification gives \<^verbatim>\<open>Tag\<close> (id, name, owning user), \<^verbatim>\<open>Ingredient\<close> (id, name,
  owning user) and \<^verbatim>\<open>Recipe\<close> (id, title, time_minutes, price, link, description, image,
  owning user, many-to-many tags, many-to-many ingredients). A tag and an ingredient have the
  same columns, so one record describes a row of either table. Users are identified by their
  primary key.
\<close>

type_synonym user = nat

record row =
  row_id :: nat
  row_user :: user
  row_name :: string

text \<open>
  A table is the list of its rows, in insertion order, together with the sequence that
  hands out the next primary key.
\<close>

record table =
  rows :: "row list"
  seq :: nat

text \<open>
  An entry of a nested \<^verbatim>\<open>tags\<close> or \<^verbatim>\<open>ingredients\<close> list is the validated dictionary of
  \<^verbatim>\<open>TagSerializer\<close> or \<^verbatim>\<open>IngredientSerializer\<close>. Their only writable field is
  \<^verbatim>\<open>name\<close> (\<^verbatim>\<open>id\<close> is read-only), so the dictionary is \<^verbatim>\<open>{'name': n}\<close>, written
  \<open>Some n\<close>, or the empty dictionary, written \<open>None\<close>: under a partial update (PATCH)
  the framework skips a field that the request left out, also in a nested serializer.
  The code passes the dictionary on as keyword arguments (\<^verbatim>\<open>**tag\<close>), whatever it holds.
\<close>

type_synonym kwargs = "string option"

datatype error = MultipleObjectsReturned

text \<open>
  The serializer handles the scalar attributes of a recipe uniformly, as the items of a
  dictionary, so a recipe is its key and its attributes by name. A value is a text (title,
  link, description), an integer (time in minutes), a decimal given by its digits and the
  number of those after the point (price) or a reference to a user (owner).
\<close>

datatype val = Str string | Num int | Dec int nat | Ref nat

record recipe =
  recipe_id :: nat
  attrs :: "(string \<times> val) list"

text \<open>
  The rows of a many-to-many relation are pairs (recipe id, tag or ingredient id).
\<close>

type_synonym through = "(nat \<times> nat) list"

record db =
  Tag_objects :: table
  Ingredient_objects :: table
  Recipe_objects :: "recipe list"
  Recipe_seq :: nat
  recipe_tags :: through
  recipe_ingredients :: through

text \<open>
  The validated payload of a recipe write: the two nested lists, each present or absent,
  and the remaining items of the dictionary (what is left after the two \<^verbatim>\<open>pop\<close>s).
\<close>

record validated_data =
  vd_tags :: "kwargs list option"
  vd_ingredients :: "kwargs list option"
  vd_items :: "(string \<times> val) list"

section \<open>The ORM operations the serializers call\<close>

text \<open>
  These are operations of the framework's object-relational mapper, modelled as its
  documentation describes them.
\<close>

text \<open>
  \<^verbatim>\<open>Model.objects.filter(user=auth_user, **kwargs)\<close>: a row matches when it belongs to
  the user and agrees with every keyword given.
\<close>

definition matches :: "user \<Rightarrow> kwargs \<Rightarrow> row \<Rightarrow> bool" where
  "matches auth_user kw r =
     (row_user r = auth_user \<and> (case kw of None \<Rightarrow> True | Some n \<Rightarrow> row_name r = n))"

text \<open>
  \<^verbatim>\<open>Model.objects.create(user=auth_user, **kwargs)\<close>: the new row takes the next key
  of the sequence; a character column that is not given takes the framework's default, the
  empty string.
\<close>

definition objects_create :: "table \<Rightarrow> user \<Rightarrow> kwargs \<Rightarrow> row \<times> table" where
  "objects_create t auth_user kw =
     (let obj = \<lparr>row_id = seq t, row_user = auth_user,
                 row_name = (case kw of None \<Rightarrow> [] | Some n \<Rightarrow> n)\<rparr>
      in (obj, \<lparr>rows = rows t @ [obj], seq = Suc (seq t)\<rparr>))"

text \<open>
  \<^verbatim>\<open>Model.objects.get_or_create(user=auth_user, **kwargs)\<close>: \<^verbatim>\<open>get\<close> returns the
  single matching row, raises \<^verbatim>\<open>DoesNotExist\<close> when there is none (then the row is
  created) and \<^verbatim>\<open>MultipleObjectsReturned\<close> when there are several (which propagates).
  The result is the pair (object, created) and the table.
\<close>

definition get_or_create :: "table \<Rightarrow> user \<Rightarrow> kwargs \<Rightarrow> error + (row \<times> bool \<times> table)" where
  "get_or_create t auth_user kw =
     (case filter (matches auth_user kw) (rows t) of
        [] \<Rightarrow> (let (obj, t') = objects_create t auth_user kw in Inr (obj, True, t'))
      | [obj] \<Rightarrow> Inr (obj, False, t)
      | _ \<Rightarrow> Inl MultipleObjectsReturned)"

text \<open>
  \<^verbatim>\<open>recipe.tags.add(obj)\<close> inserts the pair unless the relation holds it already;
  \<^verbatim>\<open>recipe.tags.clear()\<close> deletes every pair of the recipe.
\<close>

definition add :: "through \<Rightarrow> nat \<Rightarrow> nat \<Rightarrow> through" where
  "add m rid oid = (if (rid, oid) \<in> set m then m else m @ [(rid, oid)])"

definition clear :: "through \<Rightarrow> nat \<Rightarrow> through" where
  "clear m rid = filter (\<lambda>p. fst p \<noteq> rid) m"

text \<open>\<^verbatim>\<open>setattr(instance, attr, value)\<close> on the in-memory object.\<close>

definition setattr :: "recipe \<Rightarrow> string \<Rightarrow> val \<Rightarrow> recipe" where
  "setattr instance attr v = instance\<lparr>attrs := AList.update attr v (attrs instance)\<rparr>"

text \<open>
  \<^verbatim>\<open>instance.save()\<close>: the row with the instance's key is overwritten; when there is no
  such row, the instance is inserted.
\<close>

definition save :: "recipe \<Rightarrow> db \<Rightarrow> db" where
  "save instance s =
     s\<lparr>Recipe_objects :=
         (if \<exists>r \<in> set (Recipe_objects s). recipe_id r = recipe_id instance
          then map (\<lambda>r. if recipe_id r = recipe_id instance then instance else r)
                 (Recipe_objects s)
          else Recipe_objects s @ [instance])\<rparr>"

text \<open>\<^verbatim>\<open>Recipe.objects.create(**validated_data)\<close>.\<close>

definition Recipe_objects_create :: "(string \<times> val) list \<Rightarrow> db \<Rightarrow> recipe \<times> db" where
  "Recipe_objects_create items s =
     (let recipe = \<lparr>recipe_id = Recipe_seq s, attrs = items\<rparr>
      in (recipe, s\<lparr>Recipe_objects := Recipe_objects s @ [recipe],
                     Recipe_seq := Suc (Recipe_seq s)\<rparr>))"

section \<open>TagSerializer and IngredientSerializer\<close>

text \<open>
  \<^verbatim>\<open>TagSerializer\<close> and \<^verbatim>\<open>IngredientSerializer\<close> are model serializers with the fields
  \<^verbatim>\<open>id\<close> (read-only) and \<^verbatim>\<open>name\<close>. They define no method of their own, so their
  \<^verbatim>\<open>update\<close> is the one of the framework's \<^verbatim>\<open>ModelSerializer\<close>: it sets every item of
  the validated data on the instance and saves the instance.
\<close>

definition ModelSerializer_update :: "row \<Rightarrow> kwargs \<Rightarrow> table \<Rightarrow> row \<times> table" where
  "ModelSerializer_update instance validated t =
     (let instance' = (case validated of None \<Rightarrow> instance | Some n \<Rightarrow> instance\<lparr>row_name := n\<rparr>)
      in (instance',
          t\<lparr>rows :=
              (if \<exists>r \<in> set (rows t). row_id r = row_id instance
               then map (\<lambda>r. if row_id r = row_id instance then instance' else r) (rows t)
               else rows t @ [instance'])\<rparr>))"

section \<open>RecipeSerializer\<close>

text \<open>
  \<^verbatim>\<open>_get_or_create_tags(self, tags, recipe)\<close>, with \<open>auth_user\<close> the user of the
  request in the serializer's context. The loop stops at the first exception, which
  propagates; the code opens no transaction, so what was written before stays written. The
  result is the exception, if any, and the database.
\<close>

fun get_or_create_tags :: "user \<Rightarrow> kwargs list \<Rightarrow> recipe \<Rightarrow> db \<Rightarrow> error option \<times> db" where
  "get_or_create_tags auth_user [] recipe s = (None, s)"
| "get_or_create_tags auth_user (tag # tags) recipe s =
     (case get_or_create (Tag_objects s) auth_user tag of
        Inl e \<Rightarrow> (Some e, s)
      | Inr (tag_obj, created, t') \<Rightarrow>
          get_or_create_tags auth_user tags recipe
            (s\<lparr>Tag_objects := t',
               recipe_tags := add (recipe_tags s) (recipe_id recipe) (row_id tag_obj)\<rparr>))"

text \<open>\<^verbatim>\<open>_get_or_create_ingredient(self, ingredients, recipe)\<close>.\<close>

fun get_or_create_ingredient :: "user \<Rightarrow> kwargs list \<Rightarrow> recipe \<Rightarrow> db \<Rightarrow> error option \<times> db" where
  "get_or_create_ingredient auth_user [] recipe s = (None, s)"
| "get_or_create_ingredient auth_user (ingredient # ingredients) recipe s =
     (case get_or_create (Ingredient_objects s) auth_user ingredient of
        Inl e \<Rightarrow> (Some e, s)
      | Inr (ing_obj, created, t') \<Rightarrow>
          get_or_create_ingredient auth_user ingredients recipe
            (s\<lparr>Ingredient_objects := t',
               recipe_ingredients :=
                 add (recipe_ingredients s) (recipe_id recipe) (row_id ing_obj)\<rparr>))"

text \<open>
  \<^verbatim>\<open>create(self, validated_data)\<close>: an absent nested list is the empty list
  (\<^verbatim>\<open>pop('tags', [])\<close>).
\<close>

definition create :: "user \<Rightarrow> validated_data \<Rightarrow> db \<Rightarrow> (error + recipe) \<times> db" where
  "create auth_user validated s =
     (let tags = (case vd_tags validated of None \<Rightarrow> [] | Some ts \<Rightarrow> ts);
          ingredients = (case vd_ingredients validated of None \<Rightarrow> [] | Some is \<Rightarrow> is);
          (recipe, s1) = Recipe_objects_create (vd_items validated) s
      in case get_or_create_tags auth_user tags recipe s1 of
           (Some e, s2) \<Rightarrow> (Inl e, s2)
         | (None, s2) \<Rightarrow>
             (case get_or_create_ingredient auth_user ingredients recipe s2 of
                (Some e, s3) \<Rightarrow> (Inl e, s3)
              | (None, s3) \<Rightarrow> (Inr recipe, s3)))"

text \<open>
  \<^verbatim>\<open>update(self, instance, validated_data)\<close>: an absent nested list is \<^verbatim>\<open>None\<close> and
  the relation is not touched; a list that is present, empty or not, clears the relation
  first. The remaining items are set on the instance, which is then saved.
\<close>

definition update :: "user \<Rightarrow> recipe \<Rightarrow> validated_data \<Rightarrow> db \<Rightarrow> (error + recipe) \<times> db" where
  "update auth_user instance validated s =
     (case (case vd_tags validated of
              None \<Rightarrow> (None, s)
            | Some tags \<Rightarrow>
                get_or_create_tags auth_user tags instance
                  (s\<lparr>recipe_tags := clear (recipe_tags s) (recipe_id instance)\<rparr>)) of
        (Some e, s1) \<Rightarrow> (Inl e, s1)
      | (None, s1) \<Rightarrow>
          (case (case vd_ingredients validated of
                   None \<Rightarrow> (None, s1)
                 | Some ingredients \<Rightarrow>
                     get_or_create_ingredient auth_user ingredients instance
                       (s1\<lparr>recipe_ingredients :=
                             clear (recipe_ingredients s1) (recipe_id instance)\<rparr>)) of
             (Some e, s2) \<Rightarrow> (Inl e, s2)
           | (None, s2) \<Rightarrow>
               (let instance' = fold (\<lambda>(attr, v) i. setattr i attr v) (vd_items validated) instance
                in (Inr instance', save instance' s2))))"

section \<open>The endpoints\<close>

text \<open>
  Modelled from the spec: the requests and responses of the endpoints. The views of the
  application (\<^verbatim>\<open>app/recipe/views.py\<close>) and its URL configuration are not among the
  sources; only their tests are, so every definition of this section is modelled from the
  specification. A request comes with the authenticated user, if any, and is one of the
  operations on the three resources (``REST endpoints for tags, ingredients, and recipes'').
  The response is a status code and a body.
\<close>

datatype request =
    ListTags bool
  | UpdateTag nat kwargs
  | DeleteTag nat
  | ListIngredients bool
  | UpdateIngredient nat kwargs
  | DeleteIngredient nat
  | ListRecipes
  | CreateRecipe validated_data
  | UpdateRecipe nat validated_data
  | DeleteRecipe nat

datatype body = Empty | Rows "row list" | Row row | Recipes "recipe list" | Recipe recipe

text \<open>
  Modelled from the spec: the join of a tag or ingredient table with its many-to-many relation,
  behind the \<^verbatim>\<open>assigned_only\<close> filter of the list endpoints (views.py is missing). A row
  comes once for each recipe it is associated with.
\<close>

definition assigned :: "table \<Rightarrow> through \<Rightarrow> row list" where
  "assigned t m = concat (map (\<lambda>r. map (\<lambda>p. r) (filter (\<lambda>p. snd p = row_id r) m)) (rows t))"

text \<open>
  Modelled from the spec: the queryset of the tag and ingredient list endpoints (views.py is
  missing): ``Listing returns only records owned by the requesting user'', and
  ``\<^verbatim>\<open>assigned_only=1\<close> returns only tags/ingredients attached to at least one recipe,
  deduplicated even when shared across multiple recipes''. The flag \<open>True\<close> stands for
  \<^verbatim>\<open>assigned_only=1\<close>. The order of the response is not modelled.
\<close>

definition list_rows :: "table \<Rightarrow> through \<Rightarrow> user \<Rightarrow> bool \<Rightarrow> row list" where
  "list_rows t m u assigned_only =
     (if assigned_only then remdups (filter (\<lambda>r. row_user r = u) (assigned t m))
      else filter (\<lambda>r. row_user r = u) (rows t))"

text \<open>
  Modelled from the spec: the partial update of a tag or ingredient (views.py is missing):
  ``Updating a tag/ingredient/recipe persists the new values and returns 200''. The record is
  looked up among the requester's and handed to the serializer's update; the result is
  \<open>None\<close> when there is no such record.
\<close>

definition update_row :: "table \<Rightarrow> user \<Rightarrow> nat \<Rightarrow> kwargs \<Rightarrow> (row \<times> table) option" where
  "update_row t u pk kw =
     (case find (\<lambda>r. row_id r = pk \<and> row_user r = u) (rows t) of
        None \<Rightarrow> None
      | Some instance \<Rightarrow> Some (ModelSerializer_update instance kw t))"

text \<open>
  Modelled from the spec: the deletion of a tag or ingredient (views.py is missing):
  ``Deleting returns 204 and removes the record from subsequent queries''. The rows of the
  relation that point to the record go with it.
\<close>

definition delete_row :: "table \<Rightarrow> through \<Rightarrow> user \<Rightarrow> nat \<Rightarrow> (table \<times> through) option" where
  "delete_row t m u pk =
     (case find (\<lambda>r. row_id r = pk \<and> row_user r = u) (rows t) of
        None \<Rightarrow> None
      | Some r \<Rightarrow>
          Some (t\<lparr>rows := filter (\<lambda>x. row_id x \<noteq> pk) (rows t)\<rparr>,
                filter (\<lambda>p. snd p \<noteq> pk) m))"

text \<open>
  Modelled from the spec: the owner of a recipe (core/models.py is missing): ``every
  Tag/Ingredient/Recipe belongs to exactly one user''. The owner is the attribute
  \<^verbatim>\<open>user\<close>.
\<close>

definition owned_by :: "user \<Rightarrow> recipe \<Rightarrow> bool" where
  "owned_by u r = (map_of (attrs r) ''user'' = Some (Ref u))"

text \<open>
  Modelled from the spec: the dispatch of a request (views.py is missing). ``Unauthenticated
  requests to any endpoint return 401''; an authenticated request works on the records of the
  requester. Creating and updating a recipe run \<open>create\<close> and \<open>update\<close> of the
  serializer, with the requester as owner of a new recipe. The specification gives the statuses
  401, 200 and 204; for the cases it leaves open the model takes the framework's usual ones:
  201 for a creation, 404 for a record that is not among the requester's, 500 when the
  serializer raises.
\<close>

definition handle :: "user option \<Rightarrow> request \<Rightarrow> db \<Rightarrow> nat \<times> body \<times> db" where
  "handle auth req s =
     (case auth of
        None \<Rightarrow> (401, Empty, s)
      | Some u \<Rightarrow>
          (case req of
             ListTags assigned_only \<Rightarrow>
               (200, Rows (list_rows (Tag_objects s) (recipe_tags s) u assigned_only), s)
           | UpdateTag pk kw \<Rightarrow>
               (case update_row (Tag_objects s) u pk kw of
                  None \<Rightarrow> (404, Empty, s)
                | Some (r, t') \<Rightarrow> (200, Row r, s\<lparr>Tag_objects := t'\<rparr>))
           | DeleteTag pk \<Rightarrow>
               (case delete_row (Tag_objects s) (recipe_tags s) u pk of
                  None \<Rightarrow> (404, Empty, s)
                | Some (t', m') \<Rightarrow> (204, Empty, s\<lparr>Tag_objects := t', recipe_tags := m'\<rparr>))
           | ListIngredients assigned_only \<Rightarrow>
               (200, Rows (list_rows (Ingredient_objects s) (recipe_ingredients s) u
                             assigned_only), s)
           | UpdateIngredient pk kw \<Rightarrow>
               (case update_row (Ingredient_objects s) u pk kw of
                  None \<Rightarrow> (404, Empty, s)
                | Some (r, t') \<Rightarrow> (200, Row r, s\<lparr>Ingredient_objects := t'\<rparr>))
           | DeleteIngredient pk \<Rightarrow>
               (case delete_row (Ingredient_objects s) (recipe_ingredients s) u pk of
                  None \<Rightarrow> (404, Empty, s)
                | Some (t', m') \<Rightarrow>
                    (204, Empty, s\<lparr>Ingredient_objects := t', recipe_ingredients := m'\<rparr>))
           | ListRecipes \<Rightarrow> (200, Recipes (filter (owned_by u) (Recipe_objects s)), s)
           | CreateRecipe validated \<Rightarrow>
               (case create u (validated\<lparr>vd_items := vd_items validated @ [(''user'', Ref u)]\<rparr>) s of
                  (Inl e, s') \<Rightarrow> (500, Empty, s')
                | (Inr recipe, s') \<Rightarrow> (201, Recipe recipe, s'))
           | UpdateRecipe pk validated \<Rightarrow>
               (case find (\<lambda>r. recipe_id r = pk \<and> owned_by u r) (Recipe_objects s) of
                  None \<Rightarrow> (404, Empty, s)
                | Some instance \<Rightarrow>
                    (case update u instance validated s of
                       (Inl e, s') \<Rightarrow> (500, Empty, s')
                     | (Inr recipe, s') \<Rightarrow> (200, Recipe recipe, s')))
           | DeleteRecipe pk \<Rightarrow>
               (case find (\<lambda>r. recipe_id r = pk \<and> owned_by u r) (Recipe_objects s) of
                  None \<Rightarrow> (404, Empty, s)
                | Some instance \<Rightarrow>
                    (204, Empty,
                     s\<lparr>Recipe_objects := filter (\<lambda>r. recipe_id r \<noteq> pk) (Recipe_objects s),
                       recipe_tags := clear (recipe_tags s) pk,
                       recipe_ingredients := clear (recipe_ingredients s) pk\<rparr>))))"

section \<open>Notions used in the statements\<close>

text \<open>
  The list \<^verbatim>\<open>create\<close> works on: \<^verbatim>\<open>validated_data.pop('tags', [])\<close> is the empty list
  when the key is absent.
\<close>

definition nested :: "kwargs list option \<Rightarrow> kwargs list" where
  "nested l = (case l of None \<Rightarrow> [] | Some kws \<Rightarrow> kws)"

text \<open>Every entry of a nested list carries a name.\<close>

definition named :: "kwargs list \<Rightarrow> bool" where
  "named kws = (\<forall>kw \<in> set kws. kw \<noteq> None)"

text \<open>
  The invariant of the data model: no two rows of a table share the same (user, name) pair.
\<close>

definition uniq :: "table \<Rightarrow> bool" where
  "uniq t = distinct (map (\<lambda>r. (row_user r, row_name r)) (rows t))"

text \<open>
  What an operation that takes a table from \<open>t\<close> to \<open>t'\<close> owes the invariant: it keeps it,
  and for a (user, name) pair that a row of \<open>t\<close> has, the rows with that pair are the same
  before and after, so no second row is made for it.
\<close>

definition keeps_unique :: "table \<Rightarrow> table \<Rightarrow> bool" where
  "keeps_unique t t' \<longleftrightarrow>
     (uniq t \<longrightarrow> uniq t') \<and>
     (\<forall>r0 \<in> set (rows t).
        filter (\<lambda>r. row_user r = row_user r0 \<and> row_name r = row_name r0) (rows t') =
        filter (\<lambda>r. row_user r = row_user r0 \<and> row_name r = row_name r0) (rows t))"

text \<open>
  The entries \<open>kws\<close> are resolved for the recipe \<open>rid\<close>, from the table \<open>t\<close> before to the
  table \<open>t'\<close> and the relation \<open>m'\<close> after: every entry has a row of the requesting user
  that matches it and is in the relation of the recipe, an existing row whenever a matching
  row existed; and every row that is new belongs to the requesting user and matches an entry
  that had no matching row.
\<close>

definition resolved :: "user \<Rightarrow> kwargs list \<Rightarrow> nat \<Rightarrow> table \<Rightarrow> table \<Rightarrow> through \<Rightarrow> bool" where
  "resolved auth_user kws rid t t' m' \<longleftrightarrow>
     (\<forall>kw \<in> set kws. \<exists>r \<in> set (rows t').
         matches auth_user kw r \<and> (rid, row_id r) \<in> set m' \<and>
         ((\<exists>r0 \<in> set (rows t). matches auth_user kw r0) \<longrightarrow> r \<in> set (rows t))) \<and>
     (\<forall>r \<in> set (rows t'). r \<notin> set (rows t) \<longrightarrow>
         row_user r = auth_user \<and>
         (\<exists>kw \<in> set kws. matches auth_user kw r \<and>
            \<not> (\<exists>r0 \<in> set (rows t). matches auth_user kw r0)))"

text \<open>
  Exactly one row of the user has the name \<open>n\<close>, and the relation holds the pair of the
  recipe and that row exactly once.
\<close>

definition once :: "user \<Rightarrow> string \<Rightarrow> nat \<Rightarrow> table \<Rightarrow> through \<Rightarrow> bool" where
  "once auth_user n rid t m =
     (case filter (matches auth_user (Some n)) (rows t) of
        [r] \<Rightarrow> count_list m (rid, row_id r) = 1
      | _ \<Rightarrow> False)"

section \<open>Auxiliary definitions for the proofs\<close>

text \<open>
  The two loops of the serializer differ only in the table and the relation they work on.
  \<open>link_all\<close> is that loop on a table and a relation; both loops are instances of it
  (lemmas \<open>get_or_create_tags_link_all\<close> and \<open>get_or_create_ingredient_link_all\<close>).
\<close>

fun link_all :: "user \<Rightarrow> kwargs list \<Rightarrow> nat \<Rightarrow> table \<times> through \<Rightarrow> error option \<times> table \<times> through" where
  "link_all u [] rid (t, m) = (None, t, m)"
| "link_all u (kw # kws) rid (t, m) =
     (case get_or_create t u kw of
        Inl e \<Rightarrow> (Some e, t, m)
      | Inr (obj, created, t') \<Rightarrow> link_all u kws rid (t', add m rid (row_id obj)))"

text \<open>The keys a recipe is associated with.\<close>

definition linked :: "through \<Rightarrow> nat \<Rightarrow> nat set" where
  "linked m rid = {oid. (rid, oid) \<in> set m}"

text \<open>
  The entry has exactly one matching row, and the recipe is associated with it: then
  resolving the entry once more changes nothing.
\<close>

definition held :: "user \<Rightarrow> kwargs \<Rightarrow> nat \<Rightarrow> table \<Rightarrow> through \<Rightarrow> bool" where
  "held u kw rid t m =
     (case filter (matches u kw) (rows t) of
        [r] \<Rightarrow> (rid, row_id r) \<in> set m
      | _ \<Rightarrow> False)"

text \<open>The three phases of \<open>update\<close>: the tags, the ingredients, the attributes.\<close>

definition update_tags :: "user \<Rightarrow> recipe \<Rightarrow> validated_data \<Rightarrow> db \<Rightarrow> error option \<times> db" where
  "update_tags auth_user instance validated s =
     (case vd_tags validated of
        None \<Rightarrow> (None, s)
      | Some tags \<Rightarrow>
          get_or_create_tags auth_user tags instance
            (s\<lparr>recipe_tags := clear (recipe_tags s) (recipe_id instance)\<rparr>))"

definition update_ingredients :: "user \<Rightarrow> recipe \<Rightarrow> validated_data \<Rightarrow> db \<Rightarrow> error option \<times> db" where
  "update_ingredients auth_user instance validated s =
     (case vd_ingredients validated of
        None \<Rightarrow> (None, s)
      | Some ingredients \<Rightarrow>
          get_or_create_ingredient auth_user ingredients instance
            (s\<lparr>recipe_ingredients := clear (recipe_ingredients s) (recipe_id instance)\<rparr>))"

definition set_items :: "(string \<times> val) list \<Rightarrow> recipe \<Rightarrow> recipe" where
  "set_items items instance = fold (\<lambda>(attr, v) i. setattr i attr v) items instance"

section \<open>A small database used in the examples\<close>

text \<open>
  User 7 owns the tags Vegan and Dessert, the ingredient Salt and recipe 1, which is tagged
  Vegan and holds Salt. User 8 owns the tag Vegan as well.
\<close>

definition db0 :: db where
  "db0 = \<lparr>Tag_objects = \<lparr>rows = [\<lparr>row_id = 1, row_user = 7, row_name = ''Vegan''\<rparr>,
                                    \<lparr>row_id = 2, row_user = 7, row_name = ''Dessert''\<rparr>,
                                    \<lparr>row_id = 3, row_user = 8, row_name = ''Vegan''\<rparr>],
                            seq = 4\<rparr>,
          Ingredient_objects = \<lparr>rows = [\<lparr>row_id = 1, row_user = 7, row_name = ''Salt''\<rparr>],
                                   seq = 2\<rparr>,
          Recipe_objects = [\<lparr>recipe_id = 1,
                             attrs = [(''title'', Str ''Pie''), (''user'', Ref 7)]\<rparr>],
          Recipe_seq = 2,
          recipe_tags = [(1, 1)],
          recipe_ingredients = [(1, 1)]\<rparr>"

definition recipe1 :: recipe where
  "recipe1 = \<lparr>recipe_id = 1, attrs = [(''title'', Str ''Pie''), (''user'', Ref 7)]\<rparr>"

definition patch1 :: validated_data where
  "patch1 = \<lparr>vd_tags = Some [Some ''Dessert'', Some ''Lunch''], vd_ingredients = None,
             vd_items = [(''title'', Str ''Tart'')]\<rparr>"

definition patch2 :: validated_data where
  "patch2 = \<lparr>vd_tags = None, vd_ingredients = None,
             vd_items = [(''title'', Str ''Soup''), (''user'', Ref 7)]\<rparr>"

definition patch3 :: validated_data where
  "patch3 = \<lparr>vd_tags = Some [Some ''Lunch'', Some ''Vegan'', Some ''Lunch''],
             vd_ingredients = Some [Some ''Lunch'', Some ''Vegan'', Some ''Lunch''],
             vd_items = []\<rparr>"

text \<open>
  In this database user 8 owns one tag, Vegan, and recipe 1, which is tagged Vegan.
\<close>

definition db1 :: db where
  "db1 = \<lparr>Tag_objects = \<lparr>rows = [\<lparr>row_id = 1, row_user = 8, row_name = ''Vegan''\<rparr>], seq = 2\<rparr>,
          Ingredient_objects = \<lparr>rows = [], seq = 1\<rparr>,
          Recipe_objects = [\<lparr>recipe_id = 1,
                             attrs = [(''title'', Str ''Salad''), (''user'', Ref 8)]\<rparr>],
          Recipe_seq = 2,
          recipe_tags = [(1, 1)],
          recipe_ingredients = []\<rparr>"

definition recipe8 :: recipe where
  "recipe8 = \<lparr>recipe_id = 1, attrs = [(''title'', Str ''Salad''), (''user'', Ref 8)]\<rparr>"

text \<open>
  The database \<open>db0\<close> with a second recipe of user 7, which carries the same tag and the
  same ingredient as the first.
\<close>

definition db2 :: db where
  "db2 = db0\<lparr>Recipe_objects :=
               [\<lparr>recipe_id = 1, attrs = [(''title'', Str ''Pie''), (''user'', Ref 7)]\<rparr>,
                \<lparr>recipe_id = 2, attrs = [(''title'', Str ''Cake''), (''user'', Ref 7)]\<rparr>],
             Recipe_seq := 3,
             recipe_tags := [(1, 1), (2, 1)],
             recipe_ingredients := [(1, 1), (2, 1)]\<rparr>"

definition patch4 :: validated_data where
  "patch4 = \<lparr>vd_tags = Some [Some ''Vegan''], vd_ingredients = None,
             vd_items = [(''title'', Str ''Tart'')]\<rparr>"

definition patch5 :: validated_data where
  "patch5 = \<lparr>vd_tags = Some [None], vd_ingredients = None,
             vd_items = [(''title'', Str ''Tart'')]\<rparr>"

definition patch6 :: validated_data where
  "patch6 = \<lparr>vd_tags = Some [None, None], vd_ingredients = Some [None, None], vd_items = []\<rparr>"

text \<open>
  A partial update of recipe 1 that gives both nested lists, every entry with a name.
\<close>

definition patch7 :: validated_data where
  "patch7 = \<lparr>vd_tags = Some [Some ''Dessert'', Some ''Lunch''],
             vd_ingredients = Some [Some ''Pepper'', Some ''Flour''],
             vd_items = [(''title'', Str ''Tart'')]\<rparr>"

text \<open>
  The validated data of a creation by user 7, with every column of a recipe and both nested
  lists.
\<close>

definition post7 :: validated_data where
  "post7 = \<lparr>vd_tags = Some [Some ''Dessert'', Some ''Lunch''],
            vd_ingredients = Some [Some ''Salt'', Some ''Flour''],
            vd_items = [(''title'', Str ''Tart''), (''time_minutes'', Num 30),
                        (''price'', Dec 550 2), (''user'', Ref 7)]\<rparr>"

text \<open>
  A partial update whose second tag entry has no name, and which gives a list of ingredients
  as well.
\<close>

definition patch8 :: validated_data where
  "patch8 = \<lparr>vd_tags = Some [Some ''Lunch'', None], vd_ingredients = Some [Some ''Pepper''],
             vd_items = [(''title'', Str ''Tart'')]\<rparr>"

text \<open>
  The database \<open>db0\<close> after user 7 has renamed the tag Dessert to Vegan through the tag
  serializer: two tags of user 7 are now called Vegan.
\<close>

definition db3 :: db where
  "db3 = db0\<lparr>Tag_objects :=
               snd (ModelSerializer_update \<lparr>row_id = 2, row_user = 7, row_name = ''Dessert''\<rparr>
                      (Some ''Vegan'') (Tag_objects db0))\<rparr>"

text \<open>
  The validated data of a creation by user 7 with three tags, every entry with a name.
\<close>

definition post9 :: validated_data where
  "post9 = \<lparr>vd_tags = Some [Some ''Lunch'', Some ''Vegan'', Some ''Dinner''],
            vd_ingredients = Some [Some ''Salt''],
            vd_items = [(''title'', Str ''Tart''), (''time_minutes'', Num 30),
                        (''price'', Dec 550 2), (''user'', Ref 7)]\<rparr>"

section \<open>One step: get_or_create\<close>

lemma held_iff:
  "held u kw rid t m \<longleftrightarrow>
     (\<exists>r. filter (matches u kw) (rows t) = [r] \<and> (rid, row_id r) \<in> set m)"
  by (auto simp: held_def split: list.splits)

lemma once_iff:
  "once u n rid t m \<longleftrightarrow>
     (\<exists>r. filter (matches u (Some n)) (rows t) = [r] \<and> count_list m (rid, row_id r) = 1)"
  by (auto simp: once_def split: list.splits)

lemma get_or_create_tags_link_all:
  "get_or_create_tags u kws recipe s =
     (case link_all u kws (recipe_id recipe) (Tag_objects s, recipe_tags s) of
        (r, t', m') \<Rightarrow> (r, s\<lparr>Tag_objects := t', recipe_tags := m'\<rparr>))"
  by (induction kws arbitrary: s) (auto split: sum.splits prod.splits)

lemma get_or_create_ingredient_link_all:
  "get_or_create_ingredient u kws recipe s =
     (case link_all u kws (recipe_id recipe) (Ingredient_objects s, recipe_ingredients s) of
        (r, t', m') \<Rightarrow> (r, s\<lparr>Ingredient_objects := t', recipe_ingredients := m'\<rparr>))"
  by (induction kws arbitrary: s) (auto split: sum.splits prod.splits)

lemma get_or_create_cases:
  assumes "get_or_create t u kw = Inr (obj, created, t')"
  shows "(filter (matches u kw) (rows t) = [obj] \<and> \<not> created \<and> t' = t) \<or>
         (filter (matches u kw) (rows t) = [] \<and> created \<and>
            obj = \<lparr>row_id = seq t, row_user = u, row_name = (case kw of None \<Rightarrow> [] | Some n \<Rightarrow> n)\<rparr> \<and>
            t' = \<lparr>rows = rows t @ [obj], seq = Suc (seq t)\<rparr>)"
  using assms
  by (auto simp: get_or_create_def objects_create_def Let_def split: list.splits)

lemma get_or_create_Inl:
  "get_or_create t u kw = Inl e \<longleftrightarrow> 2 \<le> length (filter (matches u kw) (rows t))"
  by (cases e) (auto simp: get_or_create_def objects_create_def Let_def split: list.splits)

lemma filter_single_mem: "filter P xs = [x] \<Longrightarrow> x \<in> set xs \<and> P x"
proof -
  assume a: "filter P xs = [x]"
  have "x \<in> set (filter P xs)" by (simp add: a)
  then show ?thesis by simp
qed

lemma filter_single_unique: "filter P xs = [x] \<Longrightarrow> y \<in> set xs \<Longrightarrow> P y \<Longrightarrow> y = x"
proof -
  assume a: "filter P xs = [x]" and b: "y \<in> set xs" "P y"
  from b have "y \<in> set (filter P xs)" by simp
  then show ?thesis by (simp add: a)
qed

lemma matches_new:
  "matches u kw \<lparr>row_id = i, row_user = u, row_name = (case kw of None \<Rightarrow> [] | Some n \<Rightarrow> n)\<rparr>"
  by (simp add: matches_def split: option.splits)

lemma get_or_create_mem:
  assumes "get_or_create t u kw = Inr (obj, created, t')"
  shows "obj \<in> set (rows t')"
  using get_or_create_cases[OF assms] by (auto dest: filter_single_mem)

lemma get_or_create_matches:
  assumes "get_or_create t u kw = Inr (obj, created, t')"
  shows "matches u kw obj"
  using get_or_create_cases[OF assms] by (auto dest: filter_single_mem simp: matches_new)

lemma get_or_create_unique:
  assumes "get_or_create t u kw = Inr (obj, created, t')"
    and "r \<in> set (rows t')" and "matches u kw r"
  shows "r = obj"
  using get_or_create_cases[OF assms(1)] assms(2,3)
  by (auto dest: filter_single_unique simp: filter_empty_conv)

lemma get_or_create_rows:
  assumes "get_or_create t u kw = Inr (obj, created, t')"
  shows "rows t' = (if created then rows t @ [obj] else rows t)"
  using get_or_create_cases[OF assms] by auto

lemma get_or_create_created:
  assumes "get_or_create t u kw = Inr (obj, created, t')"
  shows "created \<longleftrightarrow> \<not> (\<exists>r \<in> set (rows t). matches u kw r)"
  using get_or_create_cases[OF assms] by (auto simp: filter_empty_conv dest: filter_single_mem)

section \<open>The loop over the entries\<close>

lemma linked_add: "linked (add m rid oid) rid' = (if rid' = rid then insert oid (linked m rid') else linked m rid')"
  by (auto simp: linked_def add_def)

lemma linked_clear: "linked (clear m rid) rid' = (if rid' = rid then {} else linked m rid')"
  by (auto simp: linked_def clear_def)

lemma add_append: "\<exists>ex. add m rid oid = m @ ex \<and> (\<forall>p \<in> set ex. fst p = rid)"
  by (auto simp: add_def)

lemma link_all_grows:
  assumes "link_all u kws rid (t, m) = (res, t', m')"
  shows "(\<exists>new. rows t' = rows t @ new \<and>
            (\<forall>r \<in> set new. row_user r = u \<and> row_id r \<in> linked m' rid \<and>
               (\<exists>kw \<in> set kws. matches u kw r \<and> \<not> (\<exists>r0 \<in> set (rows t). matches u kw r0))))
       \<and> (\<exists>ex. m' = m @ ex \<and> (\<forall>p \<in> set ex. fst p = rid))"
  using assms
proof (induction kws arbitrary: t m)
  case Nil
  then show ?case by simp
next
  case (Cons kw kws)
  show ?case
  proof (cases "get_or_create t u kw")
    case (Inl e)
    with Cons.prems show ?thesis by simp
  next
    case (Inr x)
    obtain obj created t1 where x: "x = (obj, created, t1)" by (cases x) auto
    let ?m1 = "add m rid (row_id obj)"
    from Cons.prems Inr x have rest: "link_all u kws rid (t1, ?m1) = (res, t', m')" by simp
    from Cons.IH[OF rest] obtain new ex where
      new: "rows t' = rows t1 @ new"
        "\<forall>r \<in> set new. row_user r = u \<and> row_id r \<in> linked m' rid \<and>
           (\<exists>kw \<in> set kws. matches u kw r \<and> \<not> (\<exists>r0 \<in> set (rows t1). matches u kw r0))"
      and ex: "m' = ?m1 @ ex" "\<forall>p \<in> set ex. fst p = rid" by blast
    obtain ex1 where ex1: "?m1 = m @ ex1" "\<forall>p \<in> set ex1. fst p = rid"
      using add_append by blast
    have g: "get_or_create t u kw = Inr (obj, created, t1)" using Inr x by simp
    have r1: "rows t1 = (if created then rows t @ [obj] else rows t)"
      by (rule get_or_create_rows[OF g])
    have mo: "matches u kw obj" by (rule get_or_create_matches[OF g])
    have lo: "row_id obj \<in> linked m' rid"
      using ex(1) by (auto simp: linked_def add_def)
    have sub: "set (rows t) \<subseteq> set (rows t1)" using r1 by auto
    have new': "\<forall>r \<in> set new. row_user r = u \<and> row_id r \<in> linked m' rid \<and>
           (\<exists>kw' \<in> set (kw # kws). matches u kw' r \<and> \<not> (\<exists>r0 \<in> set (rows t). matches u kw' r0))"
      using new(2) sub by (meson list.set_intros(2) subsetD)
    have A: "\<exists>new. rows t' = rows t @ new \<and>
            (\<forall>r \<in> set new. row_user r = u \<and> row_id r \<in> linked m' rid \<and>
               (\<exists>kw' \<in> set (kw # kws). matches u kw' r \<and> \<not> (\<exists>r0 \<in> set (rows t). matches u kw' r0)))"
    proof (cases created)
      case True
      then have nomatch: "\<not> (\<exists>r0 \<in> set (rows t). matches u kw r0)"
        using get_or_create_created[OF g] by simp
      have "rows t' = rows t @ (obj # new)" using True new(1) r1 by simp
      moreover have "\<forall>r \<in> set (obj # new). row_user r = u \<and> row_id r \<in> linked m' rid \<and>
           (\<exists>kw' \<in> set (kw # kws). matches u kw' r \<and> \<not> (\<exists>r0 \<in> set (rows t). matches u kw' r0))"
      proof
        fix r assume "r \<in> set (obj # new)"
        then consider "r = obj" | "r \<in> set new" by auto
        then show "row_user r = u \<and> row_id r \<in> linked m' rid \<and>
           (\<exists>kw' \<in> set (kw # kws). matches u kw' r \<and> \<not> (\<exists>r0 \<in> set (rows t). matches u kw' r0))"
        proof cases
          case 1
          have "row_user obj = u" using mo by (simp add: matches_def)
          then show ?thesis using 1 mo lo nomatch by auto
        next
          case 2
          then show ?thesis using new' by blast
        qed
      qed
      ultimately show ?thesis by blast
    next
      case False
      then have "rows t' = rows t @ new" using new(1) r1 by simp
      then show ?thesis using new' by blast
    qed
    have B: "\<exists>ex. m' = m @ ex \<and> (\<forall>p \<in> set ex. fst p = rid)"
    proof -
      have "m' = m @ (ex1 @ ex)" using ex(1) ex1(1) by simp
      moreover have "\<forall>p \<in> set (ex1 @ ex). fst p = rid" using ex(2) ex1(2) by auto
      ultimately show ?thesis by blast
    qed
    from A B show ?thesis by blast
  qed
qed

lemma link_all_rows_mono:
  assumes "link_all u kws rid (t, m) = (res, t', m')"
  shows "set (rows t) \<subseteq> set (rows t')"
  using link_all_grows[OF assms] by auto

lemma link_all_linked_mono:
  assumes "link_all u kws rid (t, m) = (res, t', m')"
  shows "linked m rid' \<subseteq> linked m' rid'"
  using link_all_grows[OF assms] by (auto simp: linked_def)

lemma link_all_new_linked:
  assumes "link_all u kws rid (t, m) = (res, t', m')"
    and "r \<in> set (rows t')" "r \<notin> set (rows t)"
  shows "row_id r \<in> linked m' rid" "row_user r = u"
  using link_all_grows[OF assms(1)] assms(2,3) by auto

lemma link_all_other:
  assumes "link_all u kws rid (t, m) = (res, t', m')"
  shows "filter (\<lambda>p. fst p \<noteq> rid) m' = filter (\<lambda>p. fst p \<noteq> rid) m"
proof -
  from link_all_grows[OF assms] obtain ex where "m' = m @ ex" "\<forall>p \<in> set ex. fst p = rid" by blast
  then show ?thesis by (simp add: filter_empty_conv)
qed

text \<open>On success, the relation of the recipe is what it was plus every row matching an entry.\<close>

lemma link_all_linked:
  assumes "link_all u kws rid (t, m) = (None, t', m')"
  shows "linked m' rid = linked m rid \<union>
           {row_id r | r. r \<in> set (rows t') \<and> (\<exists>kw \<in> set kws. matches u kw r)}"
  using assms
proof (induction kws arbitrary: t m)
  case Nil
  then show ?case by simp
next
  case (Cons kw kws)
  show ?case
  proof (cases "get_or_create t u kw")
    case (Inl e)
    with Cons.prems show ?thesis by simp
  next
    case (Inr x)
    obtain obj created t1 where x: "x = (obj, created, t1)" by (cases x) auto
    let ?m1 = "add m rid (row_id obj)"
    have g: "get_or_create t u kw = Inr (obj, created, t1)" using Inr x by simp
    from Cons.prems g have rest: "link_all u kws rid (t1, ?m1) = (None, t', m')" by simp
    have IH: "linked m' rid = linked ?m1 rid \<union>
           {row_id r | r. r \<in> set (rows t') \<and> (\<exists>kw \<in> set kws. matches u kw r)}"
      by (rule Cons.IH[OF rest])
    have m1: "linked ?m1 rid = insert (row_id obj) (linked m rid)" by (simp add: linked_add)
    have obj_in: "obj \<in> set (rows t')"
      using get_or_create_mem[OF g] link_all_rows_mono[OF rest] by blast
    have mo: "matches u kw obj" by (rule get_or_create_matches[OF g])
    have head: "\<And>r. r \<in> set (rows t') \<Longrightarrow> matches u kw r \<Longrightarrow> row_id r \<in> linked m' rid"
    proof -
      fix r assume r: "r \<in> set (rows t')" "matches u kw r"
      show "row_id r \<in> linked m' rid"
      proof (cases "r \<in> set (rows t1)")
        case True
        then have "r = obj" using get_or_create_unique[OF g] r(2) by blast
        then show ?thesis using IH m1 by simp
      next
        case False
        then show ?thesis using link_all_new_linked(1)[OF rest r(1)] by simp
      qed
    qed
    show ?thesis
    proof (rule set_eqI, rule iffI)
      fix x assume "x \<in> linked m' rid"
      then consider "x = row_id obj" | "x \<in> linked m rid"
        | "x \<in> {row_id r | r. r \<in> set (rows t') \<and> (\<exists>kw \<in> set kws. matches u kw r)}"
        using IH m1 by auto
      then show "x \<in> linked m rid \<union>
           {row_id r | r. r \<in> set (rows t') \<and> (\<exists>kw \<in> set (kw # kws). matches u kw r)}"
      proof cases
        case 1
        then show ?thesis using obj_in mo by auto
      next
        case 2
        then show ?thesis by simp
      next
        case 3
        then show ?thesis by auto
      qed
    next
      fix x assume "x \<in> linked m rid \<union>
           {row_id r | r. r \<in> set (rows t') \<and> (\<exists>kw \<in> set (kw # kws). matches u kw r)}"
      then consider "x \<in> linked m rid"
        | r where "x = row_id r" "r \<in> set (rows t')" "matches u kw r"
        | "x \<in> {row_id r | r. r \<in> set (rows t') \<and> (\<exists>kw \<in> set kws. matches u kw r)}"
        by auto
      then show "x \<in> linked m' rid"
      proof cases
        case 1
        then show ?thesis using IH m1 by simp
      next
        case 2
        then show ?thesis using head by simp
      next
        case 3
        then show ?thesis using IH by simp
      qed
    qed
  qed
qed

lemma link_all_new_entry:
  assumes "link_all u kws rid (t, m) = (res, t', m')"
    and "r \<in> set (rows t')" "r \<notin> set (rows t)"
  shows "\<exists>kw \<in> set kws. matches u kw r \<and> \<not> (\<exists>r0 \<in> set (rows t). matches u kw r0)"
  using link_all_grows[OF assms(1)] assms(2,3) by auto

lemma link_all_existing_linked:
  assumes "link_all u kws rid (t, m) = (None, t', m')"
    and "kw \<in> set kws" "r0 \<in> set (rows t)" "matches u kw r0"
  shows "(rid, row_id r0) \<in> set m'"
  using assms
proof (induction kws arbitrary: t m)
  case Nil
  then show ?case by simp
next
  case (Cons k kws)
  show ?case
  proof (cases "get_or_create t u k")
    case (Inl e)
    with Cons.prems show ?thesis by simp
  next
    case (Inr x)
    obtain obj created t1 where x: "x = (obj, created, t1)" by (cases x) auto
    let ?m1 = "add m rid (row_id obj)"
    have g: "get_or_create t u k = Inr (obj, created, t1)" using Inr x by simp
    from Cons.prems(1) g have rest: "link_all u kws rid (t1, ?m1) = (None, t', m')" by simp
    have r0: "r0 \<in> set (rows t1)" using get_or_create_rows[OF g] Cons.prems(3) by auto
    show ?thesis
    proof (cases "kw = k")
      case True
      then have "r0 = obj" using get_or_create_unique[OF g r0] Cons.prems(4) by simp
      then have "row_id r0 \<in> linked ?m1 rid" by (simp add: linked_add)
      then show ?thesis using link_all_linked_mono[OF rest] by (auto simp: linked_def)
    next
      case False
      then have "kw \<in> set kws" using Cons.prems(2) by simp
      then show ?thesis using Cons.IH[OF rest _ r0 Cons.prems(4)] by simp
    qed
  qed
qed

lemma link_all_entry_linked:
  assumes "link_all u kws rid (t, m) = (None, t', m')"
    and "kw \<in> set kws"
  shows "\<exists>r \<in> set (rows t'). matches u kw r \<and> (rid, row_id r) \<in> set m'"
  using assms
proof (induction kws arbitrary: t m)
  case Nil
  then show ?case by simp
next
  case (Cons k kws)
  show ?case
  proof (cases "get_or_create t u k")
    case (Inl e)
    with Cons.prems show ?thesis by simp
  next
    case (Inr x)
    obtain obj created t1 where x: "x = (obj, created, t1)" by (cases x) auto
    let ?m1 = "add m rid (row_id obj)"
    have g: "get_or_create t u k = Inr (obj, created, t1)" using Inr x by simp
    from Cons.prems(1) g have rest: "link_all u kws rid (t1, ?m1) = (None, t', m')" by simp
    show ?thesis
    proof (cases "kw = k")
      case True
      have "obj \<in> set (rows t')"
        using get_or_create_mem[OF g] link_all_rows_mono[OF rest] by blast
      moreover have "matches u kw obj" using get_or_create_matches[OF g] True by simp
      moreover have "row_id obj \<in> linked ?m1 rid" by (simp add: linked_add)
      then have "(rid, row_id obj) \<in> set m'"
        using link_all_linked_mono[OF rest] by (auto simp: linked_def)
      ultimately show ?thesis by blast
    next
      case False
      then have "kw \<in> set kws" using Cons.prems(2) by simp
      then show ?thesis using Cons.IH[OF rest] by simp
    qed
  qed
qed

lemma link_all_resolved:
  assumes "link_all u kws rid (t, m) = (None, t', m')"
  shows "resolved u kws rid t t' m'"
  unfolding resolved_def
proof (intro conjI ballI impI)
  fix kw assume kw: "kw \<in> set kws"
  show "\<exists>r \<in> set (rows t'). matches u kw r \<and> (rid, row_id r) \<in> set m' \<and>
         ((\<exists>r0 \<in> set (rows t). matches u kw r0) \<longrightarrow> r \<in> set (rows t))"
  proof (cases "\<exists>r0 \<in> set (rows t). matches u kw r0")
    case True
    then obtain r0 where r0: "r0 \<in> set (rows t)" "matches u kw r0" by blast
    have "r0 \<in> set (rows t')" using link_all_rows_mono[OF assms] r0(1) by blast
    moreover have "(rid, row_id r0) \<in> set m'"
      by (rule link_all_existing_linked[OF assms kw r0])
    ultimately show ?thesis using r0 by blast
  next
    case False
    then show ?thesis using link_all_entry_linked[OF assms kw] by blast
  qed
next
  fix r assume "r \<in> set (rows t')" "r \<notin> set (rows t)"
  then show "row_user r = u" using link_all_new_linked(2)[OF assms] by blast
next
  fix r assume "r \<in> set (rows t')" "r \<notin> set (rows t)"
  then show "\<exists>kw \<in> set kws. matches u kw r \<and> \<not> (\<exists>r0 \<in> set (rows t). matches u kw r0)"
    using link_all_new_entry[OF assms] by blast
qed

section \<open>The phases of update and create\<close>

lemma update_phases:
  "update u inst vd s =
     (case update_tags u inst vd s of
        (Some e, s1) \<Rightarrow> (Inl e, s1)
      | (None, s1) \<Rightarrow>
          (case update_ingredients u inst vd s1 of
             (Some e, s2) \<Rightarrow> (Inl e, s2)
           | (None, s2) \<Rightarrow> (Inr (set_items (vd_items vd) inst), save (set_items (vd_items vd) inst) s2)))"
  by (simp add: update_def update_tags_def update_ingredients_def set_items_def Let_def
      split: prod.splits option.splits)

lemma update_cases [consumes 1, case_names tags_raise ingredients_raise ok]:
  assumes "update u inst vd s = (res, s')"
  obtains e where "update_tags u inst vd s = (Some e, s')" "res = Inl e"
  | e s1 where "update_tags u inst vd s = (None, s1)"
      "update_ingredients u inst vd s1 = (Some e, s')" "res = Inl e"
  | s1 s2 where "update_tags u inst vd s = (None, s1)"
      "update_ingredients u inst vd s1 = (None, s2)"
      "res = Inr (set_items (vd_items vd) inst)" "s' = save (set_items (vd_items vd) inst) s2"
  using assms unfolding update_phases
  by (auto split: prod.splits option.splits)

lemma tags_loop_link:
  assumes "get_or_create_tags u kws recipe s = (r, s')"
  shows "link_all u kws (recipe_id recipe) (Tag_objects s, recipe_tags s) = (r, Tag_objects s', recipe_tags s')"
    and "s' = s\<lparr>Tag_objects := Tag_objects s', recipe_tags := recipe_tags s'\<rparr>"
  using assms unfolding get_or_create_tags_link_all by (auto split: prod.splits)

lemma ingredient_loop_link:
  assumes "get_or_create_ingredient u kws recipe s = (r, s')"
  shows "link_all u kws (recipe_id recipe) (Ingredient_objects s, recipe_ingredients s) =
           (r, Ingredient_objects s', recipe_ingredients s')"
    and "s' = s\<lparr>Ingredient_objects := Ingredient_objects s', recipe_ingredients := recipe_ingredients s'\<rparr>"
  using assms unfolding get_or_create_ingredient_link_all by (auto split: prod.splits)

lemma tags_loop_frame:
  assumes "get_or_create_tags u kws recipe s = (r, s')"
  shows "Ingredient_objects s' = Ingredient_objects s" "recipe_ingredients s' = recipe_ingredients s"
    "Recipe_objects s' = Recipe_objects s" "Recipe_seq s' = Recipe_seq s"
  using tags_loop_link(2)[OF assms]
  by (metis db.select_convs db.surjective db.update_convs)+

lemma ingredient_loop_frame:
  assumes "get_or_create_ingredient u kws recipe s = (r, s')"
  shows "Tag_objects s' = Tag_objects s" "recipe_tags s' = recipe_tags s"
    "Recipe_objects s' = Recipe_objects s" "Recipe_seq s' = Recipe_seq s"
  using ingredient_loop_link(2)[OF assms]
  by (metis db.select_convs db.surjective db.update_convs)+

lemma update_tags_frame:
  assumes "update_tags u inst vd s = (r, s')"
  shows "Ingredient_objects s' = Ingredient_objects s" "recipe_ingredients s' = recipe_ingredients s"
    "Recipe_objects s' = Recipe_objects s" "Recipe_seq s' = Recipe_seq s"
  using assms unfolding update_tags_def
  by (auto split: option.splits dest: tags_loop_frame)

lemma update_ingredients_frame:
  assumes "update_ingredients u inst vd s = (r, s')"
  shows "Tag_objects s' = Tag_objects s" "recipe_tags s' = recipe_tags s"
    "Recipe_objects s' = Recipe_objects s" "Recipe_seq s' = Recipe_seq s"
  using assms unfolding update_ingredients_def
  by (auto split: option.splits dest: ingredient_loop_frame)

lemma update_tags_absent:
  "vd_tags vd = None \<Longrightarrow> update_tags u inst vd s = (None, s)"
  by (simp add: update_tags_def)

lemma update_ingredients_absent:
  "vd_ingredients vd = None \<Longrightarrow> update_ingredients u inst vd s = (None, s)"
  by (simp add: update_ingredients_def)

lemma update_tags_link:
  assumes "update_tags u inst vd s = (r, s')" "vd_tags vd = Some tags"
  shows "link_all u tags (recipe_id inst) (Tag_objects s, clear (recipe_tags s) (recipe_id inst)) =
           (r, Tag_objects s', recipe_tags s')"
  using assms unfolding update_tags_def by (auto dest: tags_loop_link(1))

lemma update_ingredients_link:
  assumes "update_ingredients u inst vd s = (r, s')" "vd_ingredients vd = Some ings"
  shows "link_all u ings (recipe_id inst)
           (Ingredient_objects s, clear (recipe_ingredients s) (recipe_id inst)) =
           (r, Ingredient_objects s', recipe_ingredients s')"
  using assms unfolding update_ingredients_def by (auto dest: ingredient_loop_link(1))

lemma save_frame:
  "Tag_objects (save i s) = Tag_objects s" "recipe_tags (save i s) = recipe_tags s"
  "Ingredient_objects (save i s) = Ingredient_objects s"
  "recipe_ingredients (save i s) = recipe_ingredients s"
  "Recipe_seq (save i s) = Recipe_seq s"
  by (simp_all add: save_def)

lemma link_all_cleared:
  assumes "link_all u kws rid (t, clear m rid) = (None, t', m')"
  shows "(rid, oid) \<in> set m' \<longleftrightarrow>
         (\<exists>r \<in> set (rows t'). row_id r = oid \<and> (\<exists>kw \<in> set kws. matches u kw r))"
proof -
  have "linked m' rid = {row_id r | r. r \<in> set (rows t') \<and> (\<exists>kw \<in> set kws. matches u kw r)}"
    using link_all_linked[OF assms] by (simp add: linked_clear)
  then have "oid \<in> linked m' rid \<longleftrightarrow>
      oid \<in> {row_id r | r. r \<in> set (rows t') \<and> (\<exists>kw \<in> set kws. matches u kw r)}" by simp
  then show ?thesis by (auto simp: linked_def)
qed

lemma create_phases:
  "create u vd s =
     (case get_or_create_tags u (nested (vd_tags vd)) (fst (Recipe_objects_create (vd_items vd) s))
             (snd (Recipe_objects_create (vd_items vd) s)) of
        (Some e, s2) \<Rightarrow> (Inl e, s2)
      | (None, s2) \<Rightarrow>
          (case get_or_create_ingredient u (nested (vd_ingredients vd))
                  (fst (Recipe_objects_create (vd_items vd) s)) s2 of
             (Some e, s3) \<Rightarrow> (Inl e, s3)
           | (None, s3) \<Rightarrow> (Inr (fst (Recipe_objects_create (vd_items vd) s)), s3)))"
  by (simp add: create_def nested_def Let_def split: prod.splits option.splits)

lemma Recipe_objects_create_simps:
  "recipe_id (fst (Recipe_objects_create items s)) = Recipe_seq s"
  "attrs (fst (Recipe_objects_create items s)) = items"
  "Tag_objects (snd (Recipe_objects_create items s)) = Tag_objects s"
  "Ingredient_objects (snd (Recipe_objects_create items s)) = Ingredient_objects s"
  "recipe_tags (snd (Recipe_objects_create items s)) = recipe_tags s"
  "recipe_ingredients (snd (Recipe_objects_create items s)) = recipe_ingredients s"
  "Recipe_objects (snd (Recipe_objects_create items s)) =
     Recipe_objects s @ [fst (Recipe_objects_create items s)]"
  "Recipe_seq (snd (Recipe_objects_create items s)) = Suc (Recipe_seq s)"
  by (simp_all add: Recipe_objects_create_def Let_def)

lemma create_cases [consumes 1, case_names tags_raise ingredients_raise ok]:
  assumes "create u vd s = (res, s')"
  obtains e where
      "get_or_create_tags u (nested (vd_tags vd)) (fst (Recipe_objects_create (vd_items vd) s))
         (snd (Recipe_objects_create (vd_items vd) s)) = (Some e, s')" "res = Inl e"
  | e s2 where
      "get_or_create_tags u (nested (vd_tags vd)) (fst (Recipe_objects_create (vd_items vd) s))
         (snd (Recipe_objects_create (vd_items vd) s)) = (None, s2)"
      "get_or_create_ingredient u (nested (vd_ingredients vd))
         (fst (Recipe_objects_create (vd_items vd) s)) s2 = (Some e, s')" "res = Inl e"
  | s2 where
      "get_or_create_tags u (nested (vd_tags vd)) (fst (Recipe_objects_create (vd_items vd) s))
         (snd (Recipe_objects_create (vd_items vd) s)) = (None, s2)"
      "get_or_create_ingredient u (nested (vd_ingredients vd))
         (fst (Recipe_objects_create (vd_items vd) s)) s2 = (None, s')"
      "res = Inr (fst (Recipe_objects_create (vd_items vd) s))"
  using assms unfolding create_phases
  by (auto split: prod.splits option.splits)

text \<open>What create does to the tag side and to the ingredient side, as runs of link_all.\<close>

lemma create_tags_link:
  assumes "create u vd s = (res, s')"
  shows "\<exists>r. link_all u (nested (vd_tags vd)) (Recipe_seq s) (Tag_objects s, recipe_tags s) =
           (r, Tag_objects s', recipe_tags s') \<and> (r = None \<or> res = Inl (the r)) \<and>
           ((\<exists>i. res = Inr i) \<longrightarrow> r = None)"
  using assms
proof (cases rule: create_cases)
  case (tags_raise e)
  then show ?thesis
    using tags_loop_link(1)[OF tags_raise(1)] by (simp add: Recipe_objects_create_simps)
next
  case (ingredients_raise e s2)
  then show ?thesis
    using tags_loop_link(1)[OF ingredients_raise(1)] ingredient_loop_frame(1,2)[OF ingredients_raise(2)]
    by (simp add: Recipe_objects_create_simps)
next
  case (ok s2)
  then show ?thesis
    using tags_loop_link(1)[OF ok(1)] ingredient_loop_frame(1,2)[OF ok(2)]
    by (simp add: Recipe_objects_create_simps)
qed

lemma create_ingredients_link:
  assumes "create u vd s = (Inr i, s')"
  shows "link_all u (nested (vd_ingredients vd)) (Recipe_seq s)
           (Ingredient_objects s, recipe_ingredients s) =
           (None, Ingredient_objects s', recipe_ingredients s')"
  using assms
proof (cases rule: create_cases)
  case (ok s2)
  then show ?thesis
    using tags_loop_frame(1,2)[OF ok(1)] ingredient_loop_link(1)[OF ok(2)]
    by (simp add: Recipe_objects_create_simps)
qed simp_all

text \<open>For any outcome of create, the ingredient side is a (possibly not started) run.\<close>

lemma create_ingredients_run:
  assumes "create u vd s = (res, s')"
  shows "(Ingredient_objects s' = Ingredient_objects s \<and> recipe_ingredients s' = recipe_ingredients s) \<or>
         (\<exists>r. link_all u (nested (vd_ingredients vd)) (Recipe_seq s)
           (Ingredient_objects s, recipe_ingredients s) =
           (r, Ingredient_objects s', recipe_ingredients s'))"
  using assms
proof (cases rule: create_cases)
  case (tags_raise e)
  then show ?thesis
    using tags_loop_frame(1,2)[OF tags_raise(1)] by (simp add: Recipe_objects_create_simps)
next
  case (ingredients_raise e s2)
  then show ?thesis
    using tags_loop_frame(1,2)[OF ingredients_raise(1)] ingredient_loop_link(1)[OF ingredients_raise(2)]
    by (simp add: Recipe_objects_create_simps)
next
  case (ok s2)
  then show ?thesis
    using tags_loop_frame(1,2)[OF ok(1)] ingredient_loop_link(1)[OF ok(2)]
    by (simp add: Recipe_objects_create_simps)
qed

lemma update_tags_run:
  assumes "update u inst vd s = (res, s')"
  shows "case vd_tags vd of
           None \<Rightarrow> Tag_objects s' = Tag_objects s \<and> recipe_tags s' = recipe_tags s
         | Some tags \<Rightarrow>
             (\<exists>r. link_all u tags (recipe_id inst) (Tag_objects s, clear (recipe_tags s) (recipe_id inst)) =
                (r, Tag_objects s', recipe_tags s') \<and> ((\<exists>i. res = Inr i) \<longrightarrow> r = None))"
  using assms
proof (cases rule: update_cases)
  case (tags_raise e)
  then show ?thesis
    using update_tags_link[OF tags_raise(1)]
    by (auto simp: update_tags_absent split: option.splits)
next
  case (ingredients_raise e s1)
  have "Tag_objects s' = Tag_objects s1" "recipe_tags s' = recipe_tags s1"
    using update_ingredients_frame(1,2)[OF ingredients_raise(2)] by simp_all
  then show ?thesis
    using update_tags_link[OF ingredients_raise(1)] ingredients_raise(1,3)
    by (auto simp: update_tags_absent split: option.splits)
next
  case (ok s1 s2)
  have "Tag_objects s' = Tag_objects s1" "recipe_tags s' = recipe_tags s1"
    using update_ingredients_frame(1,2)[OF ok(2)] ok(4) by (simp_all add: save_frame)
  then show ?thesis
    using update_tags_link[OF ok(1)] ok(1)
    by (auto simp: update_tags_absent split: option.splits)
qed

lemma update_ingredients_run:
  assumes "update u inst vd s = (res, s')"
  shows "(Ingredient_objects s' = Ingredient_objects s \<and> recipe_ingredients s' = recipe_ingredients s \<and>
          (vd_ingredients vd = None \<or> (\<exists>e. res = Inl e))) \<or>
         (\<exists>ings r. vd_ingredients vd = Some ings \<and>
            link_all u ings (recipe_id inst)
              (Ingredient_objects s, clear (recipe_ingredients s) (recipe_id inst)) =
              (r, Ingredient_objects s', recipe_ingredients s') \<and> ((\<exists>i. res = Inr i) \<longrightarrow> r = None))"
  using assms
proof (cases rule: update_cases)
  case (tags_raise e)
  then show ?thesis using update_tags_frame(1,2)[OF tags_raise(1)] by simp
next
  case (ingredients_raise e s1)
  have eq: "Ingredient_objects s1 = Ingredient_objects s" "recipe_ingredients s1 = recipe_ingredients s"
    using update_tags_frame(1,2)[OF ingredients_raise(1)] by simp_all
  show ?thesis
  proof (cases "vd_ingredients vd")
    case None
    then show ?thesis using ingredients_raise(2) by (simp add: update_ingredients_absent)
  next
    case (Some ings)
    then show ?thesis
      using update_ingredients_link[OF ingredients_raise(2) Some] eq ingredients_raise(3) by simp
  qed
next
  case (ok s1 s2)
  have eq: "Ingredient_objects s1 = Ingredient_objects s" "recipe_ingredients s1 = recipe_ingredients s"
    using update_tags_frame(1,2)[OF ok(1)] by simp_all
  have eq': "Ingredient_objects s' = Ingredient_objects s2" "recipe_ingredients s' = recipe_ingredients s2"
    using ok(4) by (simp_all add: save_frame)
  show ?thesis
  proof (cases "vd_ingredients vd")
    case None
    then show ?thesis using ok(2) eq eq' by (simp add: update_ingredients_absent)
  next
    case (Some ings)
    then show ?thesis
      using update_ingredients_link[OF ok(2) Some] eq eq' by simp
  qed
qed

section \<open>The (user, name) pairs stay unique\<close>

lemma get_or_create_uniq:
  assumes "get_or_create t u kw = Inr (obj, created, t')" "uniq t"
  shows "uniq t'"
proof -
  from get_or_create_cases[OF assms(1)] show ?thesis
  proof
    assume "filter (matches u kw) (rows t) = [obj] \<and> \<not> created \<and> t' = t"
    then show ?thesis using assms(2) by simp
  next
    assume a: "filter (matches u kw) (rows t) = [] \<and> created \<and>
            obj = \<lparr>row_id = seq t, row_user = u, row_name = (case kw of None \<Rightarrow> [] | Some n \<Rightarrow> n)\<rparr> \<and>
            t' = \<lparr>rows = rows t @ [obj], seq = Suc (seq t)\<rparr>"
    then have no: "\<forall>r \<in> set (rows t). \<not> matches u kw r" by (simp add: filter_empty_conv)
    have "(row_user obj, row_name obj) \<notin> (\<lambda>r. (row_user r, row_name r)) ` set (rows t)"
    proof
      assume "(row_user obj, row_name obj) \<in> (\<lambda>r. (row_user r, row_name r)) ` set (rows t)"
      then obtain r where r: "r \<in> set (rows t)" "row_user r = row_user obj" "row_name r = row_name obj"
        by auto
      then have "matches u kw r" using a by (auto simp: matches_def split: option.splits)
      then show False using no r(1) by blast
    qed
    then show ?thesis using a assms(2) by (simp add: uniq_def)
  qed
qed

lemma link_all_uniq:
  assumes "link_all u kws rid (t, m) = (res, t', m')" "uniq t"
  shows "uniq t'"
  using assms
proof (induction kws arbitrary: t m)
  case Nil
  then show ?case by simp
next
  case (Cons kw kws)
  show ?case
  proof (cases "get_or_create t u kw")
    case (Inl e)
    with Cons.prems show ?thesis by simp
  next
    case (Inr x)
    obtain obj created t1 where x: "x = (obj, created, t1)" by (cases x) auto
    have g: "get_or_create t u kw = Inr (obj, created, t1)" using Inr x by simp
    from Cons.prems(1) g have rest: "link_all u kws rid (t1, add m rid (row_id obj)) = (res, t', m')"
      by simp
    show ?thesis by (rule Cons.IH[OF rest get_or_create_uniq[OF g Cons.prems(2)]])
  qed
qed

lemma link_all_no_second:
  assumes "link_all u kws rid (t, m) = (res, t', m')"
    and "r0 \<in> set (rows t)" "row_user r0 = u'" "row_name r0 = n"
  shows "filter (\<lambda>r. row_user r = u' \<and> row_name r = n) (rows t') =
         filter (\<lambda>r. row_user r = u' \<and> row_name r = n) (rows t)"
proof -
  from link_all_grows[OF assms(1)] obtain new where
    new: "rows t' = rows t @ new"
      "\<forall>r \<in> set new. row_user r = u \<and>
         (\<exists>kw \<in> set kws. matches u kw r \<and> \<not> (\<exists>r0 \<in> set (rows t). matches u kw r0))"
    by blast
  have "\<forall>r \<in> set new. \<not> (row_user r = u' \<and> row_name r = n)"
  proof (intro ballI notI)
    fix r assume r: "r \<in> set new" "row_user r = u' \<and> row_name r = n"
    then obtain kw where kw: "matches u kw r" "\<not> (\<exists>r0 \<in> set (rows t). matches u kw r0)"
      using new(2) by blast
    have "matches u kw r0" using kw(1) r(2) assms(3,4)
      by (auto simp: matches_def split: option.splits)
    then show False using kw(2) assms(2) by blast
  qed
  then have "filter (\<lambda>r. row_user r = u' \<and> row_name r = n) new = []"
    by (simp add: filter_empty_conv)
  then show ?thesis using new(1) by simp
qed

lemma distinct_map_filter_le1:
  "distinct (map f xs) \<Longrightarrow> length (filter (\<lambda>x. f x = k) xs) \<le> 1"
proof (induction xs)
  case Nil
  then show ?case by simp
next
  case (Cons x xs)
  show ?case
  proof (cases "f x = k")
    case True
    then have "\<forall>y \<in> set xs. f y \<noteq> k" using Cons.prems by (metis distinct.simps(2) image_eqI list.simps(9) list.set_map)
    then have "filter (\<lambda>x. f x = k) xs = []" by (simp add: filter_empty_conv)
    then show ?thesis using True by simp
  next
    case False
    then show ?thesis using Cons by simp
  qed
qed

lemma uniq_named_le1:
  assumes "uniq t"
  shows "length (filter (matches u (Some n)) (rows t)) \<le> 1"
proof -
  have "matches u (Some n) = (\<lambda>r. (row_user r, row_name r) = (u, n))"
    by (auto simp: matches_def fun_eq_iff)
  then show ?thesis using distinct_map_filter_le1[of "\<lambda>r. (row_user r, row_name r)" "rows t" "(u, n)"]
      assms by (simp add: uniq_def)
qed

lemma get_or_create_uniq_ok:
  assumes "uniq t"
  shows "\<exists>obj created t'. get_or_create t u (Some n) = Inr (obj, created, t')"
proof (cases "get_or_create t u (Some n)")
  case (Inl e)
  then show ?thesis using uniq_named_le1[OF assms, of u n] by (simp add: get_or_create_Inl)
next
  case (Inr x)
  then show ?thesis by (cases x) auto
qed

lemma link_all_succeeds:
  assumes "uniq t" "named kws"
  shows "\<exists>t' m'. link_all u kws rid (t, m) = (None, t', m')"
  using assms
proof (induction kws arbitrary: t m)
  case Nil
  then show ?case by simp
next
  case (Cons kw kws)
  from Cons.prems(2) obtain n where n: "kw = Some n" by (auto simp: named_def)
  from get_or_create_uniq_ok[OF Cons.prems(1)] obtain obj created t1
    where g: "get_or_create t u (Some n) = Inr (obj, created, t1)" by blast
  have "named kws" using Cons.prems(2) by (simp add: named_def)
  from Cons.IH[OF get_or_create_uniq[OF g Cons.prems(1)] this]
  show ?case using g n by simp
qed

section \<open>When create and update return\<close>

lemma create_ok_recipe:
  assumes "create u vd s = (Inr i, s')"
  shows "i = \<lparr>recipe_id = Recipe_seq s, attrs = vd_items vd\<rparr>"
  using assms
  by (cases rule: create_cases) (simp_all add: Recipe_objects_create_def Let_def)

lemma tags_loop_succeeds:
  assumes "uniq (Tag_objects s)" "named kws"
  shows "\<exists>s'. get_or_create_tags u kws recipe s = (None, s')"
  using link_all_succeeds[OF assms, of u "recipe_id recipe" "recipe_tags s"]
  unfolding get_or_create_tags_link_all by auto

lemma ingredient_loop_succeeds:
  assumes "uniq (Ingredient_objects s)" "named kws"
  shows "\<exists>s'. get_or_create_ingredient u kws recipe s = (None, s')"
  using link_all_succeeds[OF assms, of u "recipe_id recipe" "recipe_ingredients s"]
  unfolding get_or_create_ingredient_link_all by auto

lemma named_nested: "named (nested None)" "named (nested (Some kws)) = named kws"
  by (simp_all add: named_def nested_def)

lemma create_succeeds:
  assumes "uniq (Tag_objects s)" "uniq (Ingredient_objects s)"
    "named (nested (vd_tags vd))" "named (nested (vd_ingredients vd))"
  shows "\<exists>recipe s'. create u vd s = (Inr recipe, s')"
proof -
  let ?c = "Recipe_objects_create (vd_items vd) s"
  have "uniq (Tag_objects (snd ?c))" using assms(1) by (simp add: Recipe_objects_create_simps)
  from tags_loop_succeeds[OF this assms(3)] obtain s2 where
    t: "get_or_create_tags u (nested (vd_tags vd)) (fst ?c) (snd ?c) = (None, s2)" by blast
  have "uniq (Ingredient_objects s2)"
    using tags_loop_frame(1)[OF t] assms(2) by (simp add: Recipe_objects_create_simps)
  from ingredient_loop_succeeds[OF this assms(4)] obtain s3 where
    i: "get_or_create_ingredient u (nested (vd_ingredients vd)) (fst ?c) s2 = (None, s3)" by blast
  show ?thesis unfolding create_phases using t i by simp
qed

lemma update_succeeds:
  assumes "uniq (Tag_objects s)" "uniq (Ingredient_objects s)"
    "named (nested (vd_tags vd))" "named (nested (vd_ingredients vd))"
  shows "\<exists>recipe s'. update u inst vd s = (Inr recipe, s')"
proof -
  have "\<exists>s1. update_tags u inst vd s = (None, s1)"
  proof (cases "vd_tags vd")
    case None
    then show ?thesis by (simp add: update_tags_absent)
  next
    case (Some tags)
    have "uniq (Tag_objects (s\<lparr>recipe_tags := clear (recipe_tags s) (recipe_id inst)\<rparr>))"
      using assms(1) by simp
    moreover have "named tags" using assms(3) Some by (simp add: named_nested)
    ultimately show ?thesis using Some tags_loop_succeeds unfolding update_tags_def by simp
  qed
  then obtain s1 where t: "update_tags u inst vd s = (None, s1)" by blast
  have u1: "uniq (Ingredient_objects s1)" using update_tags_frame(1)[OF t] assms(2) by simp
  have "\<exists>s2. update_ingredients u inst vd s1 = (None, s2)"
  proof (cases "vd_ingredients vd")
    case None
    then show ?thesis by (simp add: update_ingredients_absent)
  next
    case (Some ings)
    have "uniq (Ingredient_objects (s1\<lparr>recipe_ingredients := clear (recipe_ingredients s1) (recipe_id inst)\<rparr>))"
      using u1 by simp
    moreover have "named ings" using assms(4) Some by (simp add: named_nested)
    ultimately show ?thesis using Some ingredient_loop_succeeds unfolding update_ingredients_def by simp
  qed
  then obtain s2 where i: "update_ingredients u inst vd s1 = (None, s2)" by blast
  show ?thesis unfolding update_phases using t i by simp
qed

lemma create_resolved:
  assumes "create u vd s = (Inr recipe, s')"
  shows "resolved u (nested (vd_tags vd)) (recipe_id recipe)
           (Tag_objects s) (Tag_objects s') (recipe_tags s')"
    "resolved u (nested (vd_ingredients vd)) (recipe_id recipe)
           (Ingredient_objects s) (Ingredient_objects s') (recipe_ingredients s')"
proof -
  have id: "recipe_id recipe = Recipe_seq s" using create_ok_recipe[OF assms] by simp
  from create_tags_link[OF assms] have
    "link_all u (nested (vd_tags vd)) (Recipe_seq s) (Tag_objects s, recipe_tags s) =
       (None, Tag_objects s', recipe_tags s')" by auto
  from link_all_resolved[OF this] show "resolved u (nested (vd_tags vd)) (recipe_id recipe)
           (Tag_objects s) (Tag_objects s') (recipe_tags s')" using id by simp
  from link_all_resolved[OF create_ingredients_link[OF assms]]
  show "resolved u (nested (vd_ingredients vd)) (recipe_id recipe)
           (Ingredient_objects s) (Ingredient_objects s') (recipe_ingredients s')" using id by simp
qed

lemma update_resolved:
  assumes "update u inst vd s = (Inr recipe, s')"
  shows "vd_tags vd = Some tags \<Longrightarrow> resolved u tags (recipe_id inst)
           (Tag_objects s) (Tag_objects s') (recipe_tags s')"
    "vd_ingredients vd = Some ings \<Longrightarrow> resolved u ings (recipe_id inst)
           (Ingredient_objects s) (Ingredient_objects s') (recipe_ingredients s')"
proof -
  assume "vd_tags vd = Some tags"
  with update_tags_run[OF assms] have
    "link_all u tags (recipe_id inst) (Tag_objects s, clear (recipe_tags s) (recipe_id inst)) =
       (None, Tag_objects s', recipe_tags s')" by auto
  from link_all_resolved[OF this] show "resolved u tags (recipe_id inst)
           (Tag_objects s) (Tag_objects s') (recipe_tags s')" .
next
  assume "vd_ingredients vd = Some ings"
  with update_ingredients_run[OF assms] have
    "link_all u ings (recipe_id inst)
       (Ingredient_objects s, clear (recipe_ingredients s) (recipe_id inst)) =
       (None, Ingredient_objects s', recipe_ingredients s')" by auto
  from link_all_resolved[OF this] show "resolved u ings (recipe_id inst)
           (Ingredient_objects s) (Ingredient_objects s') (recipe_ingredients s')" .
qed

section \<open>What create and update keep\<close>

lemma keeps_unique_refl: "keeps_unique t t"
  by (simp add: keeps_unique_def)

lemma link_all_keeps_unique:
  assumes "link_all u kws rid (t, m) = (res, t', m')"
  shows "keeps_unique t t'"
  unfolding keeps_unique_def
  using link_all_uniq[OF assms] link_all_no_second[OF assms] by blast

lemma create_keeps_unique:
  assumes "create u vd s = (res, s')"
  shows "keeps_unique (Tag_objects s) (Tag_objects s')"
    "keeps_unique (Ingredient_objects s) (Ingredient_objects s')"
proof -
  from create_tags_link[OF assms] show "keeps_unique (Tag_objects s) (Tag_objects s')"
    using link_all_keeps_unique by blast
  from create_ingredients_run[OF assms]
  show "keeps_unique (Ingredient_objects s) (Ingredient_objects s')"
    using link_all_keeps_unique keeps_unique_refl by auto
qed

lemma update_keeps_unique:
  assumes "update u inst vd s = (res, s')"
  shows "keeps_unique (Tag_objects s) (Tag_objects s')"
    "keeps_unique (Ingredient_objects s) (Ingredient_objects s')"
proof -
  from update_tags_run[OF assms] show "keeps_unique (Tag_objects s) (Tag_objects s')"
    using link_all_keeps_unique keeps_unique_refl by (auto split: option.splits)
  from update_ingredients_run[OF assms]
  show "keeps_unique (Ingredient_objects s) (Ingredient_objects s')"
    using link_all_keeps_unique keeps_unique_refl by auto
qed

lemma get_or_create_existing:
  assumes "uniq t" "r0 \<in> set (rows t)" "matches u (Some n) r0"
  shows "get_or_create t u (Some n) = Inr (r0, False, t)"
proof -
  from get_or_create_uniq_ok[OF assms(1)] obtain obj created t'
    where g: "get_or_create t u (Some n) = Inr (obj, created, t')" by blast
  have "\<not> created" using get_or_create_created[OF g] assms(2,3) by blast
  then have "t' = t" "filter (matches u (Some n)) (rows t) = [obj]"
    using get_or_create_cases[OF g] by auto
  moreover from this(2) have "r0 = obj" using filter_single_unique assms(2,3) by metis
  ultimately show ?thesis using g \<open>\<not> created\<close> by simp
qed

lemma create_tags_absent:
  assumes "create u vd s = (res, s')" "vd_tags vd = None"
  shows "recipe_tags s' = recipe_tags s"
  using create_tags_link[OF assms(1)] assms(2) by (auto simp: nested_def)

lemma create_ingredients_absent:
  assumes "create u vd s = (res, s')" "vd_ingredients vd = None"
  shows "recipe_ingredients s' = recipe_ingredients s"
  using create_ingredients_run[OF assms(1)] assms(2) by (auto simp: nested_def)

lemma create_absent_as_empty:
  "vd_tags vd = None \<Longrightarrow> create u vd s = create u (vd\<lparr>vd_tags := Some []\<rparr>) s"
  "vd_ingredients vd = None \<Longrightarrow> create u vd s = create u (vd\<lparr>vd_ingredients := Some []\<rparr>) s"
  by (simp_all add: create_def)

lemma create_row:
  assumes "create u vd s = (res, s')"
  shows "\<lparr>recipe_id = Recipe_seq s, attrs = vd_items vd\<rparr> \<in> set (Recipe_objects s')"
  using assms
proof (cases rule: create_cases)
  case (tags_raise e)
  then show ?thesis using tags_loop_frame(3)[OF tags_raise(1)]
    by (simp add: Recipe_objects_create_def Let_def)
next
  case (ingredients_raise e s2)
  then show ?thesis
    using tags_loop_frame(3)[OF ingredients_raise(1)] ingredient_loop_frame(3)[OF ingredients_raise(2)]
    by (simp add: Recipe_objects_create_def Let_def)
next
  case (ok s2)
  then show ?thesis
    using tags_loop_frame(3)[OF ok(1)] ingredient_loop_frame(3)[OF ok(2)]
    by (simp add: Recipe_objects_create_def Let_def)
qed

section \<open>An entry that occurs twice\<close>

lemma link_all_append:
  "link_all u (xs @ ys) rid (t, m) =
     (case link_all u xs rid (t, m) of
        (Some e, t', m') \<Rightarrow> (Some e, t', m')
      | (None, t', m') \<Rightarrow> link_all u ys rid (t', m'))"
  by (induction xs arbitrary: t m) (auto split: sum.splits prod.splits option.splits)

lemma add_mem: "p \<in> set m \<Longrightarrow> p \<in> set (add m rid oid)"
  by (simp add: add_def)

lemma add_idem: "(rid, oid) \<in> set m \<Longrightarrow> add m rid oid = m"
  by (simp add: add_def)

lemma step_establishes:
  assumes "get_or_create t u kw = Inr (obj, c, t1)"
  shows "held u kw rid t1 (add m rid (row_id obj))"
proof -
  have "filter (matches u kw) (rows t1) = [obj]"
    using get_or_create_cases[OF assms] by (auto simp: matches_new)
  moreover have "(rid, row_id obj) \<in> set (add m rid (row_id obj))" by (simp add: add_def)
  ultimately show ?thesis unfolding held_iff by blast
qed

lemma step_preserves_named:
  assumes "get_or_create t u k = Inr (obj, c, t1)" "held u (Some n) rid t m"
  shows "held u (Some n) rid t1 (add m rid (row_id obj))"
proof -
  from assms(2) obtain r where r: "filter (matches u (Some n)) (rows t) = [r]" "(rid, row_id r) \<in> set m"
    unfolding held_iff by blast
  have rin: "r \<in> set (rows t)" "matches u (Some n) r" using filter_single_mem[OF r(1)] by simp_all
  have mem: "(rid, row_id r) \<in> set (add m rid (row_id obj))" using r(2) by (rule add_mem)
  show ?thesis
  proof (cases c)
    case False
    then have "t1 = t" using get_or_create_cases[OF assms(1)] by auto
    then show ?thesis using r(1) mem unfolding held_iff by blast
  next
    case True
    then have cr: "filter (matches u k) (rows t) = []"
      "obj = \<lparr>row_id = seq t, row_user = u, row_name = (case k of None \<Rightarrow> [] | Some n \<Rightarrow> n)\<rparr>"
      "rows t1 = rows t @ [obj]"
      using get_or_create_cases[OF assms(1)] by auto
    have "\<not> matches u k r" using cr(1) rin(1) by (simp add: filter_empty_conv)
    then have "\<not> matches u (Some n) obj" using rin(2) cr(2)
      by (auto simp: matches_def split: option.splits)
    then have "filter (matches u (Some n)) (rows t1) = [r]" using cr(3) r(1) by simp
    then show ?thesis using mem unfolding held_iff by blast
  qed
qed

lemma link_all_preserves_held:
  assumes "link_all u kws rid (t, m) = (None, t', m')" "held u (Some n) rid t m"
  shows "held u (Some n) rid t' m'"
  using assms
proof (induction kws arbitrary: t m)
  case Nil
  then show ?case by simp
next
  case (Cons kw kws)
  show ?case
  proof (cases "get_or_create t u kw")
    case (Inl e)
    with Cons.prems show ?thesis by simp
  next
    case (Inr x)
    obtain obj created t1 where x: "x = (obj, created, t1)" by (cases x) auto
    have g: "get_or_create t u kw = Inr (obj, created, t1)" using Inr x by simp
    from Cons.prems(1) g have rest: "link_all u kws rid (t1, add m rid (row_id obj)) = (None, t', m')"
      by simp
    show ?thesis by (rule Cons.IH[OF rest step_preserves_named[OF g Cons.prems(2)]])
  qed
qed

lemma link_all_establishes:
  assumes "link_all u kws rid (t, m) = (None, t', m')" "Some n \<in> set kws"
  shows "held u (Some n) rid t' m'"
  using assms
proof (induction kws arbitrary: t m)
  case Nil
  then show ?case by simp
next
  case (Cons kw kws)
  show ?case
  proof (cases "get_or_create t u kw")
    case (Inl e)
    with Cons.prems show ?thesis by simp
  next
    case (Inr x)
    obtain obj created t1 where x: "x = (obj, created, t1)" by (cases x) auto
    have g: "get_or_create t u kw = Inr (obj, created, t1)" using Inr x by simp
    from Cons.prems(1) g have rest: "link_all u kws rid (t1, add m rid (row_id obj)) = (None, t', m')"
      by simp
    show ?thesis
    proof (cases "kw = Some n")
      case True
      have "held u (Some n) rid t1 (add m rid (row_id obj))"
        using step_establishes[OF g] True by simp
      then show ?thesis by (rule link_all_preserves_held[OF rest])
    next
      case False
      then have "Some n \<in> set kws" using Cons.prems(2) by auto
      then show ?thesis by (rule Cons.IH[OF rest])
    qed
  qed
qed

lemma held_step:
  assumes "held u kw rid t m"
  shows "link_all u (kw # zs) rid (t, m) = link_all u zs rid (t, m)"
proof -
  from assms obtain r where r: "filter (matches u kw) (rows t) = [r]" "(rid, row_id r) \<in> set m"
    unfolding held_iff by blast
  have "get_or_create t u kw = Inr (r, False, t)" using r(1) by (simp add: get_or_create_def)
  then show ?thesis using add_idem[OF r(2)] by simp
qed

lemma link_all_dup_named:
  "link_all u (xs @ Some n # ys @ Some n # zs) rid (t, m) =
   link_all u (xs @ Some n # ys @ zs) rid (t, m)"
proof -
  have a: "xs @ Some n # ys @ Some n # zs = (xs @ Some n # ys) @ (Some n # zs)"
    and b: "xs @ Some n # ys @ zs = (xs @ Some n # ys) @ zs" by simp_all
  obtain res t' m' where f: "link_all u (xs @ Some n # ys) rid (t, m) = (res, t', m')"
    by (cases "link_all u (xs @ Some n # ys) rid (t, m)") auto
  show ?thesis
  proof (cases res)
    case None
    have A: "link_all u ((xs @ Some n # ys) @ (Some n # zs)) rid (t, m) =
             link_all u (Some n # zs) rid (t', m')"
      by (subst link_all_append) (simp only: f None option.case prod.case)
    have B: "link_all u ((xs @ Some n # ys) @ zs) rid (t, m) = link_all u zs rid (t', m')"
      by (subst link_all_append) (simp only: f None option.case prod.case)
    have "held u (Some n) rid t' m'"
      using link_all_establishes[of u "xs @ Some n # ys" rid t m t' m' n] f None by simp
    from held_step[OF this] show ?thesis unfolding a b A B .
  next
    case (Some e)
    have A: "link_all u ((xs @ Some n # ys) @ (Some n # zs)) rid (t, m) = (Some e, t', m')"
      by (subst link_all_append) (simp only: f Some option.case prod.case)
    have B: "link_all u ((xs @ Some n # ys) @ zs) rid (t, m) = (Some e, t', m')"
      by (subst link_all_append) (simp only: f Some option.case prod.case)
    show ?thesis unfolding a b A B ..
  qed
qed

text \<open>Any entry: when the run with the duplicate returns, so does the run without it.\<close>

lemma link_all_dup_returns:
  assumes "link_all u (xs @ kw # ys @ kw # zs) rid (t, m) = (None, t', m')"
  shows "link_all u (xs @ kw # ys @ zs) rid (t, m) = (None, t', m')"
proof -
  have a: "xs @ kw # ys @ kw # zs = (xs @ kw # ys) @ (kw # zs)"
    and b: "xs @ kw # ys @ zs = (xs @ kw # ys) @ zs" by simp_all
  obtain res t1 m1 where f: "link_all u (xs @ kw # ys) rid (t, m) = (res, t1, m1)"
    by (cases "link_all u (xs @ kw # ys) rid (t, m)") auto
  have A: "link_all u ((xs @ kw # ys) @ (kw # zs)) rid (t, m) =
      (case res of Some e \<Rightarrow> (Some e, t1, m1) | None \<Rightarrow> link_all u (kw # zs) rid (t1, m1))"
    by (subst link_all_append) (simp only: f prod.case)
  have B: "link_all u ((xs @ kw # ys) @ zs) rid (t, m) =
      (case res of Some e \<Rightarrow> (Some e, t1, m1) | None \<Rightarrow> link_all u zs rid (t1, m1))"
    by (subst link_all_append) (simp only: f prod.case)
  have res: "res = None" using assms unfolding a A by (cases res) simp_all
  have rest: "link_all u (kw # zs) rid (t1, m1) = (None, t', m')"
    using assms unfolding a A res by simp
  from link_all_entry_linked[of u "xs @ kw # ys" rid t m t1 m1 kw] f res
  obtain r where r: "r \<in> set (rows t1)" "matches u kw r" "(rid, row_id r) \<in> set m1" by auto
  have "held u kw rid t1 m1"
  proof (cases "get_or_create t1 u kw")
    case (Inl e)
    then show ?thesis using rest by simp
  next
    case (Inr x)
    obtain obj created t2 where x: "x = (obj, created, t2)" by (cases x) auto
    have g: "get_or_create t1 u kw = Inr (obj, created, t2)" using Inr x by simp
    have "\<not> created" using get_or_create_created[OF g] r by blast
    then have fl: "filter (matches u kw) (rows t1) = [obj]" using get_or_create_cases[OF g] by auto
    then have "r = obj" using filter_single_unique r by metis
    then show ?thesis using fl r(3) unfolding held_iff by blast
  qed
  from held_step[OF this, of zs] have "link_all u zs rid (t1, m1) = (None, t', m')"
    using rest by (simp only:)
  then show ?thesis unfolding b B res by simp
qed

lemma add_distinct: "distinct m \<Longrightarrow> distinct (add m rid oid)"
  by (simp add: add_def)

lemma link_all_distinct:
  assumes "link_all u kws rid (t, m) = (res, t', m')" "distinct m"
  shows "distinct m'"
  using assms
proof (induction kws arbitrary: t m)
  case Nil
  then show ?case by simp
next
  case (Cons kw kws)
  show ?case
  proof (cases "get_or_create t u kw")
    case (Inl e)
    with Cons.prems show ?thesis by simp
  next
    case (Inr x)
    obtain obj created t1 where x: "x = (obj, created, t1)" by (cases x) auto
    from Cons.prems(1) Inr x have rest: "link_all u kws rid (t1, add m rid (row_id obj)) = (res, t', m')"
      by simp
    show ?thesis by (rule Cons.IH[OF rest add_distinct[OF Cons.prems(2)]])
  qed
qed

lemma distinct_count_list_1: "distinct xs \<Longrightarrow> x \<in> set xs \<Longrightarrow> count_list xs x = 1"
  by (induction xs) (auto simp: count_list_0_iff)

lemma link_all_once:
  assumes "link_all u kws rid (t, m) = (None, t', m')" "Some n \<in> set kws" "distinct m"
  shows "once u n rid t' m'"
proof -
  from link_all_establishes[OF assms(1,2)] obtain r where
    r: "filter (matches u (Some n)) (rows t') = [r]" "(rid, row_id r) \<in> set m'"
    unfolding held_iff by blast
  have "count_list m' (rid, row_id r) = 1"
    using distinct_count_list_1[OF link_all_distinct[OF assms(1,3)] r(2)] .
  then show ?thesis using r(1) unfolding once_iff by blast
qed

lemma tags_loop_dup_named:
  "get_or_create_tags u (xs @ Some n # ys @ Some n # zs) recipe s =
   get_or_create_tags u (xs @ Some n # ys @ zs) recipe s"
  by (simp only: get_or_create_tags_link_all link_all_dup_named)

lemma ingredient_loop_dup_named:
  "get_or_create_ingredient u (xs @ Some n # ys @ Some n # zs) recipe s =
   get_or_create_ingredient u (xs @ Some n # ys @ zs) recipe s"
  by (simp only: get_or_create_ingredient_link_all link_all_dup_named)

lemma create_dup_named:
  "vd_tags vd = Some (xs @ Some n # ys @ Some n # zs) \<Longrightarrow>
     create u vd s = create u (vd\<lparr>vd_tags := Some (xs @ Some n # ys @ zs)\<rparr>) s"
  "vd_ingredients vd = Some (xs @ Some n # ys @ Some n # zs) \<Longrightarrow>
     create u vd s = create u (vd\<lparr>vd_ingredients := Some (xs @ Some n # ys @ zs)\<rparr>) s"
  by (simp_all add: create_def tags_loop_dup_named ingredient_loop_dup_named
      cong: prod.case_cong option.case_cong)

lemma update_dup_named:
  "vd_tags vd = Some (xs @ Some n # ys @ Some n # zs) \<Longrightarrow>
     update u inst vd s = update u inst (vd\<lparr>vd_tags := Some (xs @ Some n # ys @ zs)\<rparr>) s"
  "vd_ingredients vd = Some (xs @ Some n # ys @ Some n # zs) \<Longrightarrow>
     update u inst vd s = update u inst (vd\<lparr>vd_ingredients := Some (xs @ Some n # ys @ zs)\<rparr>) s"
  by (simp_all add: update_def tags_loop_dup_named ingredient_loop_dup_named
      cong: prod.case_cong option.case_cong)

lemma clear_distinct: "distinct m \<Longrightarrow> distinct (clear m rid)"
  by (simp add: clear_def)

lemma create_once:
  assumes "create u vd s = (Inr recipe, s')"
  shows "vd_tags vd = Some tags \<Longrightarrow> Some n \<in> set tags \<Longrightarrow> distinct (recipe_tags s) \<Longrightarrow>
           once u n (recipe_id recipe) (Tag_objects s') (recipe_tags s')"
    "vd_ingredients vd = Some ings \<Longrightarrow> Some n \<in> set ings \<Longrightarrow> distinct (recipe_ingredients s) \<Longrightarrow>
           once u n (recipe_id recipe) (Ingredient_objects s') (recipe_ingredients s')"
proof -
  have id: "recipe_id recipe = Recipe_seq s" using create_ok_recipe[OF assms] by simp
  {
    assume a: "vd_tags vd = Some tags" "Some n \<in> set tags" "distinct (recipe_tags s)"
    from create_tags_link[OF assms] a(1) have
      "link_all u tags (Recipe_seq s) (Tag_objects s, recipe_tags s) =
         (None, Tag_objects s', recipe_tags s')" by (auto simp: nested_def)
    from link_all_once[OF this a(2,3)]
    show "once u n (recipe_id recipe) (Tag_objects s') (recipe_tags s')" using id by simp
  }
  {
    assume a: "vd_ingredients vd = Some ings" "Some n \<in> set ings" "distinct (recipe_ingredients s)"
    from create_ingredients_link[OF assms] a(1) have
      "link_all u ings (Recipe_seq s) (Ingredient_objects s, recipe_ingredients s) =
         (None, Ingredient_objects s', recipe_ingredients s')" by (auto simp: nested_def)
    from link_all_once[OF this a(2,3)]
    show "once u n (recipe_id recipe) (Ingredient_objects s') (recipe_ingredients s')"
      using id by simp
  }
qed

lemma update_once:
  assumes "update u inst vd s = (Inr updated, s')"
  shows "vd_tags vd = Some tags \<Longrightarrow> Some n \<in> set tags \<Longrightarrow> distinct (recipe_tags s) \<Longrightarrow>
           once u n (recipe_id inst) (Tag_objects s') (recipe_tags s')"
    "vd_ingredients vd = Some ings \<Longrightarrow> Some n \<in> set ings \<Longrightarrow> distinct (recipe_ingredients s) \<Longrightarrow>
           once u n (recipe_id inst) (Ingredient_objects s') (recipe_ingredients s')"
proof -
  {
    assume a: "vd_tags vd = Some tags" "Some n \<in> set tags" "distinct (recipe_tags s)"
    from update_tags_run[OF assms] a(1) have
      "link_all u tags (recipe_id inst) (Tag_objects s, clear (recipe_tags s) (recipe_id inst)) =
         (None, Tag_objects s', recipe_tags s')" by auto
    from link_all_once[OF this a(2) clear_distinct[OF a(3)]]
    show "once u n (recipe_id inst) (Tag_objects s') (recipe_tags s')" .
  }
  {
    assume a: "vd_ingredients vd = Some ings" "Some n \<in> set ings" "distinct (recipe_ingredients s)"
    from update_ingredients_run[OF assms] a(1) have
      "link_all u ings (recipe_id inst)
         (Ingredient_objects s, clear (recipe_ingredients s) (recipe_id inst)) =
         (None, Ingredient_objects s', recipe_ingredients s')" by auto
    from link_all_once[OF this a(2) clear_distinct[OF a(3)]]
    show "once u n (recipe_id inst) (Ingredient_objects s') (recipe_ingredients s')" .
  }
qed

section \<open>Lemmas on the endpoints\<close>

lemma handle_unauthenticated: "handle None req s = (401, Empty, s)"
  by (simp add: handle_def)

lemma list_rows_owned: "r \<in> set (list_rows t m u a) \<Longrightarrow> row_user r = u"
  by (auto simp: list_rows_def split: if_splits)

lemma set_assigned:
  "set (assigned t m) = {r \<in> set (rows t). \<exists>rid. (rid, row_id r) \<in> set m}"
  by (force simp: assigned_def)

lemma list_rows_assigned:
  "r \<in> set (list_rows t m u True) \<longleftrightarrow>
     r \<in> set (rows t) \<and> row_user r = u \<and> (\<exists>rid. (rid, row_id r) \<in> set m)"
  by (auto simp: list_rows_def set_assigned)

lemma list_rows_distinct: "distinct (list_rows t m u True)"
  by (simp add: list_rows_def)

lemma list_rows_once: "r \<in> set (list_rows t m u True) \<Longrightarrow> count_list (list_rows t m u True) r = 1"
  using distinct_count_list_1[OF list_rows_distinct] .

lemma handle_list:
  "handle (Some u) (ListTags a) s = (200, Rows (list_rows (Tag_objects s) (recipe_tags s) u a), s)"
  "handle (Some u) (ListIngredients a) s =
     (200, Rows (list_rows (Ingredient_objects s) (recipe_ingredients s) u a), s)"
  by (simp_all add: handle_def)

lemma find_owned_Some:
  assumes "\<exists>r \<in> set xs. P r"
  shows "\<exists>r. find P xs = Some r \<and> P r \<and> r \<in> set xs"
  using assms by (induction xs) auto

lemma delete_row_Some:
  assumes "\<exists>r \<in> set (rows t). row_id r = pk \<and> row_user r = u"
  shows "delete_row t m u pk =
     Some (t\<lparr>rows := filter (\<lambda>x. row_id x \<noteq> pk) (rows t)\<rparr>, filter (\<lambda>p. snd p \<noteq> pk) m)"
proof -
  from find_owned_Some[of "rows t" "\<lambda>r. row_id r = pk \<and> row_user r = u"] assms
  obtain r where "find (\<lambda>r. row_id r = pk \<and> row_user r = u) (rows t) = Some r" by blast
  then show ?thesis by (simp add: delete_row_def)
qed

lemma update_row_Some:
  assumes "\<exists>r \<in> set (rows t). row_id r = pk \<and> row_user r = u"
  shows "\<exists>r'. update_row t u pk kw =
     Some (r', t\<lparr>rows := map (\<lambda>x. if row_id x = pk then r' else x) (rows t)\<rparr>) \<and>
     row_id r' = pk \<and> row_user r' = u \<and> (\<forall>n. kw = Some n \<longrightarrow> row_name r' = n)"
proof -
  from find_owned_Some[of "rows t" "\<lambda>r. row_id r = pk \<and> row_user r = u"] assms
  obtain r where r: "find (\<lambda>r. row_id r = pk \<and> row_user r = u) (rows t) = Some r"
    "row_id r = pk" "row_user r = u" by blast
  have "\<exists>x \<in> set (rows t). row_id x = row_id r" using assms r(2) by auto
  then show ?thesis using r
    by (cases kw) (simp_all add: update_row_def ModelSerializer_update_def Let_def)
qed

lemma list_rows_subset: "set (list_rows t m u a) \<subseteq> set (rows t)"
  by (auto simp: list_rows_def set_assigned)

lemma handle_list_rows:
  assumes "handle auth (ListTags a) s = (st, Rows rs, s')"
  shows "set rs \<subseteq> set (rows (Tag_objects s))"
  using assms by (cases auth) (auto simp: handle_def dest: list_rows_subset[THEN subsetD])

lemma handle_list_rows':
  assumes "handle auth (ListIngredients a) s = (st, Rows rs, s')"
  shows "set rs \<subseteq> set (rows (Ingredient_objects s))"
  using assms by (cases auth) (auto simp: handle_def dest: list_rows_subset[THEN subsetD])

section \<open>Setting the attributes and saving\<close>

lemma setattr_simps:
  "recipe_id (setattr i k v) = recipe_id i"
  "map_of (attrs (setattr i k v)) = (map_of (attrs i))(k \<mapsto> v)"
  by (simp_all add: setattr_def update_conv')

lemma set_items_Cons: "set_items ((k, v) # items) i = set_items items (setattr i k v)"
  by (simp add: set_items_def)

lemma set_items_id: "recipe_id (set_items items i) = recipe_id i"
  by (induction items arbitrary: i) (auto simp: set_items_Cons setattr_simps set_items_def)

lemma set_items_attrs:
  "map_of (attrs (set_items items i)) = map_of (attrs i) ++ map_of (rev items)"
proof (induction items arbitrary: i)
  case Nil
  then show ?case by (simp add: set_items_def)
next
  case (Cons a items)
  obtain k v where a: "a = (k, v)" by (cases a)
  have "map_of (attrs (set_items (a # items) i)) =
        (map_of (attrs i))(k \<mapsto> v) ++ map_of (rev items)"
    unfolding a set_items_Cons Cons.IH by (simp add: setattr_simps)
  also have "\<dots> = map_of (attrs i) ++ map_of (rev (a # items))"
    unfolding a by (simp add: map_add_upd_left)
  finally show ?case .
qed

lemma set_items_persist:
  assumes "distinct (map fst items)" "(k, v) \<in> set items"
  shows "map_of (attrs (set_items items i)) k = Some v"
proof -
  have "distinct (map fst (rev items))" using assms(1) by (simp add: rev_map[symmetric])
  moreover have "(k, v) \<in> set (rev items)" using assms(2) by simp
  ultimately have "map_of (rev items) k = Some v" by (rule map_of_is_SomeI)
  then show ?thesis by (simp add: set_items_attrs)
qed

lemma update_ok_item:
  assumes "update u inst vd s = (Inr i, s')"
  shows "i = set_items (vd_items vd) inst"
  using assms by (cases rule: update_cases) simp_all

lemma update_ok_saved:
  assumes "update u inst vd s = (Inr i, s')"
  shows "Recipe_objects s' =
       (if \<exists>r \<in> set (Recipe_objects s). recipe_id r = recipe_id inst
        then map (\<lambda>r. if recipe_id r = recipe_id inst then i else r) (Recipe_objects s)
        else Recipe_objects s @ [i])"
  using assms
proof (cases rule: update_cases)
  case (ok s1 s2)
  have "Recipe_objects s2 = Recipe_objects s"
    using update_tags_frame(3)[OF ok(1)] update_ingredients_frame(3)[OF ok(2)] by simp
  then show ?thesis using ok(3,4) by (simp add: save_def set_items_id)
qed simp_all

lemma map_replace_recipe:
  assumes "\<exists>r \<in> set xs. recipe_id r = pk" "recipe_id r' = pk"
  shows "(\<exists>r \<in> set (map (\<lambda>x. if recipe_id x = pk then r' else x) xs). recipe_id r = pk) \<and>
         (\<forall>r \<in> set (map (\<lambda>x. if recipe_id x = pk then r' else x) xs). recipe_id r = pk \<longrightarrow> r = r')"
  using assms by (induction xs) auto

lemma find_SomeD: "find P xs = Some x \<Longrightarrow> P x \<and> x \<in> set xs"
  by (induction xs) (auto split: if_splits)

lemma handle_update_recipe:
  assumes "find (\<lambda>r. recipe_id r = pk \<and> owned_by u r) (Recipe_objects s) = Some inst"
    "update u inst vd s = (Inr i, s1)"
  shows "handle (Some u) (UpdateRecipe pk vd) s = (200, Recipe i, s1)"
  using assms by (simp add: handle_def)

lemma handle_update_tag:
  assumes "\<exists>r \<in> set (rows (Tag_objects s)). row_id r = pk \<and> row_user r = u"
  shows "\<exists>r'. handle (Some u) (UpdateTag pk kw) s =
     (200, Row r', s\<lparr>Tag_objects := (Tag_objects s)\<lparr>rows :=
        map (\<lambda>x. if row_id x = pk then r' else x) (rows (Tag_objects s))\<rparr>\<rparr>) \<and>
     row_id r' = pk \<and> row_user r' = u \<and> (\<forall>n. kw = Some n \<longrightarrow> row_name r' = n)"
  using update_row_Some[OF assms, of kw] by (auto simp: handle_def)

lemma handle_update_ingredient:
  assumes "\<exists>r \<in> set (rows (Ingredient_objects s)). row_id r = pk \<and> row_user r = u"
  shows "\<exists>r'. handle (Some u) (UpdateIngredient pk kw) s =
     (200, Row r', s\<lparr>Ingredient_objects := (Ingredient_objects s)\<lparr>rows :=
        map (\<lambda>x. if row_id x = pk then r' else x) (rows (Ingredient_objects s))\<rparr>\<rparr>) \<and>
     row_id r' = pk \<and> row_user r' = u \<and> (\<forall>n. kw = Some n \<longrightarrow> row_name r' = n)"
  using update_row_Some[OF assms, of kw] by (auto simp: handle_def)

lemma map_replace_row:
  assumes "\<exists>r \<in> set xs. row_id r = pk" "row_id r' = pk"
  shows "(\<exists>r \<in> set (map (\<lambda>x. if row_id x = pk then r' else x) xs). row_id r = pk) \<and>
         (\<forall>r \<in> set (map (\<lambda>x. if row_id x = pk then r' else x) xs). row_id r = pk \<longrightarrow> r = r')"
  using assms by (induction xs) auto

lemma tags_loop_dup_returns:
  assumes "get_or_create_tags u (xs @ kw # ys @ kw # zs) recipe s = (None, s')"
  shows "get_or_create_tags u (xs @ kw # ys @ zs) recipe s = (None, s')"
proof -
  note l = tags_loop_link[OF assms]
  from link_all_dup_returns[OF l(1)] l(2) show ?thesis
    unfolding get_or_create_tags_link_all[of u "xs @ kw # ys @ zs"] by simp
qed

lemma ingredient_loop_dup_returns:
  assumes "get_or_create_ingredient u (xs @ kw # ys @ kw # zs) recipe s = (None, s')"
  shows "get_or_create_ingredient u (xs @ kw # ys @ zs) recipe s = (None, s')"
proof -
  note l = ingredient_loop_link[OF assms]
  from link_all_dup_returns[OF l(1)] l(2) show ?thesis
    unfolding get_or_create_ingredient_link_all[of u "xs @ kw # ys @ zs"] by simp
qed

lemma nested_upd:
  "nested (vd_tags (vd\<lparr>vd_tags := Some l\<rparr>)) = l"
  "nested (vd_ingredients (vd\<lparr>vd_ingredients := Some l\<rparr>)) = l"
  "nested (Some l) = l"
  by (simp_all add: nested_def)

lemma create_dup_returns_tags:
  assumes "create u vd s = (Inr recipe, s')" "vd_tags vd = Some (xs @ kw # ys @ kw # zs)"
  shows "create u (vd\<lparr>vd_tags := Some (xs @ kw # ys @ zs)\<rparr>) s = (Inr recipe, s')"
  using assms(1)
proof (cases rule: create_cases)
  case (ok s2)
  let ?r = "fst (Recipe_objects_create (vd_items vd) s)"
  let ?s = "snd (Recipe_objects_create (vd_items vd) s)"
  have "get_or_create_tags u (xs @ kw # ys @ kw # zs) ?r ?s = (None, s2)"
    using ok(1) by (simp only: assms(2) nested_upd)
  then have t: "get_or_create_tags u (xs @ kw # ys @ zs) ?r ?s = (None, s2)"
    by (rule tags_loop_dup_returns)
  show ?thesis unfolding create_phases by (simp add: nested_upd t ok(2,3))
qed simp_all

lemma create_dup_returns_ingredients:
  assumes "create u vd s = (Inr recipe, s')" "vd_ingredients vd = Some (xs @ kw # ys @ kw # zs)"
  shows "create u (vd\<lparr>vd_ingredients := Some (xs @ kw # ys @ zs)\<rparr>) s = (Inr recipe, s')"
  using assms(1)
proof (cases rule: create_cases)
  case (ok s2)
  let ?r = "fst (Recipe_objects_create (vd_items vd) s)"
  have "get_or_create_ingredient u (xs @ kw # ys @ kw # zs) ?r s2 = (None, s')"
    using ok(2) by (simp only: assms(2) nested_upd)
  then have t: "get_or_create_ingredient u (xs @ kw # ys @ zs) ?r s2 = (None, s')"
    by (rule ingredient_loop_dup_returns)
  show ?thesis unfolding create_phases by (simp add: nested_upd t ok(1,3))
qed simp_all

lemma update_dup_returns_tags:
  assumes "update u inst vd s = (Inr updated, s')" "vd_tags vd = Some (xs @ kw # ys @ kw # zs)"
  shows "update u inst (vd\<lparr>vd_tags := Some (xs @ kw # ys @ zs)\<rparr>) s = (Inr updated, s')"
  using assms(1)
proof (cases rule: update_cases)
  case (ok s1 s2)
  have "get_or_create_tags u (xs @ kw # ys @ kw # zs) inst
          (s\<lparr>recipe_tags := clear (recipe_tags s) (recipe_id inst)\<rparr>) = (None, s1)"
    using ok(1) by (simp only: update_tags_def assms(2) option.case)
  then have "get_or_create_tags u (xs @ kw # ys @ zs) inst
          (s\<lparr>recipe_tags := clear (recipe_tags s) (recipe_id inst)\<rparr>) = (None, s1)"
    by (rule tags_loop_dup_returns)
  then have t: "update_tags u inst (vd\<lparr>vd_tags := Some (xs @ kw # ys @ zs)\<rparr>) s = (None, s1)"
    by (simp add: update_tags_def)
  have i: "update_ingredients u inst (vd\<lparr>vd_tags := Some (xs @ kw # ys @ zs)\<rparr>) s1 = (None, s2)"
    using ok(2) by (simp add: update_ingredients_def)
  show ?thesis unfolding update_phases by (simp add: t i ok(3,4))
qed simp_all

lemma update_dup_returns_ingredients:
  assumes "update u inst vd s = (Inr updated, s')"
    "vd_ingredients vd = Some (xs @ kw # ys @ kw # zs)"
  shows "update u inst (vd\<lparr>vd_ingredients := Some (xs @ kw # ys @ zs)\<rparr>) s = (Inr updated, s')"
  using assms(1)
proof (cases rule: update_cases)
  case (ok s1 s2)
  have "get_or_create_ingredient u (xs @ kw # ys @ kw # zs) inst
          (s1\<lparr>recipe_ingredients := clear (recipe_ingredients s1) (recipe_id inst)\<rparr>) = (None, s2)"
    using ok(2) by (simp only: update_ingredients_def assms(2) option.case)
  then have "get_or_create_ingredient u (xs @ kw # ys @ zs) inst
          (s1\<lparr>recipe_ingredients := clear (recipe_ingredients s1) (recipe_id inst)\<rparr>) = (None, s2)"
    by (rule ingredient_loop_dup_returns)
  then have i: "update_ingredients u inst (vd\<lparr>vd_ingredients := Some (xs @ kw # ys @ zs)\<rparr>) s1 =
      (None, s2)"
    by (simp add: update_ingredients_def)
  have t: "update_tags u inst (vd\<lparr>vd_ingredients := Some (xs @ kw # ys @ zs)\<rparr>) s = (None, s1)"
    using ok(1) by (simp add: update_tags_def)
  show ?thesis unfolding update_phases by (simp add: t i ok(3,4))
qed simp_all

section \<open>The nested lists after an update that returns\<close>

lemma update_ok_tags:
  assumes "update u inst vd s = (Inr i, s')" "vd_tags vd = Some tags"
  shows "(recipe_id inst, oid) \<in> set (recipe_tags s') \<longleftrightarrow>
         (\<exists>r \<in> set (rows (Tag_objects s')). row_id r = oid \<and> (\<exists>kw \<in> set tags. matches u kw r))"
    and "kw \<in> set tags \<Longrightarrow>
         \<exists>r \<in> set (rows (Tag_objects s')). matches u kw r \<and>
           (recipe_id inst, row_id r) \<in> set (recipe_tags s')"
proof -
  from update_tags_run[OF assms(1)] assms(2) have l:
    "link_all u tags (recipe_id inst) (Tag_objects s, clear (recipe_tags s) (recipe_id inst)) =
       (None, Tag_objects s', recipe_tags s')" by auto
  show "(recipe_id inst, oid) \<in> set (recipe_tags s') \<longleftrightarrow>
         (\<exists>r \<in> set (rows (Tag_objects s')). row_id r = oid \<and> (\<exists>kw \<in> set tags. matches u kw r))"
    by (rule link_all_cleared[OF l])
  assume "kw \<in> set tags"
  then show "\<exists>r \<in> set (rows (Tag_objects s')). matches u kw r \<and>
           (recipe_id inst, row_id r) \<in> set (recipe_tags s')"
    by (rule link_all_entry_linked[OF l])
qed

lemma update_ok_ingredients:
  assumes "update u inst vd s = (Inr i, s')" "vd_ingredients vd = Some ings"
  shows "(recipe_id inst, oid) \<in> set (recipe_ingredients s') \<longleftrightarrow>
         (\<exists>r \<in> set (rows (Ingredient_objects s')). row_id r = oid \<and>
            (\<exists>kw \<in> set ings. matches u kw r))"
    and "kw \<in> set ings \<Longrightarrow>
         \<exists>r \<in> set (rows (Ingredient_objects s')). matches u kw r \<and>
           (recipe_id inst, row_id r) \<in> set (recipe_ingredients s')"
proof -
  from update_ingredients_run[OF assms(1)] assms(2) have l:
    "link_all u ings (recipe_id inst)
       (Ingredient_objects s, clear (recipe_ingredients s) (recipe_id inst)) =
       (None, Ingredient_objects s', recipe_ingredients s')" by auto
  show "(recipe_id inst, oid) \<in> set (recipe_ingredients s') \<longleftrightarrow>
         (\<exists>r \<in> set (rows (Ingredient_objects s')). row_id r = oid \<and>
            (\<exists>kw \<in> set ings. matches u kw r))"
    by (rule link_all_cleared[OF l])
  assume "kw \<in> set ings"
  then show "\<exists>r \<in> set (rows (Ingredient_objects s')). matches u kw r \<and>
           (recipe_id inst, row_id r) \<in> set (recipe_ingredients s')"
    by (rule link_all_entry_linked[OF l])
qed

section \<open>Claims\<close>

text \<open>
  Claim C1, as amended. For every recipe update: when the \<^verbatim>\<open>tags\<close> key is absent from the
  validated payload, the rows of the recipe-tag relation are what they were before, whatever
  the outcome of the update; when the key is present with any list, empty or not, and the
  update returns, the recipe is associated with exactly the tags resolved from the list, that
  is the tags of the requesting user that match an entry of the list, so every earlier
  association to another tag is gone. The same holds for \<^verbatim>\<open>ingredients\<close>. The update
  returns whenever no two rows of the tag table and no two rows of the ingredient table share
  (user, name) and every nested entry carries a name.
\<close>

theorem update_nested_fields:
  assumes "update auth_user instance validated s = (res, s')"
  shows "(vd_tags validated = None \<longrightarrow> recipe_tags s' = recipe_tags s) \<and>
         (vd_ingredients validated = None \<longrightarrow> recipe_ingredients s' = recipe_ingredients s) \<and>
         (\<forall>tags i oid. vd_tags validated = Some tags \<and> res = Inr i \<longrightarrow>
            ((recipe_id instance, oid) \<in> set (recipe_tags s') \<longleftrightarrow>
             (\<exists>r \<in> set (rows (Tag_objects s')). row_id r = oid \<and>
                (\<exists>kw \<in> set tags. matches auth_user kw r)))) \<and>
         (\<forall>ingredients i oid. vd_ingredients validated = Some ingredients \<and> res = Inr i \<longrightarrow>
            ((recipe_id instance, oid) \<in> set (recipe_ingredients s') \<longleftrightarrow>
             (\<exists>r \<in> set (rows (Ingredient_objects s')). row_id r = oid \<and>
                (\<exists>kw \<in> set ingredients. matches auth_user kw r)))) \<and>
         (uniq (Tag_objects s) \<and> uniq (Ingredient_objects s) \<and>
          named (nested (vd_tags validated)) \<and> named (nested (vd_ingredients validated)) \<longrightarrow>
            (\<exists>i. res = Inr i))"
proof -
  have a: "vd_tags validated = None \<longrightarrow> recipe_tags s' = recipe_tags s"
    using assms
  proof (cases rule: update_cases)
    case (tags_raise e)
    then show ?thesis by (auto simp: update_tags_absent)
  next
    case (ingredients_raise e s1)
    then show ?thesis
      using update_ingredients_frame(2)[OF ingredients_raise(2)]
      by (auto simp: update_tags_absent)
  next
    case (ok s1 s2)
    then show ?thesis
      using update_ingredients_frame(2)[OF ok(2)]
      by (auto simp: update_tags_absent save_frame)
  qed
  have b: "vd_ingredients validated = None \<longrightarrow> recipe_ingredients s' = recipe_ingredients s"
    using assms
  proof (cases rule: update_cases)
    case (tags_raise e)
    then show ?thesis using update_tags_frame(2)[OF tags_raise(1)] by simp
  next
    case (ingredients_raise e s1)
    then show ?thesis
      using update_tags_frame(2)[OF ingredients_raise(1)]
      by (auto simp: update_ingredients_absent)
  next
    case (ok s1 s2)
    then show ?thesis
      using update_tags_frame(2)[OF ok(1)]
      by (auto simp: update_ingredients_absent save_frame)
  qed
  have c: "\<forall>tags i oid. vd_tags validated = Some tags \<and> res = Inr i \<longrightarrow>
            ((recipe_id instance, oid) \<in> set (recipe_tags s') \<longleftrightarrow>
             (\<exists>r \<in> set (rows (Tag_objects s')). row_id r = oid \<and>
                (\<exists>kw \<in> set tags. matches auth_user kw r)))"
  proof (intro allI impI)
    fix tags i oid
    assume h: "vd_tags validated = Some tags \<and> res = Inr i"
    then have u: "update auth_user instance validated s = (Inr i, s')" using assms by simp
    from h have v: "vd_tags validated = Some tags" by simp
    show "(recipe_id instance, oid) \<in> set (recipe_tags s') \<longleftrightarrow>
             (\<exists>r \<in> set (rows (Tag_objects s')). row_id r = oid \<and>
                (\<exists>kw \<in> set tags. matches auth_user kw r))"
      by (rule update_ok_tags(1)[OF u v])
  qed
  have d: "\<forall>ingredients i oid. vd_ingredients validated = Some ingredients \<and> res = Inr i \<longrightarrow>
            ((recipe_id instance, oid) \<in> set (recipe_ingredients s') \<longleftrightarrow>
             (\<exists>r \<in> set (rows (Ingredient_objects s')). row_id r = oid \<and>
                (\<exists>kw \<in> set ingredients. matches auth_user kw r)))"
  proof (intro allI impI)
    fix ingredients i oid
    assume h: "vd_ingredients validated = Some ingredients \<and> res = Inr i"
    then have u: "update auth_user instance validated s = (Inr i, s')" using assms by simp
    from h have v: "vd_ingredients validated = Some ingredients" by simp
    show "(recipe_id instance, oid) \<in> set (recipe_ingredients s') \<longleftrightarrow>
             (\<exists>r \<in> set (rows (Ingredient_objects s')). row_id r = oid \<and>
                (\<exists>kw \<in> set ingredients. matches auth_user kw r))"
      by (rule update_ok_ingredients(1)[OF u v])
  qed
  have e: "uniq (Tag_objects s) \<and> uniq (Ingredient_objects s) \<and>
          named (nested (vd_tags validated)) \<and> named (nested (vd_ingredients validated)) \<longrightarrow>
            (\<exists>i. res = Inr i)"
  proof
    assume h: "uniq (Tag_objects s) \<and> uniq (Ingredient_objects s) \<and>
          named (nested (vd_tags validated)) \<and> named (nested (vd_ingredients validated))"
    then obtain r1 s1 where "update auth_user instance validated s = (Inr r1, s1)"
      using update_succeeds[of s validated auth_user "instance"] by blast
    with assms have "res = Inr r1" by simp
    then show "\<exists>i. res = Inr i" by (rule exI)
  qed
  show ?thesis by (intro conjI) (fact a b c d e)+
qed

theorem update_nested_fields_witness:
  "vd_tags patch7 = Some [Some ''Dessert'', Some ''Lunch''] \<and>
   vd_ingredients patch7 = Some [Some ''Pepper'', Some ''Flour''] \<and>
   uniq (Tag_objects db0) \<and> uniq (Ingredient_objects db0) \<and>
   named (nested (vd_tags patch7)) \<and> named (nested (vd_ingredients patch7)) \<and>
   (\<exists>i. fst (update 7 recipe1 patch7 db0) = Inr i) \<and>
   (1, 1) \<in> set (recipe_tags db0) \<and>
   (recipe_id recipe1, 1) \<notin> set (recipe_tags (snd (update 7 recipe1 patch7 db0))) \<and>
   (recipe_id recipe1, 2) \<in> set (recipe_tags (snd (update 7 recipe1 patch7 db0))) \<and>
   (recipe_id recipe1, 4) \<in> set (recipe_tags (snd (update 7 recipe1 patch7 db0))) \<and>
   (1, 1) \<in> set (recipe_ingredients db0) \<and>
   (recipe_id recipe1, 1) \<notin> set (recipe_ingredients (snd (update 7 recipe1 patch7 db0))) \<and>
   (recipe_id recipe1, 2) \<in> set (recipe_ingredients (snd (update 7 recipe1 patch7 db0))) \<and>
   (recipe_id recipe1, 3) \<in> set (recipe_ingredients (snd (update 7 recipe1 patch7 db0))) \<and>
   vd_tags patch2 = None \<and> vd_ingredients patch2 = None \<and>
   recipe_tags (snd (update 7 recipe1 patch2 db0)) = recipe_tags db0 \<and>
   recipe_ingredients (snd (update 7 recipe1 patch2 db0)) = recipe_ingredients db0"
proof -
  have h: "update 7 recipe1 patch7 db0 =
      (fst (update 7 recipe1 patch7 db0), snd (update 7 recipe1 patch7 db0))" by simp
  have h2: "update 7 recipe1 patch2 db0 =
      (fst (update 7 recipe1 patch2 db0), snd (update 7 recipe1 patch2 db0))" by simp
  have v: "vd_tags patch7 = Some [Some ''Dessert'', Some ''Lunch'']"
    "vd_ingredients patch7 = Some [Some ''Pepper'', Some ''Flour'']"
    by (simp_all add: patch7_def)
  have v2: "vd_tags patch2 = None" "vd_ingredients patch2 = None"
    by (simp_all add: patch2_def)
  have q: "uniq (Tag_objects db0)" "uniq (Ingredient_objects db0)"
    by (simp_all add: uniq_def db0_def)
  have n: "named (nested (vd_tags patch7))" "named (nested (vd_ingredients patch7))"
    by (simp_all add: named_def nested_def patch7_def)
  have t: "rows (Tag_objects (snd (update 7 recipe1 patch7 db0))) =
      [\<lparr>row_id = 1, row_user = 7, row_name = ''Vegan''\<rparr>,
       \<lparr>row_id = 2, row_user = 7, row_name = ''Dessert''\<rparr>,
       \<lparr>row_id = 3, row_user = 8, row_name = ''Vegan''\<rparr>,
       \<lparr>row_id = 4, row_user = 7, row_name = ''Lunch''\<rparr>]"
    by code_simp
  have g: "rows (Ingredient_objects (snd (update 7 recipe1 patch7 db0))) =
      [\<lparr>row_id = 1, row_user = 7, row_name = ''Salt''\<rparr>,
       \<lparr>row_id = 2, row_user = 7, row_name = ''Pepper''\<rparr>,
       \<lparr>row_id = 3, row_user = 7, row_name = ''Flour''\<rparr>]"
    by code_simp
  have p: "(1, 1) \<in> set (recipe_tags db0)" "(1, 1) \<in> set (recipe_ingredients db0)"
    by (simp_all add: db0_def)
  note u = update_nested_fields[OF h]
  note u2 = update_nested_fields[OF h2]
  from u q n have r: "\<exists>i. fst (update 7 recipe1 patch7 db0) = Inr i" by blast
  then obtain i where i: "fst (update 7 recipe1 patch7 db0) = Inr i" by blast
  from u v i have m: "\<And>oid. (recipe_id recipe1, oid) \<in> set (recipe_tags (snd (update 7 recipe1 patch7 db0))) \<longleftrightarrow>
      (\<exists>r \<in> set (rows (Tag_objects (snd (update 7 recipe1 patch7 db0)))). row_id r = oid \<and>
         (\<exists>kw \<in> set [Some ''Dessert'', Some ''Lunch'']. matches 7 kw r))"
    by blast
  from u v i have k: "\<And>oid. (recipe_id recipe1, oid) \<in> set (recipe_ingredients (snd (update 7 recipe1 patch7 db0))) \<longleftrightarrow>
      (\<exists>r \<in> set (rows (Ingredient_objects (snd (update 7 recipe1 patch7 db0)))). row_id r = oid \<and>
         (\<exists>kw \<in> set [Some ''Pepper'', Some ''Flour'']. matches 7 kw r))"
    by blast
  have m1: "(recipe_id recipe1, 1) \<notin> set (recipe_tags (snd (update 7 recipe1 patch7 db0)))"
    unfolding m t by (simp add: matches_def)
  have m2: "(recipe_id recipe1, 2) \<in> set (recipe_tags (snd (update 7 recipe1 patch7 db0)))"
    unfolding m t by (simp add: matches_def)
  have m4: "(recipe_id recipe1, 4) \<in> set (recipe_tags (snd (update 7 recipe1 patch7 db0)))"
    unfolding m t by (simp add: matches_def)
  have k1: "(recipe_id recipe1, 1) \<notin> set (recipe_ingredients (snd (update 7 recipe1 patch7 db0)))"
    unfolding k g by (simp add: matches_def)
  have k2: "(recipe_id recipe1, 2) \<in> set (recipe_ingredients (snd (update 7 recipe1 patch7 db0)))"
    unfolding k g by (simp add: matches_def)
  have k3: "(recipe_id recipe1, 3) \<in> set (recipe_ingredients (snd (update 7 recipe1 patch7 db0)))"
    unfolding k g by (simp add: matches_def)
  from u2 v2 have a1: "recipe_tags (snd (update 7 recipe1 patch2 db0)) = recipe_tags db0"
    by blast
  from u2 v2 have a2: "recipe_ingredients (snd (update 7 recipe1 patch2 db0)) = recipe_ingredients db0"
    by blast
  from v q n r p m1 m2 m4 k1 k2 k3 v2 a1 a2 show ?thesis by (intro conjI)
qed

text \<open>
  The claim as first stated, for every update, fails when the update raises. \<open>update\<close>
  clears the tags of the recipe before it resolves the entries, and an entry that matches
  more than one row makes \<^verbatim>\<open>get_or_create\<close> raise \<^verbatim>\<open>MultipleObjectsReturned\<close>. Here
  the second tag entry has no name, which the validation of a partial update lets through, and
  matches every tag of user 7. Both keys are present in the payload; afterwards the recipe is
  tagged Lunch only, though the tags Vegan and Dessert match the second entry, and it still
  holds the ingredient Salt, its earlier association, and not Pepper, which the list asks
  for and for which no row was made.
\<close>

theorem update_nested_counterexample:
  "vd_tags patch8 = Some [Some ''Lunch'', None] \<and>
   vd_ingredients patch8 = Some [Some ''Pepper''] \<and>
   recipe_id recipe1 = 1 \<and>
   recipe_tags db0 = [(1, 1)] \<and> recipe_ingredients db0 = [(1, 1)] \<and>
   fst (update 7 recipe1 patch8 db0) = Inl MultipleObjectsReturned \<and>
   recipe_tags (snd (update 7 recipe1 patch8 db0)) = [(1, 4)] \<and>
   rows (Tag_objects (snd (update 7 recipe1 patch8 db0))) =
     [\<lparr>row_id = 1, row_user = 7, row_name = ''Vegan''\<rparr>,
      \<lparr>row_id = 2, row_user = 7, row_name = ''Dessert''\<rparr>,
      \<lparr>row_id = 3, row_user = 8, row_name = ''Vegan''\<rparr>,
      \<lparr>row_id = 4, row_user = 7, row_name = ''Lunch''\<rparr>] \<and>
   matches 7 None \<lparr>row_id = 1, row_user = 7, row_name = ''Vegan''\<rparr> \<and>
   recipe_ingredients (snd (update 7 recipe1 patch8 db0)) = [(1, 1)] \<and>
   rows (Ingredient_objects (snd (update 7 recipe1 patch8 db0))) =
     [\<lparr>row_id = 1, row_user = 7, row_name = ''Salt''\<rparr>]"
  by code_simp

text \<open>
  Claim C2, as amended. For every recipe create or update with a nested list of tags or
  ingredients that returns: each entry is resolved to a row that belongs to the requesting user
  and matches the entry's fields, and that row is in the recipe's many-to-many relation; the
  row is one that existed before whenever a matching row existed before, and a row that did
  not exist before belongs to the requesting user and was made for an entry that had no
  matching row. The predicate \<open>resolved\<close> says this of the table before, the table after
  and the relation after. When no two rows of a table share (user, name) and every entry
  carries a name, create and update do return.
\<close>

theorem nested_entries_resolved:
  "(create auth_user validated s = (Inr recipe, s') \<longrightarrow>
      resolved auth_user (nested (vd_tags validated)) (recipe_id recipe)
        (Tag_objects s) (Tag_objects s') (recipe_tags s') \<and>
      resolved auth_user (nested (vd_ingredients validated)) (recipe_id recipe)
        (Ingredient_objects s) (Ingredient_objects s') (recipe_ingredients s')) \<and>
   (update auth_user instance validated s = (Inr updated, s2) \<longrightarrow>
      (\<forall>tags. vd_tags validated = Some tags \<longrightarrow>
         resolved auth_user tags (recipe_id instance)
           (Tag_objects s) (Tag_objects s2) (recipe_tags s2)) \<and>
      (\<forall>ingredients. vd_ingredients validated = Some ingredients \<longrightarrow>
         resolved auth_user ingredients (recipe_id instance)
           (Ingredient_objects s) (Ingredient_objects s2) (recipe_ingredients s2))) \<and>
   (uniq (Tag_objects s) \<and> uniq (Ingredient_objects s) \<and>
    named (nested (vd_tags validated)) \<and> named (nested (vd_ingredients validated)) \<longrightarrow>
      (\<exists>r1 s1. create auth_user validated s = (Inr r1, s1)) \<and>
      (\<exists>r3 s3. update auth_user instance validated s = (Inr r3, s3)))"
proof (intro conjI impI allI)
  assume c: "create auth_user validated s = (Inr recipe, s')"
  show "resolved auth_user (nested (vd_tags validated)) (recipe_id recipe)
        (Tag_objects s) (Tag_objects s') (recipe_tags s')"
    by (rule create_resolved(1)[OF c])
  show "resolved auth_user (nested (vd_ingredients validated)) (recipe_id recipe)
        (Ingredient_objects s) (Ingredient_objects s') (recipe_ingredients s')"
    by (rule create_resolved(2)[OF c])
next
  fix tags
  assume "update auth_user instance validated s = (Inr updated, s2)" "vd_tags validated = Some tags"
  then show "resolved auth_user tags (recipe_id instance)
           (Tag_objects s) (Tag_objects s2) (recipe_tags s2)"
    by (rule update_resolved(1))
next
  fix ingredients
  assume "update auth_user instance validated s = (Inr updated, s2)"
    "vd_ingredients validated = Some ingredients"
  then show "resolved auth_user ingredients (recipe_id instance)
           (Ingredient_objects s) (Ingredient_objects s2) (recipe_ingredients s2)"
    by (rule update_resolved(2))
next
  assume a: "uniq (Tag_objects s) \<and> uniq (Ingredient_objects s) \<and>
    named (nested (vd_tags validated)) \<and> named (nested (vd_ingredients validated))"
  then show "\<exists>r1 s1. create auth_user validated s = (Inr r1, s1)"
    using create_succeeds by blast
  from a show "\<exists>r3 s3. update auth_user instance validated s = (Inr r3, s3)"
    using update_succeeds by blast
qed

theorem nested_entries_resolved_witness:
  "uniq (Tag_objects db0) \<and> uniq (Ingredient_objects db0) \<and>
   named (nested (vd_tags post7)) \<and> named (nested (vd_ingredients post7)) \<and>
   named (nested (vd_tags patch7)) \<and> named (nested (vd_ingredients patch7)) \<and>
   vd_tags post7 = Some [Some ''Dessert'', Some ''Lunch''] \<and>
   vd_ingredients post7 = Some [Some ''Salt'', Some ''Flour''] \<and>
   (\<exists>r1 s1. create 7 post7 db0 = (Inr r1, s1)) \<and>
   recipe_id (projr (fst (create 7 post7 db0))) = 2 \<and>
   resolved 7 (nested (vd_tags post7)) 2 (Tag_objects db0)
     (Tag_objects (snd (create 7 post7 db0))) (recipe_tags (snd (create 7 post7 db0))) \<and>
   resolved 7 (nested (vd_ingredients post7)) 2 (Ingredient_objects db0)
     (Ingredient_objects (snd (create 7 post7 db0)))
     (recipe_ingredients (snd (create 7 post7 db0))) \<and>
   recipe_tags (snd (create 7 post7 db0)) = [(1, 1), (2, 2), (2, 4)] \<and>
   recipe_ingredients (snd (create 7 post7 db0)) = [(1, 1), (2, 1), (2, 2)] \<and>
   vd_tags patch7 = Some [Some ''Dessert'', Some ''Lunch''] \<and>
   vd_ingredients patch7 = Some [Some ''Pepper'', Some ''Flour''] \<and>
   (\<exists>r3 s3. update 7 recipe1 patch7 db0 = (Inr r3, s3)) \<and>
   resolved 7 [Some ''Dessert'', Some ''Lunch''] (recipe_id recipe1) (Tag_objects db0)
     (Tag_objects (snd (update 7 recipe1 patch7 db0)))
     (recipe_tags (snd (update 7 recipe1 patch7 db0))) \<and>
   resolved 7 [Some ''Pepper'', Some ''Flour''] (recipe_id recipe1) (Ingredient_objects db0)
     (Ingredient_objects (snd (update 7 recipe1 patch7 db0)))
     (recipe_ingredients (snd (update 7 recipe1 patch7 db0))) \<and>
   recipe_tags (snd (update 7 recipe1 patch7 db0)) = [(1, 2), (1, 4)] \<and>
   recipe_ingredients (snd (update 7 recipe1 patch7 db0)) = [(1, 2), (1, 3)]"
proof -
  have u: "uniq (Tag_objects db0)" "uniq (Ingredient_objects db0)"
    by (simp_all add: uniq_def db0_def)
  have n: "named (nested (vd_tags post7))" "named (nested (vd_ingredients post7))"
    by (simp_all add: named_def nested_def post7_def)
  have n': "named (nested (vd_tags patch7))" "named (nested (vd_ingredients patch7))"
    by (simp_all add: named_def nested_def patch7_def)
  have v: "vd_tags post7 = Some [Some ''Dessert'', Some ''Lunch'']"
    "vd_ingredients post7 = Some [Some ''Salt'', Some ''Flour'']"
    by (simp_all add: post7_def)
  have v': "vd_tags patch7 = Some [Some ''Dessert'', Some ''Lunch'']"
    "vd_ingredients patch7 = Some [Some ''Pepper'', Some ''Flour'']"
    by (simp_all add: patch7_def)
  have m: "recipe_tags (snd (create 7 post7 db0)) = [(1, 1), (2, 2), (2, 4)]"
    "recipe_ingredients (snd (create 7 post7 db0)) = [(1, 1), (2, 1), (2, 2)]"
    "recipe_tags (snd (update 7 recipe1 patch7 db0)) = [(1, 2), (1, 4)]"
    "recipe_ingredients (snd (update 7 recipe1 patch7 db0)) = [(1, 2), (1, 3)]"
    by code_simp+
  have i: "recipe_id (projr (fst (create 7 post7 db0))) = 2" by code_simp
  note t = nested_entries_resolved[of 7 post7 db0
      "projr (fst (create 7 post7 db0))" "snd (create 7 post7 db0)" recipe1]
  note t' = nested_entries_resolved[of 7 patch7 db0 _ _ recipe1
      "projr (fst (update 7 recipe1 patch7 db0))" "snd (update 7 recipe1 patch7 db0)"]
  have c: "\<exists>r1 s1. create 7 post7 db0 = (Inr r1, s1)"
    using conjunct2[OF conjunct2[OF t]] u n by blast
  have p: "\<exists>r3 s3. update 7 recipe1 patch7 db0 = (Inr r3, s3)"
    using conjunct2[OF conjunct2[OF t']] u n' by blast
  from c have c': "create 7 post7 db0 =
      (Inr (projr (fst (create 7 post7 db0))), snd (create 7 post7 db0))" by auto
  from p have p': "update 7 recipe1 patch7 db0 =
      (Inr (projr (fst (update 7 recipe1 patch7 db0))), snd (update 7 recipe1 patch7 db0))"
    by auto
  note rc = mp[OF conjunct1[OF t] c']
  note rp = mp[OF conjunct1[OF conjunct2[OF t']] p']
  have rc1: "resolved 7 (nested (vd_tags post7)) 2 (Tag_objects db0)
     (Tag_objects (snd (create 7 post7 db0))) (recipe_tags (snd (create 7 post7 db0)))"
    using conjunct1[OF rc] i by simp
  have rc2: "resolved 7 (nested (vd_ingredients post7)) 2 (Ingredient_objects db0)
     (Ingredient_objects (snd (create 7 post7 db0)))
     (recipe_ingredients (snd (create 7 post7 db0)))"
    using conjunct2[OF rc] i by simp
  have rp1: "resolved 7 [Some ''Dessert'', Some ''Lunch''] (recipe_id recipe1) (Tag_objects db0)
     (Tag_objects (snd (update 7 recipe1 patch7 db0)))
     (recipe_tags (snd (update 7 recipe1 patch7 db0)))"
    using conjunct1[OF rp] v'(1) by blast
  have rp2: "resolved 7 [Some ''Pepper'', Some ''Flour''] (recipe_id recipe1)
     (Ingredient_objects db0)
     (Ingredient_objects (snd (update 7 recipe1 patch7 db0)))
     (recipe_ingredients (snd (update 7 recipe1 patch7 db0)))"
    using conjunct2[OF rp] v'(2) by blast
  from u n n' v c i rc1 rc2 m(1,2) v' p rp1 rp2 m(3,4) show ?thesis by (intro conjI)
qed

text \<open>
  The claim as first stated, for every create or update, fails when an entry matches more
  than one row of the requesting user: \<^verbatim>\<open>get_or_create\<close> raises
  \<^verbatim>\<open>MultipleObjectsReturned\<close>, the entry is not associated and the entries after it are
  never looked at. Two tags of one user with one name arise when the user renames a tag, since
  the update of the tag serializer does not look for another tag of that name. In the database
  \<open>db3\<close> user 7 has two tags Vegan. Creating a recipe with the tags Lunch, Vegan and Dinner
  and the ingredient Salt raises: the recipe is stored and tagged Lunch only, neither tag
  Vegan is associated with it, no tag Dinner exists, and the recipe does not hold the
  ingredient Salt, which exists.
\<close>

theorem nested_entries_counterexample:
  "rows (Tag_objects db3) =
     [\<lparr>row_id = 1, row_user = 7, row_name = ''Vegan''\<rparr>,
      \<lparr>row_id = 2, row_user = 7, row_name = ''Vegan''\<rparr>,
      \<lparr>row_id = 3, row_user = 8, row_name = ''Vegan''\<rparr>] \<and>
   rows (Ingredient_objects db3) = [\<lparr>row_id = 1, row_user = 7, row_name = ''Salt''\<rparr>] \<and>
   vd_tags post9 = Some [Some ''Lunch'', Some ''Vegan'', Some ''Dinner''] \<and>
   vd_ingredients post9 = Some [Some ''Salt''] \<and>
   fst (create 7 post9 db3) = Inl MultipleObjectsReturned \<and>
   map recipe_id (Recipe_objects (snd (create 7 post9 db3))) = [1, 2] \<and>
   recipe_tags (snd (create 7 post9 db3)) = [(1, 1), (2, 4)] \<and>
   rows (Tag_objects (snd (create 7 post9 db3))) =
     [\<lparr>row_id = 1, row_user = 7, row_name = ''Vegan''\<rparr>,
      \<lparr>row_id = 2, row_user = 7, row_name = ''Vegan''\<rparr>,
      \<lparr>row_id = 3, row_user = 8, row_name = ''Vegan''\<rparr>,
      \<lparr>row_id = 4, row_user = 7, row_name = ''Lunch''\<rparr>] \<and>
   recipe_ingredients (snd (create 7 post9 db3)) = [(1, 1)]"
  by code_simp

text \<open>
  Claim C3. Every recipe create and every recipe update, whatever its outcome, keeps the
  invariant that no two rows of the tag table, and no two rows of the ingredient table, share
  the same (user, name) pair, and for a pair that a row already has it leaves the rows with
  that pair as they are (\<open>keeps_unique\<close>). Resolving an entry whose (user, name) exists,
  in a table with the invariant, returns the existing row, creates nothing and leaves the
  table as it is.
\<close>

theorem unique_user_name_preserved:
  "(create auth_user validated s = (res, s') \<longrightarrow>
      keeps_unique (Tag_objects s) (Tag_objects s') \<and>
      keeps_unique (Ingredient_objects s) (Ingredient_objects s')) \<and>
   (update auth_user instance validated s = (res2, s2) \<longrightarrow>
      keeps_unique (Tag_objects s) (Tag_objects s2) \<and>
      keeps_unique (Ingredient_objects s) (Ingredient_objects s2)) \<and>
   (uniq t \<and> r0 \<in> set (rows t) \<and> matches auth_user (Some n) r0 \<longrightarrow>
      get_or_create t auth_user (Some n) = Inr (r0, False, t))"
proof (intro conjI impI)
  assume c: "create auth_user validated s = (res, s')"
  show "keeps_unique (Tag_objects s) (Tag_objects s')" by (rule create_keeps_unique(1)[OF c])
  show "keeps_unique (Ingredient_objects s) (Ingredient_objects s')"
    by (rule create_keeps_unique(2)[OF c])
next
  assume c: "update auth_user instance validated s = (res2, s2)"
  show "keeps_unique (Tag_objects s) (Tag_objects s2)" by (rule update_keeps_unique(1)[OF c])
  show "keeps_unique (Ingredient_objects s) (Ingredient_objects s2)"
    by (rule update_keeps_unique(2)[OF c])
next
  assume "uniq t \<and> r0 \<in> set (rows t) \<and> matches auth_user (Some n) r0"
  then show "get_or_create t auth_user (Some n) = Inr (r0, False, t)"
    using get_or_create_existing by simp
qed

theorem unique_user_name_preserved_witness:
  "uniq (Tag_objects db0) \<and>
   keeps_unique (Tag_objects db0) (Tag_objects (snd (create 7 patch1 db0))) \<and>
   keeps_unique (Ingredient_objects db0) (Ingredient_objects (snd (create 7 patch1 db0))) \<and>
   keeps_unique (Tag_objects db0) (Tag_objects (snd (update 7 recipe1 patch1 db0))) \<and>
   keeps_unique (Ingredient_objects db0) (Ingredient_objects (snd (update 7 recipe1 patch1 db0))) \<and>
   \<lparr>row_id = 1, row_user = 7, row_name = ''Vegan''\<rparr> \<in> set (rows (Tag_objects db0)) \<and>
   matches 7 (Some ''Vegan'') \<lparr>row_id = 1, row_user = 7, row_name = ''Vegan''\<rparr> \<and>
   get_or_create (Tag_objects db0) 7 (Some ''Vegan'') =
     Inr (\<lparr>row_id = 1, row_user = 7, row_name = ''Vegan''\<rparr>, False, Tag_objects db0)"
proof -
  have u: "uniq (Tag_objects db0)" by (simp add: uniq_def db0_def)
  have r: "\<lparr>row_id = 1, row_user = 7, row_name = ''Vegan''\<rparr> \<in> set (rows (Tag_objects db0))"
    by (simp add: db0_def)
  have m: "matches 7 (Some ''Vegan'') \<lparr>row_id = 1, row_user = 7, row_name = ''Vegan''\<rparr>"
    by (simp add: matches_def)
  have c: "create 7 patch1 db0 = (fst (create 7 patch1 db0), snd (create 7 patch1 db0))" by simp
  have p: "update 7 recipe1 patch1 db0 =
      (fst (update 7 recipe1 patch1 db0), snd (update 7 recipe1 patch1 db0))" by simp
  note t = unique_user_name_preserved[of 7 patch1 db0
      "fst (create 7 patch1 db0)" "snd (create 7 patch1 db0)"
      recipe1 "fst (update 7 recipe1 patch1 db0)"
      "snd (update 7 recipe1 patch1 db0)" "Tag_objects db0"
      "\<lparr>row_id = 1, row_user = 7, row_name = ''Vegan''\<rparr>" "''Vegan''"]
  from t u r m c p show ?thesis by simp
qed

text \<open>
  Claim C4. For every authenticated list request with \<^verbatim>\<open>assigned_only=1\<close> on the tag
  endpoint, the response has status 200 and its rows are such that a tag is among them if and
  only if it is a tag of the requester that is associated with at least one recipe, and each
  such tag occurs exactly once, also when it is associated with several recipes. The same
  holds for the ingredient endpoint.
\<close>

theorem assigned_only_filter:
  "(handle (Some u) (ListTags True) s = (status, b, s') \<longrightarrow>
      status = 200 \<and>
      (\<exists>rs. b = Rows rs \<and>
         (\<forall>r. r \<in> set rs \<longleftrightarrow>
              r \<in> set (rows (Tag_objects s)) \<and> row_user r = u \<and>
              (\<exists>rid. (rid, row_id r) \<in> set (recipe_tags s))) \<and>
         (\<forall>r \<in> set rs. count_list rs r = 1))) \<and>
   (handle (Some u) (ListIngredients True) s = (status, b, s') \<longrightarrow>
      status = 200 \<and>
      (\<exists>rs. b = Rows rs \<and>
         (\<forall>r. r \<in> set rs \<longleftrightarrow>
              r \<in> set (rows (Ingredient_objects s)) \<and> row_user r = u \<and>
              (\<exists>rid. (rid, row_id r) \<in> set (recipe_ingredients s))) \<and>
         (\<forall>r \<in> set rs. count_list rs r = 1)))"
proof (intro conjI impI)
  let ?rs = "list_rows (Tag_objects s) (recipe_tags s) u True"
  assume "handle (Some u) (ListTags True) s = (status, b, s')"
  then have b: "status = 200" "b = Rows ?rs" by (auto simp: handle_list)
  have m: "\<forall>r. r \<in> set ?rs \<longleftrightarrow>
              r \<in> set (rows (Tag_objects s)) \<and> row_user r = u \<and>
              (\<exists>rid. (rid, row_id r) \<in> set (recipe_tags s))"
    by (intro allI) (rule list_rows_assigned)
  have o: "\<forall>r \<in> set ?rs. count_list ?rs r = 1" by (intro ballI) (rule list_rows_once)
  show "status = 200" by (rule b(1))
  show "\<exists>rs. b = Rows rs \<and>
         (\<forall>r. r \<in> set rs \<longleftrightarrow>
              r \<in> set (rows (Tag_objects s)) \<and> row_user r = u \<and>
              (\<exists>rid. (rid, row_id r) \<in> set (recipe_tags s))) \<and>
         (\<forall>r \<in> set rs. count_list rs r = 1)"
    by (rule exI[of _ ?rs], intro conjI, fact b(2), fact m, fact o)
next
  let ?rs = "list_rows (Ingredient_objects s) (recipe_ingredients s) u True"
  assume "handle (Some u) (ListIngredients True) s = (status, b, s')"
  then have b: "status = 200" "b = Rows ?rs" by (auto simp: handle_list)
  have m: "\<forall>r. r \<in> set ?rs \<longleftrightarrow>
              r \<in> set (rows (Ingredient_objects s)) \<and> row_user r = u \<and>
              (\<exists>rid. (rid, row_id r) \<in> set (recipe_ingredients s))"
    by (intro allI) (rule list_rows_assigned)
  have o: "\<forall>r \<in> set ?rs. count_list ?rs r = 1" by (intro ballI) (rule list_rows_once)
  show "status = 200" by (rule b(1))
  show "\<exists>rs. b = Rows rs \<and>
         (\<forall>r. r \<in> set rs \<longleftrightarrow>
              r \<in> set (rows (Ingredient_objects s)) \<and> row_user r = u \<and>
              (\<exists>rid. (rid, row_id r) \<in> set (recipe_ingredients s))) \<and>
         (\<forall>r \<in> set rs. count_list rs r = 1)"
    by (rule exI[of _ ?rs], intro conjI, fact b(2), fact m, fact o)
qed

theorem assigned_only_filter_witness:
  "handle (Some 7) (ListTags True) db2 =
     (200, Rows [\<lparr>row_id = 1, row_user = 7, row_name = ''Vegan''\<rparr>], db2) \<and>
   (1, 1) \<in> set (recipe_tags db2) \<and> (2, 1) \<in> set (recipe_tags db2) \<and>
   (\<exists>rs. Rows [\<lparr>row_id = 1, row_user = 7, row_name = ''Vegan''\<rparr>] = Rows rs \<and>
      \<lparr>row_id = 1, row_user = 7, row_name = ''Vegan''\<rparr> \<in> set rs \<and>
      \<lparr>row_id = 2, row_user = 7, row_name = ''Dessert''\<rparr> \<notin> set rs \<and>
      count_list rs \<lparr>row_id = 1, row_user = 7, row_name = ''Vegan''\<rparr> = 1) \<and>
   handle (Some 7) (ListIngredients True) db2 =
     (200, Rows [\<lparr>row_id = 1, row_user = 7, row_name = ''Salt''\<rparr>], db2) \<and>
   (\<exists>rs. Rows [\<lparr>row_id = 1, row_user = 7, row_name = ''Salt''\<rparr>] = Rows rs \<and>
      \<lparr>row_id = 1, row_user = 7, row_name = ''Salt''\<rparr> \<in> set rs \<and>
      count_list rs \<lparr>row_id = 1, row_user = 7, row_name = ''Salt''\<rparr> = 1)"
proof -
  have t: "handle (Some 7) (ListTags True) db2 =
     (200, Rows [\<lparr>row_id = 1, row_user = 7, row_name = ''Vegan''\<rparr>], db2)" by code_simp
  have i: "handle (Some 7) (ListIngredients True) db2 =
     (200, Rows [\<lparr>row_id = 1, row_user = 7, row_name = ''Salt''\<rparr>], db2)" by code_simp
  have m: "(1, 1) \<in> set (recipe_tags db2)" "(2, 1) \<in> set (recipe_tags db2)"
    by (simp_all add: db2_def)
  from assigned_only_filter[of 7 db2 200 "Rows [\<lparr>row_id = 1, row_user = 7, row_name = ''Vegan''\<rparr>]" db2] t
  obtain rs where rs: "Rows [\<lparr>row_id = 1, row_user = 7, row_name = ''Vegan''\<rparr>] = Rows rs"
    "\<forall>r. r \<in> set rs \<longleftrightarrow>
        r \<in> set (rows (Tag_objects db2)) \<and> row_user r = 7 \<and>
        (\<exists>rid. (rid, row_id r) \<in> set (recipe_tags db2))"
    "\<forall>r \<in> set rs. count_list rs r = 1" by blast
  have a: "\<lparr>row_id = 1, row_user = 7, row_name = ''Vegan''\<rparr> \<in> set rs"
    using rs(2) by (auto simp: db2_def db0_def)
  have b: "\<lparr>row_id = 2, row_user = 7, row_name = ''Dessert''\<rparr> \<notin> set rs"
    using rs(2) by (auto simp: db2_def db0_def)
  have c: "count_list rs \<lparr>row_id = 1, row_user = 7, row_name = ''Vegan''\<rparr> = 1"
    using rs(3) a by blast
  from assigned_only_filter[of 7 db2 200 "Rows [\<lparr>row_id = 1, row_user = 7, row_name = ''Salt''\<rparr>]" db2] i
  obtain rs' where rs': "Rows [\<lparr>row_id = 1, row_user = 7, row_name = ''Salt''\<rparr>] = Rows rs'"
    "\<forall>r. r \<in> set rs' \<longleftrightarrow>
        r \<in> set (rows (Ingredient_objects db2)) \<and> row_user r = 7 \<and>
        (\<exists>rid. (rid, row_id r) \<in> set (recipe_ingredients db2))"
    "\<forall>r \<in> set rs'. count_list rs' r = 1" by blast
  have a': "\<lparr>row_id = 1, row_user = 7, row_name = ''Salt''\<rparr> \<in> set rs'"
    using rs'(2) by (auto simp: db2_def db0_def)
  have c': "count_list rs' \<lparr>row_id = 1, row_user = 7, row_name = ''Salt''\<rparr> = 1"
    using rs'(3) a' by blast
  show ?thesis using t i m rs(1) a b c rs'(1) a' c' by blast
qed

text \<open>
  Claim C5. For every authenticated list request on the tag or ingredient endpoint, with or
  without the filter, every record of the response is owned by the requesting user, so a record
  of another user never appears.
\<close>

theorem list_limited_to_user:
  "(handle (Some u) (ListTags assigned_only) s = (status, b, s') \<longrightarrow>
      status = 200 \<and> (\<exists>rs. b = Rows rs \<and> (\<forall>r \<in> set rs. row_user r = u))) \<and>
   (handle (Some u) (ListIngredients assigned_only) s = (status, b, s') \<longrightarrow>
      status = 200 \<and> (\<exists>rs. b = Rows rs \<and> (\<forall>r \<in> set rs. row_user r = u)))"
proof (intro conjI impI)
  let ?rs = "list_rows (Tag_objects s) (recipe_tags s) u assigned_only"
  assume "handle (Some u) (ListTags assigned_only) s = (status, b, s')"
  then have b: "status = 200" "b = Rows ?rs" by (auto simp: handle_list)
  have o: "\<forall>r \<in> set ?rs. row_user r = u" using list_rows_owned by blast
  show "status = 200" by (rule b(1))
  show "\<exists>rs. b = Rows rs \<and> (\<forall>r \<in> set rs. row_user r = u)"
    by (rule exI[of _ ?rs], intro conjI, fact b(2), fact o)
next
  let ?rs = "list_rows (Ingredient_objects s) (recipe_ingredients s) u assigned_only"
  assume "handle (Some u) (ListIngredients assigned_only) s = (status, b, s')"
  then have b: "status = 200" "b = Rows ?rs" by (auto simp: handle_list)
  have o: "\<forall>r \<in> set ?rs. row_user r = u" using list_rows_owned by blast
  show "status = 200" by (rule b(1))
  show "\<exists>rs. b = Rows rs \<and> (\<forall>r \<in> set rs. row_user r = u)"
    by (rule exI[of _ ?rs], intro conjI, fact b(2), fact o)
qed

theorem list_limited_to_user_witness:
  "handle (Some 8) (ListTags False) db0 =
     (200, Rows [\<lparr>row_id = 3, row_user = 8, row_name = ''Vegan''\<rparr>], db0) \<and>
   (\<exists>rs. Rows [\<lparr>row_id = 3, row_user = 8, row_name = ''Vegan''\<rparr>] = Rows rs \<and>
      \<not> (\<exists>r \<in> set rs. row_user r \<noteq> 8)) \<and>
   handle (Some 8) (ListIngredients False) db0 = (200, Rows [], db0) \<and>
   (\<exists>rs. Rows [] = Rows rs \<and> \<not> (\<exists>r \<in> set rs. row_user r \<noteq> 8))"
proof -
  have t: "handle (Some 8) (ListTags False) db0 =
     (200, Rows [\<lparr>row_id = 3, row_user = 8, row_name = ''Vegan''\<rparr>], db0)" by code_simp
  have i: "handle (Some 8) (ListIngredients False) db0 = (200, Rows [], db0)" by code_simp
  from list_limited_to_user[of 8 False db0 200
      "Rows [\<lparr>row_id = 3, row_user = 8, row_name = ''Vegan''\<rparr>]" db0] t
  have a: "\<exists>rs. Rows [\<lparr>row_id = 3, row_user = 8, row_name = ''Vegan''\<rparr>] = Rows rs \<and>
      \<not> (\<exists>r \<in> set rs. row_user r \<noteq> 8)" by blast
  from list_limited_to_user[of 8 False db0 200 "Rows []" db0] i
  have b: "\<exists>rs. Rows [] = Rows rs \<and> \<not> (\<exists>r \<in> set rs. row_user r \<noteq> 8)" by blast
  show ?thesis using t i a b by blast
qed

text \<open>
  Claim C6. Every request to an endpoint of tags, ingredients or recipes that is made without
  authentication is answered with status 401, and the database is left as it is.
\<close>

theorem unauthenticated_401:
  "handle None req s = (401, Empty, s)"
  by (rule handle_unauthenticated)

text \<open>
  Claim C7, as amended. For every authenticated PATCH of an existing tag or ingredient owned by
  the requester, with any valid payload, the status is 200 and afterwards the record with that
  key carries the name of the payload, if the payload gives one. For every authenticated PATCH
  of an existing recipe owned by the requester for which \<open>update\<close> of the recipe serializer
  returns, the status is 200 and afterwards the recipe with that key carries every value of the
  payload (the keys of the payload being distinct, as those of a dictionary are), and for a
  nested list of the payload the recipe is associated with exactly the rows of the requester
  that match an entry of the list, every entry having such a row. The update returns whenever
  no two rows of the tag table and of the ingredient table share (user, name) and every nested
  entry carries a name.
\<close>

theorem patch_persists:
  "(handle (Some u) (UpdateTag pk payload) s = (status, b, s') \<and>
    (\<exists>r \<in> set (rows (Tag_objects s)). row_id r = pk \<and> row_user r = u) \<longrightarrow>
      status = 200 \<and>
      (\<exists>r \<in> set (rows (Tag_objects s')). row_id r = pk) \<and>
      (\<forall>r \<in> set (rows (Tag_objects s')). row_id r = pk \<longrightarrow>
         row_user r = u \<and> (\<forall>n. payload = Some n \<longrightarrow> row_name r = n))) \<and>
   (handle (Some u) (UpdateIngredient pk payload) s = (status, b, s') \<and>
    (\<exists>r \<in> set (rows (Ingredient_objects s)). row_id r = pk \<and> row_user r = u) \<longrightarrow>
      status = 200 \<and>
      (\<exists>r \<in> set (rows (Ingredient_objects s')). row_id r = pk) \<and>
      (\<forall>r \<in> set (rows (Ingredient_objects s')). row_id r = pk \<longrightarrow>
         row_user r = u \<and> (\<forall>n. payload = Some n \<longrightarrow> row_name r = n))) \<and>
   (handle (Some u) (UpdateRecipe pk validated) s = (status, b, s') \<and>
    find (\<lambda>r. recipe_id r = pk \<and> owned_by u r) (Recipe_objects s) = Some instance \<and>
    (\<exists>i s1. update u instance validated s = (Inr i, s1)) \<and>
    distinct (map fst (vd_items validated)) \<longrightarrow>
      status = 200 \<and>
      (\<exists>r \<in> set (Recipe_objects s'). recipe_id r = pk) \<and>
      (\<forall>r \<in> set (Recipe_objects s'). recipe_id r = pk \<longrightarrow>
         (\<forall>(k, v) \<in> set (vd_items validated). map_of (attrs r) k = Some v)) \<and>
      (\<forall>tags. vd_tags validated = Some tags \<longrightarrow>
         (\<forall>kw \<in> set tags. \<exists>r \<in> set (rows (Tag_objects s')).
            matches u kw r \<and> (pk, row_id r) \<in> set (recipe_tags s')) \<and>
         (\<forall>oid. (pk, oid) \<in> set (recipe_tags s') \<longleftrightarrow>
            (\<exists>r \<in> set (rows (Tag_objects s')). row_id r = oid \<and>
               (\<exists>kw \<in> set tags. matches u kw r)))) \<and>
      (\<forall>ingredients. vd_ingredients validated = Some ingredients \<longrightarrow>
         (\<forall>kw \<in> set ingredients. \<exists>r \<in> set (rows (Ingredient_objects s')).
            matches u kw r \<and> (pk, row_id r) \<in> set (recipe_ingredients s')) \<and>
         (\<forall>oid. (pk, oid) \<in> set (recipe_ingredients s') \<longleftrightarrow>
            (\<exists>r \<in> set (rows (Ingredient_objects s')). row_id r = oid \<and>
               (\<exists>kw \<in> set ingredients. matches u kw r))))) \<and>
   (uniq (Tag_objects s) \<and> uniq (Ingredient_objects s) \<and>
    named (nested (vd_tags validated)) \<and> named (nested (vd_ingredients validated)) \<longrightarrow>
      (\<exists>i s1. update u instance validated s = (Inr i, s1)))"
proof (intro conjI impI)
  assume a: "handle (Some u) (UpdateTag pk payload) s = (status, b, s') \<and>
    (\<exists>r \<in> set (rows (Tag_objects s)). row_id r = pk \<and> row_user r = u)"
  from handle_update_tag[of s pk u payload] a obtain r' where
    r: "status = 200"
      "s' = s\<lparr>Tag_objects := (Tag_objects s)\<lparr>rows :=
        map (\<lambda>x. if row_id x = pk then r' else x) (rows (Tag_objects s))\<rparr>\<rparr>"
      "row_id r' = pk" "row_user r' = u" "\<forall>n. payload = Some n \<longrightarrow> row_name r' = n" by auto
  have e: "\<exists>r \<in> set (rows (Tag_objects s)). row_id r = pk" using a by blast
  show "status = 200" by (rule r(1))
  show "\<exists>r \<in> set (rows (Tag_objects s')). row_id r = pk"
    using map_replace_row[OF e r(3)] by (simp add: r(2))
  show "\<forall>r \<in> set (rows (Tag_objects s')). row_id r = pk \<longrightarrow>
         row_user r = u \<and> (\<forall>n. payload = Some n \<longrightarrow> row_name r = n)"
    using map_replace_row[OF e r(3)] r(4,5) by (simp add: r(2)) blast
next
  assume a: "handle (Some u) (UpdateIngredient pk payload) s = (status, b, s') \<and>
    (\<exists>r \<in> set (rows (Ingredient_objects s)). row_id r = pk \<and> row_user r = u)"
  from handle_update_ingredient[of s pk u payload] a obtain r' where
    r: "status = 200"
      "s' = s\<lparr>Ingredient_objects := (Ingredient_objects s)\<lparr>rows :=
        map (\<lambda>x. if row_id x = pk then r' else x) (rows (Ingredient_objects s))\<rparr>\<rparr>"
      "row_id r' = pk" "row_user r' = u" "\<forall>n. payload = Some n \<longrightarrow> row_name r' = n" by auto
  have e: "\<exists>r \<in> set (rows (Ingredient_objects s)). row_id r = pk" using a by blast
  show "status = 200" by (rule r(1))
  show "\<exists>r \<in> set (rows (Ingredient_objects s')). row_id r = pk"
    using map_replace_row[OF e r(3)] by (simp add: r(2))
  show "\<forall>r \<in> set (rows (Ingredient_objects s')). row_id r = pk \<longrightarrow>
         row_user r = u \<and> (\<forall>n. payload = Some n \<longrightarrow> row_name r = n)"
    using map_replace_row[OF e r(3)] r(4,5) by (simp add: r(2)) blast
next
  assume a: "handle (Some u) (UpdateRecipe pk validated) s = (status, b, s') \<and>
    find (\<lambda>r. recipe_id r = pk \<and> owned_by u r) (Recipe_objects s) = Some instance \<and>
    (\<exists>i s1. update u instance validated s = (Inr i, s1)) \<and>
    distinct (map fst (vd_items validated))"
  then obtain i s1 where up: "update u instance validated s = (Inr i, s1)" by blast
  from a have f: "find (\<lambda>r. recipe_id r = pk \<and> owned_by u r) (Recipe_objects s) = Some instance"
    and d: "distinct (map fst (vd_items validated))" by simp_all
  from handle_update_recipe[OF f up] a have r: "status = 200" "s' = s1" by simp_all
  have inst: "recipe_id instance = pk" "instance \<in> set (Recipe_objects s)"
    using find_SomeD[OF f] by simp_all
  have up': "update u instance validated s = (Inr i, s')" using up r(2) by simp
  have i: "i = set_items (vd_items validated) instance" by (rule update_ok_item[OF up])
  have iid: "recipe_id i = pk" using i inst(1) by (simp add: set_items_id)
  have ex: "\<exists>r \<in> set (Recipe_objects s). recipe_id r = pk" using inst by blast
  have rows: "Recipe_objects s' =
      map (\<lambda>r. if recipe_id r = pk then i else r) (Recipe_objects s)"
    using update_ok_saved[OF up] inst r(2) by auto
  show "status = 200" by (rule r(1))
  show "\<exists>r \<in> set (Recipe_objects s'). recipe_id r = pk"
    unfolding rows using map_replace_recipe[OF ex iid] by blast
  show "\<forall>r \<in> set (Recipe_objects s'). recipe_id r = pk \<longrightarrow>
         (\<forall>(k, v) \<in> set (vd_items validated). map_of (attrs r) k = Some v)"
  proof (rule ballI, rule impI)
    fix r assume "r \<in> set (Recipe_objects s')" "recipe_id r = pk"
    then have "r = i" unfolding rows using map_replace_recipe[OF ex iid] by blast
    then show "\<forall>(k, v) \<in> set (vd_items validated). map_of (attrs r) k = Some v"
      using set_items_persist[OF d] i by auto
  qed
  show "\<forall>tags. vd_tags validated = Some tags \<longrightarrow>
         (\<forall>kw \<in> set tags. \<exists>r \<in> set (rows (Tag_objects s')).
            matches u kw r \<and> (pk, row_id r) \<in> set (recipe_tags s')) \<and>
         (\<forall>oid. (pk, oid) \<in> set (recipe_tags s') \<longleftrightarrow>
            (\<exists>r \<in> set (rows (Tag_objects s')). row_id r = oid \<and>
               (\<exists>kw \<in> set tags. matches u kw r)))"
  proof (rule allI, rule impI, rule conjI)
    fix tags assume v: "vd_tags validated = Some tags"
    show "\<forall>kw \<in> set tags. \<exists>r \<in> set (rows (Tag_objects s')).
            matches u kw r \<and> (pk, row_id r) \<in> set (recipe_tags s')"
      using update_ok_tags(2)[OF up' v] inst(1) by simp
    show "\<forall>oid. (pk, oid) \<in> set (recipe_tags s') \<longleftrightarrow>
            (\<exists>r \<in> set (rows (Tag_objects s')). row_id r = oid \<and>
               (\<exists>kw \<in> set tags. matches u kw r))"
      using update_ok_tags(1)[OF up' v] inst(1) by simp
  qed
  show "\<forall>ingredients. vd_ingredients validated = Some ingredients \<longrightarrow>
         (\<forall>kw \<in> set ingredients. \<exists>r \<in> set (rows (Ingredient_objects s')).
            matches u kw r \<and> (pk, row_id r) \<in> set (recipe_ingredients s')) \<and>
         (\<forall>oid. (pk, oid) \<in> set (recipe_ingredients s') \<longleftrightarrow>
            (\<exists>r \<in> set (rows (Ingredient_objects s')). row_id r = oid \<and>
               (\<exists>kw \<in> set ingredients. matches u kw r)))"
  proof (rule allI, rule impI, rule conjI)
    fix ingredients assume v: "vd_ingredients validated = Some ingredients"
    show "\<forall>kw \<in> set ingredients. \<exists>r \<in> set (rows (Ingredient_objects s')).
            matches u kw r \<and> (pk, row_id r) \<in> set (recipe_ingredients s')"
      using update_ok_ingredients(2)[OF up' v] inst(1) by simp
    show "\<forall>oid. (pk, oid) \<in> set (recipe_ingredients s') \<longleftrightarrow>
            (\<exists>r \<in> set (rows (Ingredient_objects s')). row_id r = oid \<and>
               (\<exists>kw \<in> set ingredients. matches u kw r))"
      using update_ok_ingredients(1)[OF up' v] inst(1) by simp
  qed
next
  assume "uniq (Tag_objects s) \<and> uniq (Ingredient_objects s) \<and>
    named (nested (vd_tags validated)) \<and> named (nested (vd_ingredients validated))"
  then show "\<exists>i s1. update u instance validated s = (Inr i, s1)"
    using update_succeeds by blast
qed

theorem patch_persists_witness:
  "(\<exists>r \<in> set (rows (Tag_objects db0)). row_id r = 2 \<and> row_user r = 7) \<and>
   fst (handle (Some 7) (UpdateTag 2 (Some ''Cake'')) db0) = 200 \<and>
   \<lparr>row_id = 2, row_user = 7, row_name = ''Cake''\<rparr> \<in>
     set (rows (Tag_objects (snd (snd (handle (Some 7) (UpdateTag 2 (Some ''Cake'')) db0))))) \<and>
   \<not> (\<exists>r \<in> set (rows (Tag_objects (snd (snd (handle (Some 7) (UpdateTag 2 (Some ''Cake'')) db0))))).
        row_id r = 2 \<and> row_name r \<noteq> ''Cake'') \<and>
   fst (handle (Some 7) (UpdateTag 2 None) db0) = 200 \<and>
   (\<exists>r \<in> set (rows (Tag_objects (snd (snd (handle (Some 7) (UpdateTag 2 None) db0))))).
        row_id r = 2) \<and>
   (\<exists>r \<in> set (rows (Ingredient_objects db0)). row_id r = 1 \<and> row_user r = 7) \<and>
   fst (handle (Some 7) (UpdateIngredient 1 (Some ''Pepper'')) db0) = 200 \<and>
   \<not> (\<exists>r \<in> set (rows (Ingredient_objects
                (snd (snd (handle (Some 7) (UpdateIngredient 1 (Some ''Pepper'')) db0))))).
        row_id r = 1 \<and> row_name r \<noteq> ''Pepper'') \<and>
   find (\<lambda>r. recipe_id r = 1 \<and> owned_by 7 r) (Recipe_objects db0) = Some recipe1 \<and>
   uniq (Tag_objects db0) \<and> uniq (Ingredient_objects db0) \<and>
   named (nested (vd_tags patch7)) \<and> named (nested (vd_ingredients patch7)) \<and>
   distinct (map fst (vd_items patch7)) \<and>
   vd_tags patch7 = Some [Some ''Dessert'', Some ''Lunch''] \<and>
   vd_ingredients patch7 = Some [Some ''Pepper'', Some ''Flour''] \<and>
   (\<exists>i s1. update 7 recipe1 patch7 db0 = (Inr i, s1)) \<and>
   fst (handle (Some 7) (UpdateRecipe 1 patch7) db0) = 200 \<and>
   \<not> (\<exists>r \<in> set (Recipe_objects (snd (snd (handle (Some 7) (UpdateRecipe 1 patch7) db0)))).
        recipe_id r = 1 \<and> map_of (attrs r) ''title'' \<noteq> Some (Str ''Tart'')) \<and>
   (\<exists>r \<in> set (rows (Tag_objects (snd (snd (handle (Some 7) (UpdateRecipe 1 patch7) db0))))).
      matches 7 (Some ''Lunch'') r \<and>
      (1, row_id r) \<in> set (recipe_tags (snd (snd (handle (Some 7) (UpdateRecipe 1 patch7) db0))))) \<and>
   (1, 1) \<notin> set (recipe_tags (snd (snd (handle (Some 7) (UpdateRecipe 1 patch7) db0)))) \<and>
   (1, 2) \<in> set (recipe_tags (snd (snd (handle (Some 7) (UpdateRecipe 1 patch7) db0)))) \<and>
   (\<exists>r \<in> set (rows (Ingredient_objects (snd (snd (handle (Some 7) (UpdateRecipe 1 patch7) db0))))).
      matches 7 (Some ''Flour'') r \<and>
      (1, row_id r) \<in>
        set (recipe_ingredients (snd (snd (handle (Some 7) (UpdateRecipe 1 patch7) db0))))) \<and>
   (1, 1) \<notin> set (recipe_ingredients (snd (snd (handle (Some 7) (UpdateRecipe 1 patch7) db0)))) \<and>
   (1, 2) \<in> set (recipe_ingredients (snd (snd (handle (Some 7) (UpdateRecipe 1 patch7) db0))))"
proof -
  have e: "\<exists>r \<in> set (rows (Tag_objects db0)). row_id r = 2 \<and> row_user r = 7"
    "\<exists>r \<in> set (rows (Ingredient_objects db0)). row_id r = 1 \<and> row_user r = 7"
    by (simp_all add: db0_def)
  have f: "find (\<lambda>r. recipe_id r = 1 \<and> owned_by 7 r) (Recipe_objects db0) = Some recipe1"
    by (simp add: db0_def recipe1_def owned_by_def)
  have u: "uniq (Tag_objects db0)" "uniq (Ingredient_objects db0)"
    by (simp_all add: uniq_def db0_def)
  have n: "named (nested (vd_tags patch7))" "named (nested (vd_ingredients patch7))"
    by (simp_all add: named_def nested_def patch7_def)
  have d: "distinct (map fst (vd_items patch7))" by (simp add: patch7_def)
  have v: "vd_tags patch7 = Some [Some ''Dessert'', Some ''Lunch'']"
    "vd_ingredients patch7 = Some [Some ''Pepper'', Some ''Flour'']"
    by (simp_all add: patch7_def)
  have k: "(''title'', Str ''Tart'') \<in> set (vd_items patch7)" by (simp add: patch7_def)
  have c: "\<lparr>row_id = 2, row_user = 7, row_name = ''Cake''\<rparr> \<in>
     set (rows (Tag_objects (snd (snd (handle (Some 7) (UpdateTag 2 (Some ''Cake'')) db0)))))"
    by code_simp
  have tr: "rows (Tag_objects (snd (snd (handle (Some 7) (UpdateRecipe 1 patch7) db0)))) =
      [\<lparr>row_id = 1, row_user = 7, row_name = ''Vegan''\<rparr>,
       \<lparr>row_id = 2, row_user = 7, row_name = ''Dessert''\<rparr>,
       \<lparr>row_id = 3, row_user = 8, row_name = ''Vegan''\<rparr>,
       \<lparr>row_id = 4, row_user = 7, row_name = ''Lunch''\<rparr>]"
    by code_simp
  have ir: "rows (Ingredient_objects (snd (snd (handle (Some 7) (UpdateRecipe 1 patch7) db0)))) =
      [\<lparr>row_id = 1, row_user = 7, row_name = ''Salt''\<rparr>,
       \<lparr>row_id = 2, row_user = 7, row_name = ''Pepper''\<rparr>,
       \<lparr>row_id = 3, row_user = 7, row_name = ''Flour''\<rparr>]"
    by code_simp
  have h0: "handle (Some 7) (UpdateTag 2 None) db0 =
      (fst (handle (Some 7) (UpdateTag 2 None) db0),
       fst (snd (handle (Some 7) (UpdateTag 2 None) db0)),
       snd (snd (handle (Some 7) (UpdateTag 2 None) db0)))" by simp
  have h1: "handle (Some 7) (UpdateTag 2 (Some ''Cake'')) db0 =
      (fst (handle (Some 7) (UpdateTag 2 (Some ''Cake'')) db0),
       fst (snd (handle (Some 7) (UpdateTag 2 (Some ''Cake'')) db0)),
       snd (snd (handle (Some 7) (UpdateTag 2 (Some ''Cake'')) db0)))" by simp
  have h2: "handle (Some 7) (UpdateIngredient 1 (Some ''Pepper'')) db0 =
      (fst (handle (Some 7) (UpdateIngredient 1 (Some ''Pepper'')) db0),
       fst (snd (handle (Some 7) (UpdateIngredient 1 (Some ''Pepper'')) db0)),
       snd (snd (handle (Some 7) (UpdateIngredient 1 (Some ''Pepper'')) db0)))" by simp
  have h3: "handle (Some 7) (UpdateRecipe 1 patch7) db0 =
      (fst (handle (Some 7) (UpdateRecipe 1 patch7) db0),
       fst (snd (handle (Some 7) (UpdateRecipe 1 patch7) db0)),
       snd (snd (handle (Some 7) (UpdateRecipe 1 patch7) db0)))" by simp
  note t0 = patch_persists[of 7 2 None db0 _ _ _ patch7 recipe1]
  note t1 = patch_persists[of 7 2 "Some ''Cake''" db0 _ _ _ patch7 recipe1]
  note t2 = patch_persists[of 7 1 "Some ''Pepper''" db0 _ _ _ patch7 recipe1]
  have r: "\<exists>i s1. update 7 recipe1 patch7 db0 = (Inr i, s1)"
    using conjunct2[OF conjunct2[OF conjunct2[OF t2]]] u n by blast
  note z = mp[OF conjunct1[OF t0], OF conjI[OF h0 e(1)]]
  note a = mp[OF conjunct1[OF t1], OF conjI[OF h1 e(1)]]
  note b = mp[OF conjunct1[OF conjunct2[OF t2]], OF conjI[OF h2 e(2)]]
  note p = mp[OF conjunct1[OF conjunct2[OF conjunct2[OF t2]]],
      OF conjI[OF h3 conjI[OF f conjI[OF r d]]]]
  note p1 = conjunct1[OF p]
  note p2 = conjunct1[OF conjunct2[OF conjunct2[OF p]]]
  note p3 = mp[OF spec[OF conjunct1[OF conjunct2[OF conjunct2[OF conjunct2[OF p]]]]] v(1)]
  note p4 = mp[OF spec[OF conjunct2[OF conjunct2[OF conjunct2[OF conjunct2[OF p]]]]] v(2)]
  have z1: "fst (handle (Some 7) (UpdateTag 2 None) db0) = 200" by (rule conjunct1[OF z])
  have z2: "\<exists>r \<in> set (rows (Tag_objects (snd (snd (handle (Some 7) (UpdateTag 2 None) db0))))).
        row_id r = 2"
    by (rule conjunct1[OF conjunct2[OF z]])
  have a1: "fst (handle (Some 7) (UpdateTag 2 (Some ''Cake'')) db0) = 200"
    by (rule conjunct1[OF a])
  have a2: "\<not> (\<exists>r \<in> set (rows (Tag_objects (snd (snd (handle (Some 7) (UpdateTag 2 (Some ''Cake'')) db0))))).
        row_id r = 2 \<and> row_name r \<noteq> ''Cake'')"
    using conjunct2[OF conjunct2[OF a]] by blast
  have b1: "fst (handle (Some 7) (UpdateIngredient 1 (Some ''Pepper'')) db0) = 200"
    by (rule conjunct1[OF b])
  have b2: "\<not> (\<exists>r \<in> set (rows (Ingredient_objects
                (snd (snd (handle (Some 7) (UpdateIngredient 1 (Some ''Pepper'')) db0))))).
        row_id r = 1 \<and> row_name r \<noteq> ''Pepper'')"
    using conjunct2[OF conjunct2[OF b]] by blast
  have p': "\<not> (\<exists>r \<in> set (Recipe_objects (snd (snd (handle (Some 7) (UpdateRecipe 1 patch7) db0)))).
        recipe_id r = 1 \<and> map_of (attrs r) ''title'' \<noteq> Some (Str ''Tart''))"
    using p2 k by fastforce
  have q1: "\<exists>r \<in> set (rows (Tag_objects (snd (snd (handle (Some 7) (UpdateRecipe 1 patch7) db0))))).
      matches 7 (Some ''Lunch'') r \<and>
      (1, row_id r) \<in> set (recipe_tags (snd (snd (handle (Some 7) (UpdateRecipe 1 patch7) db0))))"
    using conjunct1[OF p3] by simp
  have q2: "(1, 1) \<notin> set (recipe_tags (snd (snd (handle (Some 7) (UpdateRecipe 1 patch7) db0))))"
    unfolding spec[OF conjunct2[OF p3]] tr by (simp add: matches_def)
  have q3: "(1, 2) \<in> set (recipe_tags (snd (snd (handle (Some 7) (UpdateRecipe 1 patch7) db0))))"
    unfolding spec[OF conjunct2[OF p3]] tr by (simp add: matches_def)
  have q4: "\<exists>r \<in> set (rows (Ingredient_objects (snd (snd (handle (Some 7) (UpdateRecipe 1 patch7) db0))))).
      matches 7 (Some ''Flour'') r \<and>
      (1, row_id r) \<in>
        set (recipe_ingredients (snd (snd (handle (Some 7) (UpdateRecipe 1 patch7) db0))))"
    using conjunct1[OF p4] by simp
  have q5: "(1, 1) \<notin> set (recipe_ingredients (snd (snd (handle (Some 7) (UpdateRecipe 1 patch7) db0))))"
    unfolding spec[OF conjunct2[OF p4]] ir by (simp add: matches_def)
  have q6: "(1, 2) \<in> set (recipe_ingredients (snd (snd (handle (Some 7) (UpdateRecipe 1 patch7) db0))))"
    unfolding spec[OF conjunct2[OF p4]] ir by (simp add: matches_def)
  from e(1) a1 c a2 z1 z2 e(2) b1 b2 f u n d v r p1 p' q1 q2 q3 q4 q5 q6
  show ?thesis by (intro conjI)
qed

text \<open>
  The claim as first stated, for every valid payload, fails for a recipe: \<open>update\<close> raises
  \<^verbatim>\<open>MultipleObjectsReturned\<close> when a nested entry matches two rows, before it sets the
  attributes and saves, so nothing of the payload is persisted and the response is not 200.
  Here user 7 renames the tag Dessert to Vegan (status 200: nothing on that path looks for
  another tag of that name), and then the PATCH of recipe 1 with the tag Vegan and a new
  title raises; the title is still the old one.
\<close>

theorem patch_counterexample:
  "uniq (Tag_objects db0) \<and> uniq (Ingredient_objects db0) \<and>
   fst (handle (Some 7) (UpdateTag 2 (Some ''Vegan'')) db0) = 200 \<and>
   Recipe_objects (snd (snd (handle (Some 7) (UpdateTag 2 (Some ''Vegan'')) db0))) = [recipe1] \<and>
   recipe_id recipe1 = 1 \<and> owned_by 7 recipe1 \<and>
   vd_tags patch4 = Some [Some ''Vegan''] \<and> vd_items patch4 = [(''title'', Str ''Tart'')] \<and>
   fst (update 7 recipe1 patch4 (snd (snd (handle (Some 7) (UpdateTag 2 (Some ''Vegan'')) db0)))) =
     Inl MultipleObjectsReturned \<and>
   fst (handle (Some 7) (UpdateRecipe 1 patch4)
          (snd (snd (handle (Some 7) (UpdateTag 2 (Some ''Vegan'')) db0)))) = 500 \<and>
   Recipe_objects (snd (snd (handle (Some 7) (UpdateRecipe 1 patch4)
          (snd (snd (handle (Some 7) (UpdateTag 2 (Some ''Vegan'')) db0)))))) =
     [\<lparr>recipe_id = 1, attrs = [(''title'', Str ''Pie''), (''user'', Ref 7)]\<rparr>]"
  by code_simp

text \<open>
  An entry without a name does the same on the database \<open>db0\<close> as it is, since it matches
  both tags of user 7.
\<close>

lemma nameless_entry_raises:
  "vd_tags patch5 = Some [None] \<and>
   fst (update 7 recipe1 patch5 db0) = Inl MultipleObjectsReturned \<and>
   Recipe_objects (snd (update 7 recipe1 patch5 db0)) = Recipe_objects db0"
  by code_simp

text \<open>
  Claim C8. For every authenticated DELETE of an existing tag owned by the requester, the
  status is 204, no row of the table has the key of the record afterwards, and no later list
  request, by any user and with or without the filter, returns a record with that key. The
  same holds for ingredients.
\<close>

theorem delete_removes:
  "(handle (Some u) (DeleteTag pk) s = (status, b, s') \<and>
    (\<exists>r \<in> set (rows (Tag_objects s)). row_id r = pk \<and> row_user r = u) \<longrightarrow>
      status = 204 \<and>
      (\<forall>r \<in> set (rows (Tag_objects s')). row_id r \<noteq> pk) \<and>
      (\<forall>auth a st rs s''. handle auth (ListTags a) s' = (st, Rows rs, s'') \<longrightarrow>
         (\<forall>r \<in> set rs. row_id r \<noteq> pk))) \<and>
   (handle (Some u) (DeleteIngredient pk) s = (status, b, s') \<and>
    (\<exists>r \<in> set (rows (Ingredient_objects s)). row_id r = pk \<and> row_user r = u) \<longrightarrow>
      status = 204 \<and>
      (\<forall>r \<in> set (rows (Ingredient_objects s')). row_id r \<noteq> pk) \<and>
      (\<forall>auth a st rs s''. handle auth (ListIngredients a) s' = (st, Rows rs, s'') \<longrightarrow>
         (\<forall>r \<in> set rs. row_id r \<noteq> pk)))"
proof (intro conjI impI)
  assume a: "handle (Some u) (DeleteTag pk) s = (status, b, s') \<and>
    (\<exists>r \<in> set (rows (Tag_objects s)). row_id r = pk \<and> row_user r = u)"
  from delete_row_Some[of "Tag_objects s" pk u "recipe_tags s"] a
  have r: "status = 204"
    "s' = s\<lparr>Tag_objects := (Tag_objects s)\<lparr>rows := filter (\<lambda>x. row_id x \<noteq> pk) (rows (Tag_objects s))\<rparr>,
            recipe_tags := filter (\<lambda>p. snd p \<noteq> pk) (recipe_tags s)\<rparr>"
    by (auto simp: handle_def)
  show "status = 204" by (rule r(1))
  show gone: "\<forall>r \<in> set (rows (Tag_objects s')). row_id r \<noteq> pk" by (simp add: r(2))
  show "\<forall>auth a st rs s''. handle auth (ListTags a) s' = (st, Rows rs, s'') \<longrightarrow>
         (\<forall>r \<in> set rs. row_id r \<noteq> pk)"
    using handle_list_rows gone by blast
next
  assume a: "handle (Some u) (DeleteIngredient pk) s = (status, b, s') \<and>
    (\<exists>r \<in> set (rows (Ingredient_objects s)). row_id r = pk \<and> row_user r = u)"
  from delete_row_Some[of "Ingredient_objects s" pk u "recipe_ingredients s"] a
  have r: "status = 204"
    "s' = s\<lparr>Ingredient_objects := (Ingredient_objects s)\<lparr>rows := filter (\<lambda>x. row_id x \<noteq> pk) (rows (Ingredient_objects s))\<rparr>,
            recipe_ingredients := filter (\<lambda>p. snd p \<noteq> pk) (recipe_ingredients s)\<rparr>"
    by (auto simp: handle_def)
  show "status = 204" by (rule r(1))
  show gone: "\<forall>r \<in> set (rows (Ingredient_objects s')). row_id r \<noteq> pk" by (simp add: r(2))
  show "\<forall>auth a st rs s''. handle auth (ListIngredients a) s' = (st, Rows rs, s'') \<longrightarrow>
         (\<forall>r \<in> set rs. row_id r \<noteq> pk)"
    using handle_list_rows' gone by blast
qed

theorem delete_removes_witness:
  "(\<exists>r \<in> set (rows (Tag_objects db0)). row_id r = 2 \<and> row_user r = 7) \<and>
   fst (handle (Some 7) (DeleteTag 2) db0) = 204 \<and>
   \<not> (\<exists>r \<in> set (rows (Tag_objects (snd (snd (handle (Some 7) (DeleteTag 2) db0))))). row_id r = 2) \<and>
   (\<exists>r \<in> set (rows (Ingredient_objects db0)). row_id r = 1 \<and> row_user r = 7) \<and>
   fst (handle (Some 7) (DeleteIngredient 1) db0) = 204 \<and>
   \<not> (\<exists>r \<in> set (rows (Ingredient_objects (snd (snd (handle (Some 7) (DeleteIngredient 1) db0))))).
        row_id r = 1)"
proof -
  have e: "\<exists>r \<in> set (rows (Tag_objects db0)). row_id r = 2 \<and> row_user r = 7"
    "\<exists>r \<in> set (rows (Ingredient_objects db0)). row_id r = 1 \<and> row_user r = 7"
    by (simp_all add: db0_def)
  have h: "handle (Some 7) (DeleteTag 2) db0 =
      (fst (handle (Some 7) (DeleteTag 2) db0), fst (snd (handle (Some 7) (DeleteTag 2) db0)),
       snd (snd (handle (Some 7) (DeleteTag 2) db0)))" by simp
  have h': "handle (Some 7) (DeleteIngredient 1) db0 =
      (fst (handle (Some 7) (DeleteIngredient 1) db0),
       fst (snd (handle (Some 7) (DeleteIngredient 1) db0)),
       snd (snd (handle (Some 7) (DeleteIngredient 1) db0)))" by simp
  note a = mp[OF conjunct1[OF delete_removes[of 7 2 db0 _ _ _]], OF conjI[OF h e(1)]]
  note b = mp[OF conjunct2[OF delete_removes[of 7 1 db0 _ _ _]], OF conjI[OF h' e(2)]]
  from a b e show ?thesis by blast
qed

text \<open>
  Claim C9. For every recipe create whose validated payload omits the \<^verbatim>\<open>tags\<close> key: the
  outcome is that of the same payload with the empty list, the recipe-tag relation is what it
  was, and the created recipe, whose key is the next of the sequence, has no tag association,
  provided every key in the relation was handed out before. The same holds for
  \<^verbatim>\<open>ingredients\<close>. So create takes an omitted nested field for the empty list, where
  update, given the same payload, leaves the relation as it is.
\<close>

theorem create_omitted_nested:
  assumes "create auth_user validated s = (res, s')"
  shows "\<lparr>recipe_id = Recipe_seq s, attrs = vd_items validated\<rparr> \<in> set (Recipe_objects s') \<and>
         (\<forall>recipe. res = Inr recipe \<longrightarrow> recipe_id recipe = Recipe_seq s) \<and>
         (vd_tags validated = None \<longrightarrow>
            create auth_user validated s = create auth_user (validated\<lparr>vd_tags := Some []\<rparr>) s \<and>
            recipe_tags s' = recipe_tags s \<and>
            ((\<forall>p \<in> set (recipe_tags s). fst p < Recipe_seq s) \<longrightarrow>
               (\<forall>oid. (Recipe_seq s, oid) \<notin> set (recipe_tags s')))) \<and>
         (vd_ingredients validated = None \<longrightarrow>
            create auth_user validated s =
              create auth_user (validated\<lparr>vd_ingredients := Some []\<rparr>) s \<and>
            recipe_ingredients s' = recipe_ingredients s \<and>
            ((\<forall>p \<in> set (recipe_ingredients s). fst p < Recipe_seq s) \<longrightarrow>
               (\<forall>oid. (Recipe_seq s, oid) \<notin> set (recipe_ingredients s')))) \<and>
         (update auth_user instance validated s = (res2, s2) \<and> vd_tags validated = None \<longrightarrow>
            recipe_tags s2 = recipe_tags s) \<and>
         (update auth_user instance validated s = (res2, s2) \<and> vd_ingredients validated = None \<longrightarrow>
            recipe_ingredients s2 = recipe_ingredients s)"
proof (intro conjI impI allI)
  show "\<lparr>recipe_id = Recipe_seq s, attrs = vd_items validated\<rparr> \<in> set (Recipe_objects s')"
    by (rule create_row[OF assms])
next
  fix recipe assume "res = Inr recipe"
  then have "create auth_user validated s = (Inr recipe, s')" using assms by simp
  from create_ok_recipe[OF this] show "recipe_id recipe = Recipe_seq s" by simp
next
  assume n: "vd_tags validated = None"
  show "create auth_user validated s = create auth_user (validated\<lparr>vd_tags := Some []\<rparr>) s"
    by (rule create_absent_as_empty(1)[OF n])
  show eq: "recipe_tags s' = recipe_tags s" by (rule create_tags_absent[OF assms n])
  fix oid assume "\<forall>p \<in> set (recipe_tags s). fst p < Recipe_seq s"
  then show "(Recipe_seq s, oid) \<notin> set (recipe_tags s')" using eq by fastforce
next
  assume n: "vd_ingredients validated = None"
  show "create auth_user validated s = create auth_user (validated\<lparr>vd_ingredients := Some []\<rparr>) s"
    by (rule create_absent_as_empty(2)[OF n])
  show eq: "recipe_ingredients s' = recipe_ingredients s"
    by (rule create_ingredients_absent[OF assms n])
  fix oid assume "\<forall>p \<in> set (recipe_ingredients s). fst p < Recipe_seq s"
  then show "(Recipe_seq s, oid) \<notin> set (recipe_ingredients s')" using eq by fastforce
next
  assume "update auth_user instance validated s = (res2, s2) \<and> vd_tags validated = None"
  then show "recipe_tags s2 = recipe_tags s" using update_tags_run by fastforce
next
  assume "update auth_user instance validated s = (res2, s2) \<and> vd_ingredients validated = None"
  then show "recipe_ingredients s2 = recipe_ingredients s" using update_ingredients_run by fastforce
qed

theorem create_omitted_nested_witness:
  "vd_tags patch2 = None \<and> vd_ingredients patch2 = None \<and>
   recipe_tags db0 = [(1, 1)] \<and> recipe_ingredients db0 = [(1, 1)] \<and> Recipe_seq db0 = 2 \<and>
   fst (create 7 patch2 db0) =
     Inr \<lparr>recipe_id = 2, attrs = [(''title'', Str ''Soup''), (''user'', Ref 7)]\<rparr> \<and>
   (\<forall>oid. (Recipe_seq db0, oid) \<notin> set (recipe_tags (snd (create 7 patch2 db0)))) \<and>
   (\<forall>oid. (Recipe_seq db0, oid) \<notin> set (recipe_ingredients (snd (create 7 patch2 db0)))) \<and>
   recipe_tags (snd (update 7 recipe1 patch2 db0)) = recipe_tags db0 \<and>
   recipe_ingredients (snd (update 7 recipe1 patch2 db0)) = recipe_ingredients db0"
proof -
  have v: "vd_tags patch2 = None" "vd_ingredients patch2 = None" by (simp_all add: patch2_def)
  have d: "recipe_tags db0 = [(1, 1)]" "recipe_ingredients db0 = [(1, 1)]" "Recipe_seq db0 = 2"
    by (simp_all add: db0_def)
  have w: "\<forall>p \<in> set (recipe_tags db0). fst p < Recipe_seq db0"
    "\<forall>p \<in> set (recipe_ingredients db0). fst p < Recipe_seq db0"
    by (simp_all add: d)
  have c: "fst (create 7 patch2 db0) =
     Inr \<lparr>recipe_id = 2, attrs = [(''title'', Str ''Soup''), (''user'', Ref 7)]\<rparr>"
    by code_simp
  have h: "create 7 patch2 db0 = (fst (create 7 patch2 db0), snd (create 7 patch2 db0))" by simp
  have h2: "update 7 recipe1 patch2 db0 =
      (fst (update 7 recipe1 patch2 db0), snd (update 7 recipe1 patch2 db0))" by simp
  note t = create_omitted_nested[OF h, of recipe1 "fst (update 7 recipe1 patch2 db0)"
      "snd (update 7 recipe1 patch2 db0)"]
  from t v w have
    "\<forall>oid. (Recipe_seq db0, oid) \<notin> set (recipe_tags (snd (create 7 patch2 db0)))"
    "\<forall>oid. (Recipe_seq db0, oid) \<notin> set (recipe_ingredients (snd (create 7 patch2 db0)))"
    by blast+
  moreover from t v h2 have
    "recipe_tags (snd (update 7 recipe1 patch2 db0)) = recipe_tags db0"
    "recipe_ingredients (snd (update 7 recipe1 patch2 db0)) = recipe_ingredients db0"
    by blast+
  ultimately show ?thesis using v d c by simp
qed

text \<open>
  Claim C10, as amended. For every recipe create or update whose nested \<^verbatim>\<open>tags\<close> list
  contains twice the same entry carrying a name, the outcome (result or exception, and database)
  equals that of the payload with the later occurrence removed; when the operation returns and
  the relation holds no pair twice, exactly one tag of the requesting user has that name and
  the recipe holds exactly one association to it (\<open>once\<close>). For any entry, with a name or
  without, whenever the operation on the list with the duplicate returns, the operation on
  the list without it returns the same. The same holds for \<^verbatim>\<open>ingredients\<close>.
\<close>

theorem duplicate_named_entry:
  "(vd_tags validated = Some (xs @ Some n # ys @ Some n # zs) \<longrightarrow>
      create auth_user validated s =
        create auth_user (validated\<lparr>vd_tags := Some (xs @ Some n # ys @ zs)\<rparr>) s \<and>
      update auth_user instance validated s =
        update auth_user instance (validated\<lparr>vd_tags := Some (xs @ Some n # ys @ zs)\<rparr>) s \<and>
      (distinct (recipe_tags s) \<longrightarrow>
         (\<forall>recipe s'. create auth_user validated s = (Inr recipe, s') \<longrightarrow>
            once auth_user n (recipe_id recipe) (Tag_objects s') (recipe_tags s')) \<and>
         (\<forall>updated s'. update auth_user instance validated s = (Inr updated, s') \<longrightarrow>
            once auth_user n (recipe_id instance) (Tag_objects s') (recipe_tags s')))) \<and>
   (vd_ingredients validated = Some (xs @ Some n # ys @ Some n # zs) \<longrightarrow>
      create auth_user validated s =
        create auth_user (validated\<lparr>vd_ingredients := Some (xs @ Some n # ys @ zs)\<rparr>) s \<and>
      update auth_user instance validated s =
        update auth_user instance
          (validated\<lparr>vd_ingredients := Some (xs @ Some n # ys @ zs)\<rparr>) s \<and>
      (distinct (recipe_ingredients s) \<longrightarrow>
         (\<forall>recipe s'. create auth_user validated s = (Inr recipe, s') \<longrightarrow>
            once auth_user n (recipe_id recipe) (Ingredient_objects s') (recipe_ingredients s')) \<and>
         (\<forall>updated s'. update auth_user instance validated s = (Inr updated, s') \<longrightarrow>
            once auth_user n (recipe_id instance) (Ingredient_objects s')
              (recipe_ingredients s')))) \<and>
   (vd_tags validated = Some (xs @ kw # ys @ kw # zs) \<longrightarrow>
      (\<forall>recipe s'. create auth_user validated s = (Inr recipe, s') \<longrightarrow>
         create auth_user (validated\<lparr>vd_tags := Some (xs @ kw # ys @ zs)\<rparr>) s = (Inr recipe, s')) \<and>
      (\<forall>updated s'. update auth_user instance validated s = (Inr updated, s') \<longrightarrow>
         update auth_user instance (validated\<lparr>vd_tags := Some (xs @ kw # ys @ zs)\<rparr>) s =
           (Inr updated, s'))) \<and>
   (vd_ingredients validated = Some (xs @ kw # ys @ kw # zs) \<longrightarrow>
      (\<forall>recipe s'. create auth_user validated s = (Inr recipe, s') \<longrightarrow>
         create auth_user (validated\<lparr>vd_ingredients := Some (xs @ kw # ys @ zs)\<rparr>) s =
           (Inr recipe, s')) \<and>
      (\<forall>updated s'. update auth_user instance validated s = (Inr updated, s') \<longrightarrow>
         update auth_user instance (validated\<lparr>vd_ingredients := Some (xs @ kw # ys @ zs)\<rparr>) s =
           (Inr updated, s')))"
proof (intro conjI impI allI)
  assume v: "vd_tags validated = Some (xs @ Some n # ys @ Some n # zs)"
  show "create auth_user validated s =
        create auth_user (validated\<lparr>vd_tags := Some (xs @ Some n # ys @ zs)\<rparr>) s"
    by (rule create_dup_named(1)[OF v])
  show "update auth_user instance validated s =
        update auth_user instance (validated\<lparr>vd_tags := Some (xs @ Some n # ys @ zs)\<rparr>) s"
    by (rule update_dup_named(1)[OF v])
  assume d: "distinct (recipe_tags s)"
  have m: "Some n \<in> set (xs @ Some n # ys @ Some n # zs)" by simp
  {
    fix recipe s' assume "create auth_user validated s = (Inr recipe, s')"
    from create_once(1)[OF this v m d]
    show "once auth_user n (recipe_id recipe) (Tag_objects s') (recipe_tags s')" .
  }
  {
    fix updated s' assume "update auth_user instance validated s = (Inr updated, s')"
    from update_once(1)[OF this v m d]
    show "once auth_user n (recipe_id instance) (Tag_objects s') (recipe_tags s')" .
  }
next
  assume v: "vd_ingredients validated = Some (xs @ Some n # ys @ Some n # zs)"
  show "create auth_user validated s =
        create auth_user (validated\<lparr>vd_ingredients := Some (xs @ Some n # ys @ zs)\<rparr>) s"
    by (rule create_dup_named(2)[OF v])
  show "update auth_user instance validated s =
        update auth_user instance (validated\<lparr>vd_ingredients := Some (xs @ Some n # ys @ zs)\<rparr>) s"
    by (rule update_dup_named(2)[OF v])
  assume d: "distinct (recipe_ingredients s)"
  have m: "Some n \<in> set (xs @ Some n # ys @ Some n # zs)" by simp
  {
    fix recipe s' assume "create auth_user validated s = (Inr recipe, s')"
    from create_once(2)[OF this v m d]
    show "once auth_user n (recipe_id recipe) (Ingredient_objects s') (recipe_ingredients s')" .
  }
  {
    fix updated s' assume "update auth_user instance validated s = (Inr updated, s')"
    from update_once(2)[OF this v m d]
    show "once auth_user n (recipe_id instance) (Ingredient_objects s') (recipe_ingredients s')" .
  }
next
  fix recipe s'
  assume "vd_tags validated = Some (xs @ kw # ys @ kw # zs)"
    "create auth_user validated s = (Inr recipe, s')"
  then show "create auth_user (validated\<lparr>vd_tags := Some (xs @ kw # ys @ zs)\<rparr>) s = (Inr recipe, s')"
    using create_dup_returns_tags by simp
next
  fix updated s'
  assume "vd_tags validated = Some (xs @ kw # ys @ kw # zs)"
    "update auth_user instance validated s = (Inr updated, s')"
  then show "update auth_user instance (validated\<lparr>vd_tags := Some (xs @ kw # ys @ zs)\<rparr>) s =
           (Inr updated, s')"
    using update_dup_returns_tags by simp
next
  fix recipe s'
  assume "vd_ingredients validated = Some (xs @ kw # ys @ kw # zs)"
    "create auth_user validated s = (Inr recipe, s')"
  then show "create auth_user (validated\<lparr>vd_ingredients := Some (xs @ kw # ys @ zs)\<rparr>) s =
           (Inr recipe, s')"
    using create_dup_returns_ingredients by simp
next
  fix updated s'
  assume "vd_ingredients validated = Some (xs @ kw # ys @ kw # zs)"
    "update auth_user instance validated s = (Inr updated, s')"
  then show "update auth_user instance (validated\<lparr>vd_ingredients := Some (xs @ kw # ys @ zs)\<rparr>) s =
           (Inr updated, s')"
    using update_dup_returns_ingredients by simp
qed


theorem duplicate_named_entry_witness:
  "vd_tags patch3 = Some [Some ''Lunch'', Some ''Vegan'', Some ''Lunch''] \<and>
   vd_ingredients patch3 = Some [Some ''Lunch'', Some ''Vegan'', Some ''Lunch''] \<and>
   distinct (recipe_tags db0) \<and> distinct (recipe_ingredients db0) \<and>
   create 7 patch3 db0 = create 7 (patch3\<lparr>vd_tags := Some [Some ''Lunch'', Some ''Vegan'']\<rparr>) db0 \<and>
   update 7 recipe1 patch3 db0 =
     update 7 recipe1 (patch3\<lparr>vd_tags := Some [Some ''Lunch'', Some ''Vegan'']\<rparr>) db0 \<and>
   create 7 patch3 db0 =
     create 7 (patch3\<lparr>vd_ingredients := Some [Some ''Lunch'', Some ''Vegan'']\<rparr>) db0 \<and>
   update 7 recipe1 patch3 db0 =
     update 7 recipe1 (patch3\<lparr>vd_ingredients := Some [Some ''Lunch'', Some ''Vegan'']\<rparr>) db0 \<and>
   fst (create 7 patch3 db0) = Inr \<lparr>recipe_id = 2, attrs = []\<rparr> \<and>
   fst (update 7 recipe1 patch3 db0) = Inr recipe1 \<and>
   once 7 ''Lunch'' 2 (Tag_objects (snd (create 7 patch3 db0)))
     (recipe_tags (snd (create 7 patch3 db0))) \<and>
   once 7 ''Lunch'' (recipe_id recipe1) (Tag_objects (snd (update 7 recipe1 patch3 db0)))
     (recipe_tags (snd (update 7 recipe1 patch3 db0))) \<and>
   once 7 ''Lunch'' 2 (Ingredient_objects (snd (create 7 patch3 db0)))
     (recipe_ingredients (snd (create 7 patch3 db0))) \<and>
   once 7 ''Lunch'' (recipe_id recipe1) (Ingredient_objects (snd (update 7 recipe1 patch3 db0)))
     (recipe_ingredients (snd (update 7 recipe1 patch3 db0))) \<and>
   vd_tags patch6 = Some [None, None] \<and> vd_ingredients patch6 = Some [None, None] \<and>
   fst (update 8 recipe8 patch6 db1) = Inr recipe8 \<and>
   update 8 recipe8 (patch6\<lparr>vd_tags := Some [None]\<rparr>) db1 =
     (Inr recipe8, snd (update 8 recipe8 patch6 db1)) \<and>
   update 8 recipe8 (patch6\<lparr>vd_ingredients := Some [None]\<rparr>) db1 =
     (Inr recipe8, snd (update 8 recipe8 patch6 db1)) \<and>
   fst (create 8 patch6 db1) = Inr \<lparr>recipe_id = 2, attrs = []\<rparr> \<and>
   create 8 (patch6\<lparr>vd_tags := Some [None]\<rparr>) db1 =
     (Inr \<lparr>recipe_id = 2, attrs = []\<rparr>, snd (create 8 patch6 db1)) \<and>
   create 8 (patch6\<lparr>vd_ingredients := Some [None]\<rparr>) db1 =
     (Inr \<lparr>recipe_id = 2, attrs = []\<rparr>, snd (create 8 patch6 db1))"
proof -
  have v: "vd_tags patch3 = Some ([] @ Some ''Lunch'' # [Some ''Vegan''] @ Some ''Lunch'' # [])"
    "vd_ingredients patch3 = Some ([] @ Some ''Lunch'' # [Some ''Vegan''] @ Some ''Lunch'' # [])"
    by (simp_all add: patch3_def)
  have d: "distinct (recipe_tags db0)" "distinct (recipe_ingredients db0)"
    by (simp_all add: db0_def)
  have c: "fst (create 7 patch3 db0) = Inr \<lparr>recipe_id = 2, attrs = []\<rparr>" by code_simp
  have p: "fst (update 7 recipe1 patch3 db0) = Inr recipe1" by code_simp
  have c': "create 7 patch3 db0 = (Inr \<lparr>recipe_id = 2, attrs = []\<rparr>, snd (create 7 patch3 db0))"
    using c by (metis prod.collapse)
  have p': "update 7 recipe1 patch3 db0 = (Inr recipe1, snd (update 7 recipe1 patch3 db0))"
    using p by (metis prod.collapse)
  note t = duplicate_named_entry[of patch3 "[]" "''Lunch''" "[Some ''Vegan'']" "[]" 7 db0 recipe1]
  note a = mp[OF conjunct1[OF t] v(1)]
  note b = mp[OF conjunct1[OF conjunct2[OF t]] v(2)]
  note a3 = mp[OF conjunct2[OF conjunct2[OF a]] d(1)]
  note b3 = mp[OF conjunct2[OF conjunct2[OF b]] d(2)]
  note e1 = conjunct1[OF a, simplified]
  note e2 = conjunct1[OF conjunct2[OF a], simplified]
  note e3 = conjunct1[OF b, simplified]
  note e4 = conjunct1[OF conjunct2[OF b], simplified]
  have o1: "once 7 ''Lunch'' 2 (Tag_objects (snd (create 7 patch3 db0)))
       (recipe_tags (snd (create 7 patch3 db0)))"
    using conjunct1[OF a3, rule_format, OF c'] by simp
  have o2: "once 7 ''Lunch'' (recipe_id recipe1) (Tag_objects (snd (update 7 recipe1 patch3 db0)))
       (recipe_tags (snd (update 7 recipe1 patch3 db0)))"
    using conjunct2[OF a3, rule_format, OF p'] .
  have o3: "once 7 ''Lunch'' 2 (Ingredient_objects (snd (create 7 patch3 db0)))
       (recipe_ingredients (snd (create 7 patch3 db0)))"
    using conjunct1[OF b3, rule_format, OF c'] by simp
  have o4: "once 7 ''Lunch'' (recipe_id recipe1) (Ingredient_objects (snd (update 7 recipe1 patch3 db0)))
       (recipe_ingredients (snd (update 7 recipe1 patch3 db0)))"
    using conjunct2[OF b3, rule_format, OF p'] .
  have v': "vd_tags patch3 = Some [Some ''Lunch'', Some ''Vegan'', Some ''Lunch'']"
    "vd_ingredients patch3 = Some [Some ''Lunch'', Some ''Vegan'', Some ''Lunch'']"
    using v by simp_all
  have w: "vd_tags patch6 = Some ([] @ None # [] @ None # [])"
    "vd_ingredients patch6 = Some ([] @ None # [] @ None # [])"
    by (simp_all add: patch6_def)
  have w': "vd_tags patch6 = Some [None, None]" "vd_ingredients patch6 = Some [None, None]"
    using w by simp_all
  have q: "fst (update 8 recipe8 patch6 db1) = Inr recipe8" by code_simp
  have q': "update 8 recipe8 patch6 db1 = (Inr recipe8, snd (update 8 recipe8 patch6 db1))"
    using q by (metis prod.collapse)
  have g: "fst (create 8 patch6 db1) = Inr \<lparr>recipe_id = 2, attrs = []\<rparr>" by code_simp
  have g': "create 8 patch6 db1 = (Inr \<lparr>recipe_id = 2, attrs = []\<rparr>, snd (create 8 patch6 db1))"
    using g by (metis prod.collapse)
  note t6 = duplicate_named_entry[of patch6 "[]" _ "[]" "[]" 8 db1 recipe8 None]
  note a6 = mp[OF conjunct1[OF conjunct2[OF conjunct2[OF t6]]] w(1)]
  note b6 = mp[OF conjunct2[OF conjunct2[OF conjunct2[OF t6]]] w(2)]
  note f1 = conjunct2[OF a6, rule_format, OF q', simplified]
  note f2 = conjunct2[OF b6, rule_format, OF q', simplified]
  note f3 = conjunct1[OF a6, rule_format, OF g', simplified]
  note f4 = conjunct1[OF b6, rule_format, OF g', simplified]
  show ?thesis using v' d e1 e2 e3 e4 c p o1 o2 o3 o4 w' q f1 f2 g f3 f4 by (intro conjI)
qed

text \<open>
  The claim as first stated, for any entry, fails for the entry without a name: it matches
  every tag of the user, so after another tag of the user was made in between, its second
  occurrence finds two rows and raises, while the payload without the second occurrence
  returns. User 8 owns one tag; the update of recipe 1 with the entries
  \<^verbatim>\<open>[{}, {'name': 'Lunch'}, {}]\<close> raises, with \<^verbatim>\<open>[{}, {'name': 'Lunch'}]\<close> it returns.
\<close>

theorem duplicate_entry_counterexample:
  "fst (update 8 recipe8 \<lparr>vd_tags = Some [None, Some ''Lunch'', None], vd_ingredients = None,
                           vd_items = []\<rparr> db1) = Inl MultipleObjectsReturned \<and>
   fst (update 8 recipe8 \<lparr>vd_tags = Some [None, Some ''Lunch''], vd_ingredients = None,
                           vd_items = []\<rparr> db1) = Inr recipe8"
  by code_simp

end
